theory Spec2Isabelle
  imports Main "HOL-Library.AList"
begin

section \<open>The k4s event loop: data model\<close>

text \<open>
  The development embeds the terminal application's event loop (the file that declares
  \<open>App\<close>, \<open>Update\<close> and \<open>handleKeyMsg\<close>), its modal dialogs and the multi-pod
  log viewer. Rendering (\<open>View\<close> and the \<open>render...\<close> functions), styles and logger
  calls have no effect on the state or on the commands returned and are left out.
  Code the loop calls but that is outside the given sources (the Bubble Tea, Bubbles and
  huh libraries, the cluster and SSH adapters, and the viewers and lists of the repository
  that are not among the sources) is taken as a parameter, the record \<open>Ext\<close> below.
\<close>

subsection \<open>Views, connection status, errors\<close>

datatype ViewState =
    ViewKubeConfigSelect
  | ViewConnecting
  | ViewNamespaces
  | ViewPods
  | ViewPodDetails
  | ViewLogs
  | ViewMain
  | ViewSSHHosts
  | ViewSSHConnecting
  | ViewCrictlContainers
  | ViewCrictlLogs
  | ViewNodeInfo
  | ViewDeployments
  | ViewDeploymentDetails
  | ViewServices
  | ViewServiceDetails
  | ViewEvents
  | ViewMultiPodLogs

text \<open>\<open>domain.ConnectionStatus\<close>: the four constants the loop uses.\<close>

datatype ConnectionStatus =
    StatusDisconnected
  | StatusConnecting
  | StatusConnected
  | StatusError

text \<open>
  Go's \<open>error\<close> values: \<open>nil\<close> is \<open>None\<close>; the two sentinel errors the loop compares
  against (\<open>context.Canceled\<close>, \<open>ssh.ErrPassphraseRequired\<close>) and any other error.
\<close>

datatype error =
    Canceled
  | ErrPassphraseRequired
  | OtherError string

subsection \<open>The multi-pod log viewer\<close>

text \<open>
  The string builder of \<open>updateContent\<close> is kept as the sequence of pieces written
  to it: plain text, or text rendered with the header style.
\<close>

datatype Chunk =
    Plain string
  | HeaderStyled string

datatype YPos = AtTop | AtBottom | Scrolled int

record Viewport =
  vp_content :: "Chunk list"
  vp_width :: int
  vp_height :: int
  vp_ypos :: YPos

definition viewport_New :: "int \<Rightarrow> int \<Rightarrow> Viewport" where
  "viewport_New w h = \<lparr>vp_content = [], vp_width = w, vp_height = h, vp_ypos = AtTop\<rparr>"

text \<open>
  \<open>viewport.SetContent\<close> replaces every carriage return followed by a line feed by a
  line feed. The content is one string: pieces of plain text written one after the other
  are joined before the replacement; a piece rendered with the header style is kept as it
  is.
\<close>

fun crlfToLf :: "string \<Rightarrow> string" where
  "crlfToLf (c # d # s) =
     (if c = CHR 0x0D \<and> d = CHR 0x0A then d # crlfToLf s else c # crlfToLf (d # s))"
| "crlfToLf s = s"

fun joinPlain :: "Chunk list \<Rightarrow> Chunk list" where
  "joinPlain (Plain s # Plain t # cs) = joinPlain (Plain (s @ t) # cs)"
| "joinPlain (c # cs) = c # joinPlain cs"
| "joinPlain [] = []"

fun normalizeChunk :: "Chunk \<Rightarrow> Chunk" where
  "normalizeChunk (Plain s) = Plain (crlfToLf s)"
| "normalizeChunk (HeaderStyled s) = HeaderStyled s"

definition SetContent :: "Chunk list \<Rightarrow> Viewport \<Rightarrow> Viewport" where
  "SetContent c vp = vp\<lparr>vp_content := map normalizeChunk (joinPlain c)\<rparr>"

definition GotoTop :: "Viewport \<Rightarrow> Viewport" where
  "GotoTop vp = vp\<lparr>vp_ypos := AtTop\<rparr>"

definition GotoBottom :: "Viewport \<Rightarrow> Viewport" where
  "GotoBottom vp = vp\<lparr>vp_ypos := AtBottom\<rparr>"

record MultiPodLogEntry =
  PodName :: string
  Container :: string
  Line :: string

record MultiPodLogViewer =
  mpv_pods :: "string list"
  mpv_entries :: "MultiPodLogEntry list"
  mpv_viewport :: Viewport
  mpv_width :: int
  mpv_height :: int
  mpv_ready :: bool
  mpv_following :: bool
  mpv_autoScroll :: bool
  mpv_totalLines :: int
  mpv_lastSource :: string

definition newline :: string where
  "newline = [CHR 0x0A]"

definition TrimSuffix :: "string \<Rightarrow> string \<Rightarrow> string" where
  "TrimSuffix s suf =
     (if length suf \<le> length s \<and> drop (length s - length suf) s = suf
      then take (length s - length suf) s else s)"

definition NewMultiPodLogViewer :: MultiPodLogViewer where
  "NewMultiPodLogViewer =
     \<lparr>mpv_pods = [], mpv_entries = [], mpv_viewport = viewport_New 0 0,
      mpv_width = 0, mpv_height = 0, mpv_ready = False, mpv_following = True,
      mpv_autoScroll = True, mpv_totalLines = 0, mpv_lastSource = []\<rparr>"

text \<open>The source of an entry, as \<open>updateContent\<close> builds it.\<close>

definition sourceOf :: "MultiPodLogEntry \<Rightarrow> string" where
  "sourceOf e = PodName e @ ''/'' @ Container e"

text \<open>
  The loop of \<open>updateContent\<close>: \<open>i\<close> is the index of the entry, \<open>n\<close> the number of
  entries, \<open>lastSource\<close> the local variable of that name.
\<close>

fun renderEntries :: "nat \<Rightarrow> nat \<Rightarrow> string \<Rightarrow> MultiPodLogEntry list \<Rightarrow> Chunk list" where
  "renderEntries i n lastSource [] = []"
| "renderEntries i n lastSource (e # es) =
     (let source = sourceOf e in
      (if source \<noteq> lastSource
       then (if lastSource \<noteq> [] then [Plain newline] else [])
            @ [HeaderStyled (''==> '' @ source @ '' <=='')]
            @ [Plain newline]
       else [])
      @ [Plain (Line e)]
      @ (if int i < int n - 1 then [Plain newline] else [])
      @ renderEntries (Suc i) n (if source \<noteq> lastSource then source else lastSource) es)"

definition updateContent :: "MultiPodLogViewer \<Rightarrow> MultiPodLogViewer" where
  "updateContent v =
     (if \<not> mpv_ready v then v
      else if length (mpv_entries v) = 0
      then v\<lparr>mpv_viewport := SetContent [Plain ''Waiting for logs...''] (mpv_viewport v)\<rparr>
      else v\<lparr>mpv_viewport :=
               SetContent (renderEntries 0 (length (mpv_entries v)) [] (mpv_entries v))
                 (mpv_viewport v)\<rparr>)"

definition SetPods :: "string list \<Rightarrow> MultiPodLogViewer \<Rightarrow> MultiPodLogViewer" where
  "SetPods ps v =
     (let v1 = v\<lparr>mpv_pods := ps, mpv_entries := [], mpv_totalLines := 0,
                  mpv_lastSource := [], mpv_following := True, mpv_autoScroll := True\<rparr>
      in if mpv_ready v1
         then v1\<lparr>mpv_viewport :=
                   GotoTop (SetContent [Plain ''Waiting for logs...''] (mpv_viewport v1))\<rparr>
         else v1)"

definition SetSize :: "int \<Rightarrow> int \<Rightarrow> MultiPodLogViewer \<Rightarrow> MultiPodLogViewer" where
  "SetSize w h v =
     updateContent (v\<lparr>mpv_width := w, mpv_height := h, mpv_viewport := viewport_New w h,
                      mpv_ready := True\<rparr>)"

definition AppendEntry :: "MultiPodLogEntry \<Rightarrow> MultiPodLogViewer \<Rightarrow> MultiPodLogViewer" where
  "AppendEntry entry v =
     (let line = TrimSuffix (Line entry) newline in
      if line = [] then v
      else
        let v1 = updateContent
                   (v\<lparr>mpv_entries := mpv_entries v @ [entry\<lparr>Line := line\<rparr>],
                      mpv_totalLines := mpv_totalLines v + 1\<rparr>)
        in if mpv_following v1 \<and> mpv_autoScroll v1 \<and> mpv_ready v1
           then v1\<lparr>mpv_viewport := GotoBottom (mpv_viewport v1)\<rparr>
           else v1)"

definition Clear :: "MultiPodLogViewer \<Rightarrow> MultiPodLogViewer" where
  "Clear v =
     updateContent (v\<lparr>mpv_entries := [], mpv_totalLines := 0, mpv_lastSource := [],
                      mpv_pods := []\<rparr>)"

definition SetFollowing :: "bool \<Rightarrow> MultiPodLogViewer \<Rightarrow> MultiPodLogViewer" where
  "SetFollowing f v = v\<lparr>mpv_following := f, mpv_autoScroll := f\<rparr>"

definition ToggleFollowing :: "MultiPodLogViewer \<Rightarrow> MultiPodLogViewer" where
  "ToggleFollowing v =
     (let v1 = v\<lparr>mpv_following := \<not> mpv_following v, mpv_autoScroll := \<not> mpv_following v\<rparr>
      in if mpv_following v1 \<and> mpv_ready v1
         then v1\<lparr>mpv_viewport := GotoBottom (mpv_viewport v1)\<rparr>
         else v1)"

text \<open>Appending a sequence of entries, one \<open>AppendEntry\<close> call after the other.\<close>

definition appendAll :: "MultiPodLogEntry list \<Rightarrow> MultiPodLogViewer \<Rightarrow> MultiPodLogViewer" where
  "appendAll es v = foldl (\<lambda>w e. AppendEntry e w) v es"

text \<open>The header lines of a rendered content: the pieces written with the header style.\<close>

fun isHeader :: "Chunk \<Rightarrow> bool" where
  "isHeader (HeaderStyled s) = True"
| "isHeader (Plain s) = False"

definition headerCount :: "MultiPodLogViewer \<Rightarrow> nat" where
  "headerCount v = length (filter isHeader (vp_content (mpv_viewport v)))"

text \<open>
  The specification's count: the number of places in a sequence of source keys where a key
  differs from the key appended just before it.
\<close>

fun adjacentSourceChanges :: "string list \<Rightarrow> nat" where
  "adjacentSourceChanges [] = 0"
| "adjacentSourceChanges [k] = 0"
| "adjacentSourceChanges (k # k' # ks) =
     (if k \<noteq> k' then 1 else 0) + adjacentSourceChanges (k' # ks)"

text \<open>The entries \<open>AppendEntry\<close> keeps: those whose line is not empty once trimmed.\<close>

definition keptEntries :: "MultiPodLogEntry list \<Rightarrow> MultiPodLogEntry list" where
  "keptEntries es =
     map (\<lambda>e. e\<lparr>Line := TrimSuffix (Line e) newline\<rparr>)
       (filter (\<lambda>e. TrimSuffix (Line e) newline \<noteq> []) es)"


subsection \<open>Domain values\<close>

text \<open>
  The \<open>domain\<close> package, the cluster client and the SSH client are outside the given
  sources; the loop reads only the fields below.
\<close>

datatype KubeConfig = KubeConfig (kc_Name: string) (kc_Path: string)

datatype SSHHost = SSHHost (sh_Name: string)

record Config =
  KubeConfigs :: "KubeConfig list"
  SSHHosts :: "SSHHost list"

datatype Namespace = Namespace (ns_Name: string)

text \<open>A pod with the names of its containers.\<close>

datatype Pod = Pod (pod_Name: string) (pod_Containers: "string list")

datatype CrictlContainer = CrictlContainer (cc_ContainerID: string) (cc_Name: string)

datatype Deployment = Deployment (dep_Name: string) (dep_Replicas: int)

datatype Service = Service (svc_Name: string)

text \<open>The cluster client: the loop reads and sets its current namespace.\<close>

datatype Client = Client (CurrentNamespace: string)

datatype ClusterInfo = ClusterInfo (ci_Namespace: string)

text \<open>The SSH client: the host it was created for and the passphrase set on it.\<close>

datatype SSHClient = SSHClient (sc_host: SSHHost) (sc_passphrase: string)

type_synonym PodEvent = string
type_synonym Event = string
type_synonym NodeInfo = string
type_synonym PodMetrics = "(string \<times> string) list"
type_synonym MetricsClient = string

record LogOptions =
  lo_Container :: string
  lo_TailLines :: int
  lo_Timestamps :: bool
  lo_Follow :: bool

record CrictlLogOptions =
  clo_TailLines :: int
  clo_Timestamps :: bool
  clo_Follow :: bool

subsection \<open>Messages and commands\<close>

text \<open>
  A \<open>tea.Msg\<close>: the message types the loop declares, the key and window-size messages
  of the runtime, and \<open>OtherMsg\<close> for every other message (the internal messages of
  the form, list and viewport libraries).
\<close>

datatype Msg =
    KeyMsg string
  | WindowSizeMsg int int
  | connectResultMsg "Client option" "ClusterInfo option" "error option"
  | namespacesResultMsg "Namespace list" "error option"
  | podsResultMsg "Pod list" "error option"
  | podDetailsResultMsg "Pod option" "PodEvent list" "error option"
  | podRefreshTickMsg
  | eventRefreshTickMsg
  | podDeleteResultMsg string "error option"
  | podRestartResultMsg string "error option"
  | notificationExpiredMsg
  | containersResultMsg "string list" "error option"
  | logsResultMsg string "error option"
  | logLineMsg string
  | logStreamEndedMsg "error option"
  | multiPodLogLineMsg string string string
  | multiPodLogStreamEndedMsg string "error option"
  | sshConnectResultMsg "error option"
  | sshCrictlContainersMsg "CrictlContainer list" "error option"
  | sshNodeInfoMsg "NodeInfo option" "error option"
  | sshCrictlLogsMsg string "error option"
  | sshCrictlLogLineMsg string
  | sshCrictlLogStreamEndedMsg "error option"
  | deploymentsResultMsg "Deployment list" "error option"
  | deploymentDetailsResultMsg "Deployment option" "error option"
  | deploymentScaleResultMsg string int "error option"
  | deploymentRestartResultMsg string "error option"
  | deploymentDeleteResultMsg string "error option"
  | servicesResultMsg "Service list" "error option"
  | serviceDetailsResultMsg "Service option" "error option"
  | eventsResultMsg "Event list" "error option"
  | metricsResultMsg "PodMetrics option" "error option"
  | spinnerTickMsg
  | OtherMsg nat

text \<open>
  A \<open>tea.Cmd\<close>, named after the function of the loop that builds it; \<open>nil\<close> is
  \<open>None\<close>. Channels are named by a number. \<open>ExtCmd\<close> is a command made by code
  outside the sources.
\<close>

datatype Cmd =
    Quit
  | spinnerTick
  | connectToCluster string
  | fetchNamespaces
  | fetchPods
  | fetchPodDetails string
  | schedulePodRefresh
  | scheduleEventRefresh
  | deletePod string
  | restartPod string
  | fetchDeployments
  | fetchDeploymentDetails string
  | scaleDeployment string int
  | restartDeployment string
  | deleteDeployment string
  | fetchServices
  | fetchServiceDetails string
  | fetchEvents
  | fetchMetrics
  | fetchContainers string
  | fetchLogs string string int bool
  | waitForLogLine nat
  | retrySSHConnection
  | fetchCrictlContainers
  | fetchNodeInfo
  | fetchCrictlLogs
  | waitForCrictlLogLine nat
  | waitForMultiPodLogLine string string nat
  | ExtCmd nat
  | Batch "Cmd list"

text \<open>
  \<open>tea.Batch\<close> leaves the \<open>nil\<close> commands out: it returns \<open>nil\<close> when no command is
  left, the command itself when one is left, and a batch of them otherwise.
\<close>

definition tea_Batch :: "Cmd option list \<Rightarrow> Cmd option" where
  "tea_Batch cs =
     (case List.map_filter id cs of
        [] \<Rightarrow> None
      | [c] \<Rightarrow> Some c
      | c # c' # rest \<Rightarrow> Some (Batch (c # c' # rest)))"

text \<open>The tasks a returned command stands for, batches flattened.\<close>

fun tasksOf :: "Cmd \<Rightarrow> Cmd list" where
  "tasksOf (Batch cs) = concat (map tasksOf cs)"
| "tasksOf c = [c]"

definition tasks :: "Cmd option \<Rightarrow> Cmd list" where
  "tasks c = (case c of None \<Rightarrow> [] | Some c' \<Rightarrow> tasksOf c')"

subsection \<open>Library components\<close>

text \<open>A \<open>huh.Form\<close>: its state, and the rest of it, which the loop never reads.\<close>

datatype FormState = StateNormal | StateCompleted | StateAborted

record Form =
  State :: FormState
  form_rest :: nat

definition huh_NewForm :: Form where
  "huh_NewForm = \<lparr>State = StateNormal, form_rest = 0\<rparr>"

text \<open>
  A Bubbles \<open>list.Model\<close> as the loop observes it. The items of the seven lists are the
  seven item types of the repository; a type assertion on the selected item is a pattern
  match. \<open>hasDelegate\<close>: the item delegate of the list is not \<open>nil\<close>.
\<close>

datatype Item =
    kubeConfigItem KubeConfig
  | namespaceItem Namespace
  | podItem Pod
  | sshHostItem SSHHost
  | crictlContainerItem CrictlContainer
  | deploymentItem Deployment
  | serviceItem Service

datatype FilterState = Unfiltered | Filtering | FilterApplied

record ListModel =
  Items :: "Item list"
  SelectedItem :: "Item option"
  SettingFilter :: bool
  FilterStateOf :: FilterState
  hasDelegate :: bool

subsection \<open>Components of the repository outside the sources\<close>

text \<open>
  Each is a record of what the loop reads from it through its getters, and a rest. Their
  methods that change them are parameters (\<open>Ext\<close>).
\<close>

datatype Opaque = Opaque nat

record LogViewer =
  lv_PodName :: string
  lv_Container :: string
  lv_Containers :: "string list"
  lv_TailLines :: int
  lv_Timestamps :: bool
  lv_IsFollowing :: bool
  lv_SearchQuery :: string
  lv_MatchCount :: int
  lv_rest :: nat

record CrictlLogViewer =
  clv_TailLines :: int
  clv_Timestamps :: bool
  clv_IsFollowing :: bool
  clv_searchQuery :: string
  clv_MatchCount :: int
  clv_rest :: nat

record EventViewer =
  ev_IsFollowing :: bool
  ev_rest :: nat

record DeploymentDetailsModel =
  dd_Deployment :: "Deployment option"
  dd_rest :: nat

datatype LogViewerOp =
    LV_SetSize int int
  | LV_SetContainer string
  | LV_SetPod string string "string list"
  | LV_SetLogs string
  | LV_AppendLog string
  | LV_ToggleFollowing
  | LV_ToggleTimestamps
  | LV_Clear
  | LV_SetSearchQuery string

datatype CrictlLogViewerOp =
    CLV_SetSize int int
  | CLV_SetContainer string string string
  | CLV_SetLogs string
  | CLV_AppendLog string
  | CLV_ToggleFollowing
  | CLV_ToggleTimestamps
  | CLV_Clear
  | CLV_SetSearchQuery string

datatype EventViewerOp =
    EV_SetSize int int
  | EV_SetEvents "Event list"
  | EV_ToggleFollowing
  | EV_ToggleWarningsOnly
  | EV_CycleKindFilter

datatype NotificationType =
    NotificationSuccess
  | NotificationError
  | NotificationWarning
  | NotificationInfo

text \<open>
  Modelled from the spec: the help screen (its file is not among the sources), a modal
  with a visibility flag that \<open>Hide\<close> clears and \<open>Toggle\<close> flips.
\<close>

record HelpScreen =
  hs_visible :: bool

definition hs_Hide :: "HelpScreen \<Rightarrow> HelpScreen" where
  "hs_Hide h = h\<lparr>hs_visible := False\<rparr>"

definition hs_Toggle :: "HelpScreen \<Rightarrow> HelpScreen" where
  "hs_Toggle h = h\<lparr>hs_visible := \<not> hs_visible h\<rparr>"

text \<open>
  Modelled from the spec: the search input (its file is not among the sources), a modal
  with a visibility flag that \<open>Show\<close> sets and \<open>Hide\<close> clears. Its \<open>Update\<close> and
  its match counter are parameters.
\<close>

record SearchInput =
  si_visible :: bool
  si_rest :: nat

definition si_Show :: "SearchInput \<Rightarrow> SearchInput" where
  "si_Show s = s\<lparr>si_visible := True\<rparr>"

definition si_Hide :: "SearchInput \<Rightarrow> SearchInput" where
  "si_Hide s = s\<lparr>si_visible := False\<rparr>"

datatype SearchInputOp =
    SI_SetMatchCount int
  | SI_NextMatch
  | SI_PrevMatch

subsection \<open>Parameters\<close>

text \<open>
  \<open>ViewUpdates\<close>: the \<open>Update\<close> functions of the components the views own (the
  lists, the detail models, the viewers); for the multi-pod log viewer, whose own
  \<open>Update\<close> is among the sources, the \<open>Update\<close> of its viewport.
\<close>

record ViewUpdates =
  list_Update :: "Msg \<Rightarrow> ListModel \<Rightarrow> ListModel \<times> Cmd option"
  podDetails_Update :: "Msg \<Rightarrow> Opaque \<Rightarrow> Opaque \<times> Cmd option"
  logViewer_Update :: "Msg \<Rightarrow> LogViewer \<Rightarrow> LogViewer \<times> Cmd option"
  viewport_Update :: "Msg \<Rightarrow> Viewport \<Rightarrow> Viewport \<times> Cmd option"
  crictlLogViewer_Update :: "Msg \<Rightarrow> CrictlLogViewer \<Rightarrow> CrictlLogViewer \<times> Cmd option"
  deploymentDetails_Update ::
    "Msg \<Rightarrow> DeploymentDetailsModel \<Rightarrow> DeploymentDetailsModel \<times> Cmd option"
  serviceDetails_Update :: "Msg \<Rightarrow> Opaque \<Rightarrow> Opaque \<times> Cmd option"
  eventViewer_Update :: "Msg \<Rightarrow> EventViewer \<Rightarrow> EventViewer \<times> Cmd option"

text \<open>
  \<open>Ext\<close>: everything else the loop calls outside the sources. A form's \<open>Update\<close>
  also writes the variable the form was bound to, so it takes and returns that value.
\<close>

record Ext =
  form_Init :: "Form \<Rightarrow> Cmd option"
  form_Update_Confirm :: "Msg \<Rightarrow> Form \<Rightarrow> bool \<Rightarrow> Form \<times> bool \<times> Cmd option"
  form_Update_Input :: "Msg \<Rightarrow> Form \<Rightarrow> string \<Rightarrow> Form \<times> string \<times> Cmd option"
  form_Update_Select :: "Msg \<Rightarrow> Form \<Rightarrow> string \<Rightarrow> Form \<times> string \<times> Cmd option"
  form_Update_MultiSelect ::
    "Msg \<Rightarrow> Form \<Rightarrow> string list \<Rightarrow> Form \<times> string list \<times> Cmd option"
  searchInput_Update ::
    "Msg \<Rightarrow> SearchInput \<Rightarrow> SearchInput \<times> string \<times> bool \<times> bool \<times> Cmd option"
  searchInput_do :: "SearchInputOp \<Rightarrow> SearchInput \<Rightarrow> SearchInput"
  list_New :: "Item list \<Rightarrow> ListModel"
  list_SetItems :: "Item list \<Rightarrow> ListModel \<Rightarrow> ListModel"
  logViewer_do :: "LogViewerOp \<Rightarrow> LogViewer \<Rightarrow> LogViewer"
  crictlLogViewer_do :: "CrictlLogViewerOp \<Rightarrow> CrictlLogViewer \<Rightarrow> CrictlLogViewer"
  eventViewer_do :: "EventViewerOp \<Rightarrow> EventViewer \<Rightarrow> EventViewer"
  podDetails_SetSize :: "int \<Rightarrow> int \<Rightarrow> Opaque \<Rightarrow> Opaque"
  podDetails_SetPod :: "Pod option \<Rightarrow> PodEvent list \<Rightarrow> Opaque \<Rightarrow> Opaque"
  deploymentDetails_SetSize :: "int \<Rightarrow> int \<Rightarrow> DeploymentDetailsModel \<Rightarrow> DeploymentDetailsModel"
  deploymentDetails_SetDeployment ::
    "Deployment option \<Rightarrow> DeploymentDetailsModel \<Rightarrow> DeploymentDetailsModel"
  serviceDetails_SetSize :: "int \<Rightarrow> int \<Rightarrow> Opaque \<Rightarrow> Opaque"
  serviceDetails_SetService :: "Service option \<Rightarrow> Opaque \<Rightarrow> Opaque"
  notification_Show :: "string \<Rightarrow> NotificationType \<Rightarrow> Opaque \<Rightarrow> Opaque \<times> Cmd option"
  notification_Hide :: "Opaque \<Rightarrow> Opaque"
  notification_SetWidth :: "int \<Rightarrow> Opaque \<Rightarrow> Opaque"
  NewLogViewer :: LogViewer
  NewCrictlLogViewer :: CrictlLogViewer
  NewEventViewer :: EventViewer
  NewPodDetailsModel :: Opaque
  NewDeploymentDetailsModel :: DeploymentDetailsModel
  NewServiceDetailsModel :: Opaque
  NewNotification :: Opaque
  spinner_New :: Opaque
  spinner_Update :: "Msg \<Rightarrow> Opaque \<Rightarrow> Opaque \<times> Cmd option"
  NewMetricsClient :: "string \<Rightarrow> MetricsClient option"
  CheckMetricsAvailable :: "MetricsClient \<Rightarrow> bool"
  error_Error :: "error \<Rightarrow> string"
  Sprintf_d :: "int \<Rightarrow> string"
  ParseInt :: "string \<Rightarrow> int option"


section \<open>The modal dialogs\<close>

text \<open>The key of a key message: \<open>msg.(tea.KeyMsg)\<close> followed by \<open>String()\<close>.\<close>

definition keyOf :: "Msg \<Rightarrow> string option" where
  "keyOf msg = (case msg of KeyMsg k \<Rightarrow> Some k | _ \<Rightarrow> None)"

definition quote :: string where
  "quote = [CHR 0x27]"

subsection \<open>Confirmation dialog\<close>

datatype ConfirmAction =
    ConfirmActionNone
  | ConfirmActionDeletePod
  | ConfirmActionRestartPod
  | ConfirmActionDeleteDeployment
  | ConfirmActionRestartDeployment

record ConfirmDialog =
  cd_action :: ConfirmAction
  cd_title :: string
  cd_message :: string
  cd_targetName :: string
  cd_visible :: bool
  cd_width :: int
  cd_confirmed :: bool
  cd_form :: "Form option"

definition NewConfirmDialog :: ConfirmDialog where
  "NewConfirmDialog =
     \<lparr>cd_action = ConfirmActionNone, cd_title = [], cd_message = [], cd_targetName = [],
      cd_visible = False, cd_width = 0, cd_confirmed = False, cd_form = None\<rparr>"

definition confirmTitle :: "ConfirmAction \<Rightarrow> string" where
  "confirmTitle action =
     (case action of
        ConfirmActionDeletePod \<Rightarrow> ''Delete Pod''
      | ConfirmActionRestartPod \<Rightarrow> ''Restart Pod''
      | ConfirmActionDeleteDeployment \<Rightarrow> ''Delete Deployment''
      | ConfirmActionRestartDeployment \<Rightarrow> ''Restart Deployment''
      | ConfirmActionNone \<Rightarrow> ''Confirm'')"

definition confirmMessage :: "ConfirmAction \<Rightarrow> string \<Rightarrow> string" where
  "confirmMessage action targetName =
     (case action of
        ConfirmActionDeletePod \<Rightarrow>
          ''Are you sure you want to delete pod '' @ quote @ targetName @ quote @ ''?''
      | ConfirmActionRestartPod \<Rightarrow>
          ''Are you sure you want to restart pod '' @ quote @ targetName @ quote @ ''?''
          @ newline @ ''(This will delete the pod; the controller will recreate it)''
      | ConfirmActionDeleteDeployment \<Rightarrow>
          ''Are you sure you want to delete deployment '' @ quote @ targetName @ quote @ ''?''
          @ newline @ ''(All associated pods will be terminated)''
      | ConfirmActionRestartDeployment \<Rightarrow>
          ''Are you sure you want to restart deployment '' @ quote @ targetName @ quote @ ''?''
          @ newline @ ''(This triggers a rolling restart of all pods)''
      | ConfirmActionNone \<Rightarrow> ''Are you sure?'')"

definition cd_Show ::
  "Ext \<Rightarrow> ConfirmAction \<Rightarrow> string \<Rightarrow> ConfirmDialog \<Rightarrow> ConfirmDialog \<times> Cmd option" where
  "cd_Show ext action targetName d =
     (d\<lparr>cd_action := action, cd_targetName := targetName, cd_visible := True,
        cd_confirmed := False, cd_title := confirmTitle action,
        cd_message := confirmMessage action targetName, cd_form := Some huh_NewForm\<rparr>,
      form_Init ext huh_NewForm)"

definition cd_Hide :: "ConfirmDialog \<Rightarrow> ConfirmDialog" where
  "cd_Hide d =
     d\<lparr>cd_visible := False, cd_action := ConfirmActionNone, cd_targetName := [],
       cd_form := None\<rparr>"

text \<open>\<open>Update\<close> returns the dialog with \<open>(confirmed, cancelled, cmd)\<close>.\<close>

definition cd_Update ::
  "Ext \<Rightarrow> Msg \<Rightarrow> ConfirmDialog \<Rightarrow> ConfirmDialog \<times> bool \<times> bool \<times> Cmd option" where
  "cd_Update ext msg d =
     (case cd_form d of
        None \<Rightarrow> (d, False, False, None)
      | Some f \<Rightarrow>
          if \<not> cd_visible d then (d, False, False, None)
          else if keyOf msg = Some ''y'' \<or> keyOf msg = Some ''Y''
          then (d, True, False, None)
          else if keyOf msg = Some ''n'' \<or> keyOf msg = Some ''N'' \<or> keyOf msg = Some ''esc''
          then (d, False, True, None)
          else
            (case form_Update_Confirm ext msg f (cd_confirmed d) of
               (f', c', formCmd) \<Rightarrow>
                 let d' = d\<lparr>cd_form := Some f', cd_confirmed := c'\<rparr> in
                 if State f' = StateCompleted then (d', c', \<not> c', formCmd)
                 else if State f' = StateAborted then (d', False, True, formCmd)
                 else (d', False, False, formCmd)))"

subsection \<open>Scale dialog\<close>

record ScaleDialog =
  sd_deployName :: string
  sd_current :: int
  sd_target :: int
  sd_inputValue :: string
  sd_visible :: bool
  sd_width :: int
  sd_form :: "Form option"

definition NewScaleDialog :: ScaleDialog where
  "NewScaleDialog =
     \<lparr>sd_deployName = [], sd_current = 0, sd_target = 0, sd_inputValue = [],
      sd_visible = False, sd_width = 0, sd_form = None\<rparr>"

definition sd_Show ::
  "Ext \<Rightarrow> string \<Rightarrow> int \<Rightarrow> ScaleDialog \<Rightarrow> ScaleDialog \<times> Cmd option" where
  "sd_Show ext deployName currentReplicas d =
     (d\<lparr>sd_deployName := deployName, sd_current := currentReplicas,
        sd_target := currentReplicas, sd_visible := True,
        sd_inputValue := Sprintf_d ext currentReplicas, sd_form := Some huh_NewForm\<rparr>,
      form_Init ext huh_NewForm)"

definition sd_Hide :: "ScaleDialog \<Rightarrow> ScaleDialog" where
  "sd_Hide d = d\<lparr>sd_visible := False, sd_deployName := [], sd_form := None\<rparr>"

definition sd_Update ::
  "Ext \<Rightarrow> Msg \<Rightarrow> ScaleDialog \<Rightarrow> ScaleDialog \<times> bool \<times> bool \<times> Cmd option" where
  "sd_Update ext msg d =
     (case sd_form d of
        None \<Rightarrow> (d, False, False, None)
      | Some f \<Rightarrow>
          if \<not> sd_visible d then (d, False, False, None)
          else if keyOf msg = Some ''esc'' then (d, False, True, None)
          else
            (case form_Update_Input ext msg f (sd_inputValue d) of
               (f', v', formCmd) \<Rightarrow>
                 let d' = d\<lparr>sd_form := Some f', sd_inputValue := v'\<rparr> in
                 if State f' = StateCompleted
                 then ((case ParseInt ext (sd_inputValue d') of
                          Some val \<Rightarrow> d'\<lparr>sd_target := val\<rparr>
                        | None \<Rightarrow> d'),
                       True, False, formCmd)
                 else if State f' = StateAborted then (d', False, True, formCmd)
                 else (d', False, False, formCmd)))"

subsection \<open>Container selector\<close>

record ContainerSelector =
  cs_containers :: "string list"
  cs_selected :: string
  cs_visible :: bool
  cs_width :: int
  cs_form :: "Form option"

definition NewContainerSelector :: ContainerSelector where
  "NewContainerSelector =
     \<lparr>cs_containers = [], cs_selected = [], cs_visible = False, cs_width = 0,
      cs_form = None\<rparr>"

definition cs_Show ::
  "Ext \<Rightarrow> string list \<Rightarrow> string \<Rightarrow> ContainerSelector \<Rightarrow> ContainerSelector \<times> Cmd option" where
  "cs_Show ext containers currentContainer c =
     (c\<lparr>cs_containers := containers, cs_visible := True,
        cs_selected :=
          (case containers of
             first # _ \<Rightarrow> if currentContainer = [] then first else currentContainer
           | [] \<Rightarrow> currentContainer),
        cs_form := Some huh_NewForm\<rparr>,
      form_Init ext huh_NewForm)"

definition cs_Hide :: "ContainerSelector \<Rightarrow> ContainerSelector" where
  "cs_Hide c = c\<lparr>cs_visible := False, cs_form := None\<rparr>"

definition cs_Update ::
  "Ext \<Rightarrow> Msg \<Rightarrow> ContainerSelector \<Rightarrow> ContainerSelector \<times> bool \<times> bool \<times> Cmd option" where
  "cs_Update ext msg c =
     (case cs_form c of
        None \<Rightarrow> (c, False, False, None)
      | Some f \<Rightarrow>
          if \<not> cs_visible c then (c, False, False, None)
          else if keyOf msg = Some ''esc'' \<or> keyOf msg = Some ''c''
          then (c, False, True, None)
          else
            (case form_Update_Select ext msg f (cs_selected c) of
               (f', v', formCmd) \<Rightarrow>
                 let c' = c\<lparr>cs_form := Some f', cs_selected := v'\<rparr> in
                 if State f' = StateCompleted then (c', True, False, formCmd)
                 else if State f' = StateAborted then (c', False, True, formCmd)
                 else (c', False, False, formCmd)))"

subsection \<open>Pod multi-selector\<close>

definition allPodsValue :: string where
  "allPodsValue = ''__all_pods__''"

record PodMultiSelector =
  pms_visible :: bool
  pms_width :: int
  pms_selected :: "string list"
  pms_allPods :: "string list"
  pms_form :: "Form option"

definition NewPodMultiSelector :: PodMultiSelector where
  "NewPodMultiSelector =
     \<lparr>pms_visible = False, pms_width = 0, pms_selected = [], pms_allPods = [],
      pms_form = None\<rparr>"

definition pms_Show ::
  "Ext \<Rightarrow> Pod list \<Rightarrow> PodMultiSelector \<Rightarrow> PodMultiSelector \<times> Cmd option" where
  "pms_Show ext pods s =
     (s\<lparr>pms_visible := True, pms_selected := [], pms_allPods := map pod_Name pods,
        pms_form := Some huh_NewForm\<rparr>,
      form_Init ext huh_NewForm)"

definition pms_Hide :: "PodMultiSelector \<Rightarrow> PodMultiSelector" where
  "pms_Hide s = s\<lparr>pms_visible := False, pms_form := None\<rparr>"

definition SelectedPods :: "PodMultiSelector \<Rightarrow> string list" where
  "SelectedPods s =
     (if allPodsValue \<in> set (pms_selected s) then pms_allPods s else pms_selected s)"

definition pms_Update ::
  "Ext \<Rightarrow> Msg \<Rightarrow> PodMultiSelector \<Rightarrow> PodMultiSelector \<times> bool \<times> bool \<times> Cmd option" where
  "pms_Update ext msg s =
     (case pms_form s of
        None \<Rightarrow> (s, False, False, None)
      | Some f \<Rightarrow>
          if \<not> pms_visible s then (s, False, False, None)
          else if keyOf msg = Some ''esc'' then (s, False, True, None)
          else
            (case form_Update_MultiSelect ext msg f (pms_selected s) of
               (f', v', formCmd) \<Rightarrow>
                 let s' = s\<lparr>pms_form := Some f', pms_selected := v'\<rparr> in
                 if State f' = StateCompleted then (s', True, False, formCmd)
                 else if State f' = StateAborted then (s', False, True, formCmd)
                 else (s', False, False, formCmd)))"

subsection \<open>Passphrase input\<close>

record PassphraseInput =
  pi_visible :: bool
  pi_hostName :: string
  pi_width :: int
  pi_passphrase :: string
  pi_form :: "Form option"

definition NewPassphraseInput :: PassphraseInput where
  "NewPassphraseInput =
     \<lparr>pi_visible = False, pi_hostName = [], pi_width = 0, pi_passphrase = [],
      pi_form = None\<rparr>"

definition pi_Show :: "Ext \<Rightarrow> string \<Rightarrow> PassphraseInput \<Rightarrow> PassphraseInput \<times> Cmd option" where
  "pi_Show ext hostName p =
     (p\<lparr>pi_visible := True, pi_hostName := hostName, pi_passphrase := [],
        pi_form := Some huh_NewForm\<rparr>,
      form_Init ext huh_NewForm)"

definition pi_Hide :: "PassphraseInput \<Rightarrow> PassphraseInput" where
  "pi_Hide p = p\<lparr>pi_visible := False, pi_form := None, pi_passphrase := []\<rparr>"

text \<open>\<open>Update\<close> returns the input with \<open>(passphrase, submitted, cancelled, cmd)\<close>.\<close>

definition pi_Update ::
  "Ext \<Rightarrow> Msg \<Rightarrow> PassphraseInput \<Rightarrow> PassphraseInput \<times> string \<times> bool \<times> bool \<times> Cmd option" where
  "pi_Update ext msg p =
     (case pi_form p of
        None \<Rightarrow> (p, [], False, False, None)
      | Some f \<Rightarrow>
          if keyOf msg = Some ''esc'' then (p, [], False, True, None)
          else
            (case form_Update_Input ext msg f (pi_passphrase p) of
               (f', v', formCmd) \<Rightarrow>
                 let p' = p\<lparr>pi_form := Some f', pi_passphrase := v'\<rparr> in
                 if State f' = StateCompleted then (p', pi_passphrase p', True, False, formCmd)
                 else if State f' = StateAborted then (p', [], False, True, formCmd)
                 else (p', [], False, False, formCmd)))"


section \<open>The application state\<close>

text \<open>
  Contexts and channels are named by numbers, handed out by the counters \<open>nextCtx\<close>
  and \<open>nextChan\<close>. Calling a cancel function adds its context to \<open>cancelledCtxs\<close>. A
  \<open>go\<close> statement adds the goroutine to \<open>goroutines\<close>, with the arguments of the
  streaming call it makes. \<open>closedSSHClients\<close> lists the clients \<open>Close\<close> was called
  on.
\<close>

datatype Goroutine =
    StreamPodLogs nat string string LogOptions nat
  | StreamContainerLogs nat string CrictlLogOptions nat

datatype panic = NilPointerDereference | NilMapAssignment

record App =
  width :: int
  height :: int
  contentWidth :: int
  sidebarWidth :: int
  showSidebar :: bool
  ready :: bool
  config :: Config
  selectedConfig :: "KubeConfig option"
  viewState :: ViewState
  kubeConfigList :: ListModel
  namespaceList :: ListModel
  podList :: ListModel
  podDetails :: Opaque
  selectedPodName :: string
  pods :: "Pod list option"
  k8sClient :: "Client option"
  clusterInfo :: "ClusterInfo option"
  connectionStatus :: ConnectionStatus
  spinner :: Opaque
  err :: "error option"
  loading :: bool
  podCount :: int
  namespaceCount :: int
  confirmDialog :: ConfirmDialog
  notification :: Opaque
  logViewer :: LogViewer
  logSourceView :: ViewState
  containerSelector :: ContainerSelector
  logStreamCancel :: "nat option"
  logStreamActive :: bool
  logLineChan :: "nat option"
  sshHostList :: ListModel
  sshClient :: "SSHClient option"
  selectedSSHHost :: "SSHHost option"
  crictlContainers :: "CrictlContainer list"
  crictlContainerList :: ListModel
  nodeInfo :: "NodeInfo option"
  passphraseInput :: PassphraseInput
  crictlLogViewer :: CrictlLogViewer
  selectedCrictlContainer :: "CrictlContainer option"
  crictlLogStreamCancel :: "nat option"
  crictlLogStreamActive :: bool
  crictlLogLineChan :: "nat option"
  helpScreen :: HelpScreen
  searchInput :: SearchInput
  deploymentList :: ListModel
  deploymentCount :: int
  deploymentDetails :: DeploymentDetailsModel
  selectedDeployName :: string
  serviceList :: ListModel
  serviceCount :: int
  serviceDetails :: Opaque
  selectedServiceName :: string
  eventViewer :: EventViewer
  metricsClient :: "MetricsClient option"
  metricsAvailable :: bool
  metricsEnabled :: bool
  podMetrics :: "PodMetrics option"
  scaleDialog :: ScaleDialog
  podMultiSelector :: PodMultiSelector
  multiPodLogViewer :: MultiPodLogViewer
  multiPodStreamCancel :: "nat option"
  multiPodStreamCtx :: "nat option"
  multiPodStreamActive :: bool
  multiPodActiveStreams :: int
  multiPodLineChanMap :: "(string \<times> nat) list option"
  multiPodContainerMap :: "(string \<times> string) list option"
  nextCtx :: nat
  cancelledCtxs :: "nat list"
  nextChan :: nat
  goroutines :: "Goroutine list"
  closedSSHClients :: "SSHClient list"

text \<open>
  The zero value of a list model, before the first window-size message builds the lists:
  it has no delegate.
\<close>

definition zeroList :: ListModel where
  "zeroList = \<lparr>Items = [], SelectedItem = None, SettingFilter = False,
                FilterStateOf = Unfiltered, hasDelegate = False\<rparr>"

text \<open>
  The constructors of the lists (\<open>newKubeConfigList\<close> and its siblings) call
  \<open>list.New\<close> with a delegate, and nothing else sets or clears the delegate of a list: the
  parameters \<open>list_New\<close>, \<open>list_SetItems\<close> and \<open>list_Update\<close> stand for the rest of what
  these functions do.
\<close>

definition newList :: "Ext \<Rightarrow> Item list \<Rightarrow> ListModel" where
  "newList ext items = (list_New ext items)\<lparr>hasDelegate := True\<rparr>"

definition setItems :: "Ext \<Rightarrow> Item list \<Rightarrow> ListModel \<Rightarrow> ListModel" where
  "setItems ext items l = (list_SetItems ext items l)\<lparr>hasDelegate := hasDelegate l\<rparr>"

text \<open>
  \<open>Update\<close> of a list hands every message to the delegate: on a list without a delegate
  it panics.
\<close>

definition listUpdate :: "ViewUpdates \<Rightarrow> Msg \<Rightarrow> ListModel \<Rightarrow> panic + ListModel \<times> Cmd option" where
  "listUpdate vu msg l =
     (if hasDelegate l
      then (case list_Update vu msg l of (l', cmd) \<Rightarrow> Inr (l'\<lparr>hasDelegate := True\<rparr>, cmd))
      else Inl NilPointerDereference)"

definition NewApp :: "Ext \<Rightarrow> Config \<Rightarrow> App" where
  "NewApp ext cfg =
     \<lparr>width = 0, height = 0, contentWidth = 0, sidebarWidth = 0, showSidebar = False,
      ready = False, config = cfg,
      selectedConfig = (case KubeConfigs cfg of [c] \<Rightarrow> Some c | _ \<Rightarrow> None),
      viewState = ViewKubeConfigSelect,
      kubeConfigList = zeroList, namespaceList = zeroList, podList = zeroList,
      podDetails = NewPodDetailsModel ext, selectedPodName = [], pods = None,
      k8sClient = None, clusterInfo = None, connectionStatus = StatusDisconnected,
      spinner = spinner_New ext, err = None, loading = False, podCount = 0,
      namespaceCount = 0, confirmDialog = NewConfirmDialog,
      notification = NewNotification ext, logViewer = NewLogViewer ext,
      logSourceView = ViewKubeConfigSelect, containerSelector = NewContainerSelector,
      logStreamCancel = None, logStreamActive = False, logLineChan = None,
      sshHostList = zeroList, sshClient = None, selectedSSHHost = None,
      crictlContainers = [], crictlContainerList = zeroList, nodeInfo = None,
      passphraseInput = NewPassphraseInput, crictlLogViewer = NewCrictlLogViewer ext,
      selectedCrictlContainer = None, crictlLogStreamCancel = None,
      crictlLogStreamActive = False, crictlLogLineChan = None,
      helpScreen = \<lparr>hs_visible = False\<rparr>,
      searchInput = \<lparr>si_visible = False, si_rest = 0\<rparr>,
      deploymentList = zeroList, deploymentCount = 0,
      deploymentDetails = NewDeploymentDetailsModel ext, selectedDeployName = [],
      serviceList = zeroList, serviceCount = 0, serviceDetails = NewServiceDetailsModel ext,
      selectedServiceName = [], eventViewer = NewEventViewer ext, metricsClient = None,
      metricsAvailable = False, metricsEnabled = False, podMetrics = None,
      scaleDialog = NewScaleDialog, podMultiSelector = NewPodMultiSelector,
      multiPodLogViewer = NewMultiPodLogViewer, multiPodStreamCancel = None,
      multiPodStreamCtx = None, multiPodStreamActive = False, multiPodActiveStreams = 0,
      multiPodLineChanMap = None, multiPodContainerMap = None,
      nextCtx = 0, cancelledCtxs = [], nextChan = 0, goroutines = [], closedSSHClients = []\<rparr>"

definition Init :: "App \<Rightarrow> App \<times> Cmd option" where
  "Init a =
     (case selectedConfig a of
        Some c \<Rightarrow>
          (a\<lparr>viewState := ViewConnecting, connectionStatus := StatusConnecting\<rparr>,
           tea_Batch [Some spinnerTick, Some (connectToCluster (kc_Path c))])
      | None \<Rightarrow> (a, tea_Batch [Some spinnerTick]))"


section \<open>Handlers of the result messages\<close>

definition stopLogStream :: "App \<Rightarrow> App" where
  "stopLogStream a =
     (case logStreamCancel a of
        Some c \<Rightarrow> a\<lparr>cancelledCtxs := cancelledCtxs a @ [c], logStreamCancel := None\<rparr>
      | None \<Rightarrow> a)\<lparr>logStreamActive := False\<rparr>"

definition handleConnectResult ::
  "Ext \<Rightarrow> Client option \<Rightarrow> ClusterInfo option \<Rightarrow> error option \<Rightarrow> App \<Rightarrow> App \<times> Cmd option" where
  "handleConnectResult ext client info e a =
     (case e of
        Some e' \<Rightarrow>
          (a\<lparr>err := Some e', connectionStatus := StatusError, viewState := ViewMain\<rparr>, None)
      | None \<Rightarrow>
          let a1 = a\<lparr>k8sClient := client, clusterInfo := info,
                      connectionStatus := StatusConnected, viewState := ViewNamespaces,
                      err := None, loading := True\<rparr>;
              a2 = (case selectedConfig a1 of
                      None \<Rightarrow> a1
                    | Some c \<Rightarrow>
                        (case NewMetricsClient ext (kc_Path c) of
                           None \<Rightarrow> a1
                         | Some mc \<Rightarrow>
                             if CheckMetricsAvailable ext mc
                             then a1\<lparr>metricsClient := Some mc, metricsAvailable := True\<rparr>
                             else a1))
          in (a2, Some fetchNamespaces))"

definition handleNamespacesResult ::
  "Ext \<Rightarrow> Namespace list \<Rightarrow> error option \<Rightarrow> App \<Rightarrow> App \<times> Cmd option" where
  "handleNamespacesResult ext namespaces e a =
     (let a1 = a\<lparr>loading := False\<rparr> in
      case e of
        Some e' \<Rightarrow> (a1\<lparr>err := Some e'\<rparr>, None)
      | None \<Rightarrow>
          (a1\<lparr>namespaceCount := int (length namespaces),
              namespaceList := setItems ext (map namespaceItem namespaces) (namespaceList a1),
              err := None\<rparr>, None))"

definition handlePodsResult ::
  "Ext \<Rightarrow> Pod list \<Rightarrow> error option \<Rightarrow> App \<Rightarrow> App \<times> Cmd option" where
  "handlePodsResult ext ps e a =
     (let a1 = a\<lparr>loading := False\<rparr> in
      case e of
        Some e' \<Rightarrow> (a1\<lparr>err := Some e'\<rparr>, None)
      | None \<Rightarrow>
          let a2 = a1\<lparr>podCount := int (length ps), pods := Some ps\<rparr>;
              a3 = (if \<not> SettingFilter (podList a2) \<and> FilterStateOf (podList a2) = Unfiltered
                    then a2\<lparr>podList := setItems ext (map podItem ps) (podList a2)\<rparr>
                    else a2)
          in (a3\<lparr>err := None\<rparr>, None))"

definition handlePodDetailsResult ::
  "Ext \<Rightarrow> Pod option \<Rightarrow> PodEvent list \<Rightarrow> error option \<Rightarrow> App \<Rightarrow> App \<times> Cmd option" where
  "handlePodDetailsResult ext pod events e a =
     (let a1 = a\<lparr>loading := False\<rparr> in
      case e of
        Some e' \<Rightarrow> (a1\<lparr>err := Some e'\<rparr>, None)
      | None \<Rightarrow>
          (a1\<lparr>podDetails := podDetails_SetPod ext pod events (podDetails a1), err := None\<rparr>,
           None))"

definition handlePodDeleteResult ::
  "Ext \<Rightarrow> string \<Rightarrow> error option \<Rightarrow> App \<Rightarrow> App \<times> Cmd option" where
  "handlePodDeleteResult ext podName e a =
     (case e of
        Some e' \<Rightarrow>
          (case notification_Show ext (''Failed to delete pod: '' @ error_Error ext e')
                  NotificationError (notification a) of
             (n, notifCmd) \<Rightarrow> (a\<lparr>notification := n\<rparr>, notifCmd))
      | None \<Rightarrow>
          (case notification_Show ext
                  (''Pod '' @ quote @ podName @ quote @ '' deleted successfully'')
                  NotificationSuccess (notification a) of
             (n, notifCmd) \<Rightarrow>
               (a\<lparr>notification := n, viewState := ViewPods, selectedPodName := []\<rparr>,
                tea_Batch [notifCmd, Some fetchPods, Some schedulePodRefresh])))"

definition handlePodRestartResult ::
  "Ext \<Rightarrow> string \<Rightarrow> error option \<Rightarrow> App \<Rightarrow> App \<times> Cmd option" where
  "handlePodRestartResult ext podName e a =
     (case e of
        Some e' \<Rightarrow>
          (case notification_Show ext (''Failed to restart pod: '' @ error_Error ext e')
                  NotificationError (notification a) of
             (n, notifCmd) \<Rightarrow> (a\<lparr>notification := n\<rparr>, notifCmd))
      | None \<Rightarrow>
          (case notification_Show ext
                  (''Pod '' @ quote @ podName @ quote @ '' restarting...'')
                  NotificationSuccess (notification a) of
             (n, notifCmd) \<Rightarrow>
               (a\<lparr>notification := n, viewState := ViewPods, selectedPodName := []\<rparr>,
                tea_Batch [notifCmd, Some fetchPods, Some schedulePodRefresh])))"

definition handleDeploymentsResult ::
  "Ext \<Rightarrow> Deployment list \<Rightarrow> error option \<Rightarrow> App \<Rightarrow> App \<times> Cmd option" where
  "handleDeploymentsResult ext ds e a =
     (let a1 = a\<lparr>loading := False\<rparr> in
      case e of
        Some e' \<Rightarrow> (a1\<lparr>err := Some e'\<rparr>, None)
      | None \<Rightarrow>
          (a1\<lparr>deploymentCount := int (length ds),
              deploymentList := setItems ext (map deploymentItem ds) (deploymentList a1),
              err := None\<rparr>, None))"

definition handleDeploymentDetailsResult ::
  "Ext \<Rightarrow> Deployment option \<Rightarrow> error option \<Rightarrow> App \<Rightarrow> App \<times> Cmd option" where
  "handleDeploymentDetailsResult ext d e a =
     (let a1 = a\<lparr>loading := False\<rparr> in
      case e of
        Some e' \<Rightarrow> (a1\<lparr>err := Some e'\<rparr>, None)
      | None \<Rightarrow>
          (a1\<lparr>deploymentDetails := deploymentDetails_SetDeployment ext d (deploymentDetails a1),
              err := None\<rparr>, None))"

definition handleDeploymentScaleResult ::
  "Ext \<Rightarrow> string \<Rightarrow> int \<Rightarrow> error option \<Rightarrow> App \<Rightarrow> App \<times> Cmd option" where
  "handleDeploymentScaleResult ext deploymentName replicas e a =
     (case e of
        Some e' \<Rightarrow>
          (case notification_Show ext (''Failed to scale deployment: '' @ error_Error ext e')
                  NotificationError (notification a) of
             (n, notifCmd) \<Rightarrow> (a\<lparr>notification := n\<rparr>, notifCmd))
      | None \<Rightarrow>
          (case notification_Show ext
                  (''Deployment '' @ quote @ deploymentName @ quote @ '' scaled to ''
                   @ Sprintf_d ext replicas @ '' replicas'')
                  NotificationSuccess (notification a) of
             (n, notifCmd) \<Rightarrow>
               (a\<lparr>notification := n\<rparr>, tea_Batch [notifCmd, Some fetchDeployments])))"

definition handleDeploymentRestartResult ::
  "Ext \<Rightarrow> string \<Rightarrow> error option \<Rightarrow> App \<Rightarrow> App \<times> Cmd option" where
  "handleDeploymentRestartResult ext deploymentName e a =
     (case e of
        Some e' \<Rightarrow>
          (case notification_Show ext (''Failed to restart deployment: '' @ error_Error ext e')
                  NotificationError (notification a) of
             (n, notifCmd) \<Rightarrow> (a\<lparr>notification := n\<rparr>, notifCmd))
      | None \<Rightarrow>
          (case notification_Show ext
                  (''Deployment '' @ quote @ deploymentName @ quote @ '' restarting...'')
                  NotificationSuccess (notification a) of
             (n, notifCmd) \<Rightarrow>
               (a\<lparr>notification := n, viewState := ViewDeployments, selectedDeployName := []\<rparr>,
                tea_Batch [notifCmd, Some fetchDeployments])))"

definition handleDeploymentDeleteResult ::
  "Ext \<Rightarrow> string \<Rightarrow> error option \<Rightarrow> App \<Rightarrow> App \<times> Cmd option" where
  "handleDeploymentDeleteResult ext deploymentName e a =
     (case e of
        Some e' \<Rightarrow>
          (case notification_Show ext (''Failed to delete deployment: '' @ error_Error ext e')
                  NotificationError (notification a) of
             (n, notifCmd) \<Rightarrow> (a\<lparr>notification := n\<rparr>, notifCmd))
      | None \<Rightarrow>
          (case notification_Show ext
                  (''Deployment '' @ quote @ deploymentName @ quote @ '' deleted'')
                  NotificationSuccess (notification a) of
             (n, notifCmd) \<Rightarrow>
               (a\<lparr>notification := n, viewState := ViewDeployments, selectedDeployName := []\<rparr>,
                tea_Batch [notifCmd, Some fetchDeployments])))"

definition handleServicesResult ::
  "Ext \<Rightarrow> Service list \<Rightarrow> error option \<Rightarrow> App \<Rightarrow> App \<times> Cmd option" where
  "handleServicesResult ext svcs e a =
     (let a1 = a\<lparr>loading := False\<rparr> in
      case e of
        Some e' \<Rightarrow> (a1\<lparr>err := Some e'\<rparr>, None)
      | None \<Rightarrow>
          (a1\<lparr>serviceCount := int (length svcs),
              serviceList := setItems ext (map serviceItem svcs) (serviceList a1),
              err := None\<rparr>, None))"

definition handleServiceDetailsResult ::
  "Ext \<Rightarrow> Service option \<Rightarrow> error option \<Rightarrow> App \<Rightarrow> App \<times> Cmd option" where
  "handleServiceDetailsResult ext svc e a =
     (let a1 = a\<lparr>loading := False\<rparr> in
      case e of
        Some e' \<Rightarrow> (a1\<lparr>err := Some e'\<rparr>, None)
      | None \<Rightarrow>
          (a1\<lparr>serviceDetails := serviceDetails_SetService ext svc (serviceDetails a1),
              err := None\<rparr>, None))"

definition handleEventsResult ::
  "Ext \<Rightarrow> Event list \<Rightarrow> error option \<Rightarrow> App \<Rightarrow> App \<times> Cmd option" where
  "handleEventsResult ext events e a =
     (let a1 = a\<lparr>loading := False\<rparr> in
      case e of
        Some e' \<Rightarrow> (a1\<lparr>err := Some e'\<rparr>, None)
      | None \<Rightarrow>
          (a1\<lparr>eventViewer := eventViewer_do ext (EV_SetEvents events) (eventViewer a1),
              err := None\<rparr>, None))"

text \<open>Rebuilding the pod list, as the metrics handler and the \<open>m\<close> key do.\<close>

definition rebuildPodList :: "Ext \<Rightarrow> App \<Rightarrow> App" where
  "rebuildPodList ext a =
     (let a1 = a\<lparr>podList := newList ext []\<rparr> in
      case pods a1 of
        Some ps \<Rightarrow> a1\<lparr>podList := setItems ext (map podItem ps) (podList a1)\<rparr>
      | None \<Rightarrow> a1)"

definition handleMetricsResult ::
  "Ext \<Rightarrow> PodMetrics option \<Rightarrow> error option \<Rightarrow> App \<Rightarrow> App \<times> Cmd option" where
  "handleMetricsResult ext metrics e a =
     (case e of
        Some e' \<Rightarrow> (a\<lparr>podMetrics := None\<rparr>, None)
      | None \<Rightarrow>
          let a1 = a\<lparr>podMetrics := metrics\<rparr> in
          if metricsEnabled a1 \<and> viewState a1 = ViewPods
          then (rebuildPodList ext a1, None)
          else (a1, None))"

definition handleContainersResult ::
  "Ext \<Rightarrow> string list \<Rightarrow> error option \<Rightarrow> App \<Rightarrow> panic + App \<times> Cmd option" where
  "handleContainersResult ext containers e a =
     (let a1 = a\<lparr>loading := False\<rparr> in
      case e of
        Some e' \<Rightarrow> Inr (a1\<lparr>err := Some e'\<rparr>, None)
      | None \<Rightarrow>
          (case k8sClient a1 of
             None \<Rightarrow> Inl NilPointerDereference
           | Some c \<Rightarrow>
               let a2 = a1\<lparr>logViewer :=
                             logViewer_do ext
                               (LV_SetPod (selectedPodName a1) (CurrentNamespace c) containers)
                               (logViewer a1),
                           viewState := ViewLogs\<rparr>
               in Inr (a2, Some (fetchLogs (selectedPodName a2) (lv_Container (logViewer a2))
                                   (lv_TailLines (logViewer a2))
                                   (lv_Timestamps (logViewer a2))))))"

definition handleLogsResult ::
  "Ext \<Rightarrow> string \<Rightarrow> error option \<Rightarrow> App \<Rightarrow> App \<times> Cmd option" where
  "handleLogsResult ext logs e a =
     (let a1 = a\<lparr>loading := False\<rparr> in
      case e of
        Some e' \<Rightarrow> (a1\<lparr>err := Some e'\<rparr>, None)
      | None \<Rightarrow>
          (a1\<lparr>logViewer := logViewer_do ext (LV_SetLogs logs) (logViewer a1), err := None\<rparr>,
           None))"

subsection \<open>Single-pod log streaming\<close>

definition handleLogLine :: "Ext \<Rightarrow> string \<Rightarrow> App \<Rightarrow> App \<times> Cmd option" where
  "handleLogLine ext line a =
     (if viewState a \<noteq> ViewLogs then (a, None)
      else
        let a1 = a\<lparr>logViewer := logViewer_do ext (LV_AppendLog line) (logViewer a)\<rparr> in
        case logLineChan a1 of
          Some ch \<Rightarrow> if logStreamActive a1 then (a1, Some (waitForLogLine ch)) else (a1, None)
        | None \<Rightarrow> (a1, None))"

text \<open>
  \<open>startLogStreaming\<close>: the goroutine it starts reads the namespace and the pod name
  when it runs; they are recorded as they are when it is started.
\<close>

definition startLogStreaming :: "App \<Rightarrow> App \<times> Cmd option" where
  "startLogStreaming a =
     (case k8sClient a of
        None \<Rightarrow> (a, None)
      | Some c \<Rightarrow>
          let a1 = stopLogStream a;
              ctx = nextCtx a1;
              a2 = a1\<lparr>nextCtx := Suc ctx, logStreamCancel := Some ctx,
                      logStreamActive := True\<rparr>;
              opts = \<lparr>lo_Container = lv_Container (logViewer a2), lo_TailLines = 0,
                      lo_Timestamps = lv_Timestamps (logViewer a2), lo_Follow = True\<rparr>;
              lineChan = nextChan a2;
              a3 = a2\<lparr>nextChan := Suc lineChan, logLineChan := Some lineChan,
                      goroutines := goroutines a2 @
                        [StreamPodLogs ctx (CurrentNamespace c) (lv_PodName (logViewer a2))
                           opts lineChan]\<rparr>
          in (a3, Some (waitForLogLine lineChan)))"

definition handleLogStreamEnded :: "Ext \<Rightarrow> error option \<Rightarrow> App \<Rightarrow> App \<times> Cmd option" where
  "handleLogStreamEnded ext e a =
     (let a1 = a\<lparr>logStreamActive := False\<rparr> in
      if e = Some Canceled then (a1, None)
      else if lv_IsFollowing (logViewer a1) \<and> viewState a1 = ViewLogs
      then startLogStreaming a1
      else
        (case e of
           Some e' \<Rightarrow>
             (case notification_Show ext (''Log stream ended: '' @ error_Error ext e')
                     NotificationInfo (notification a1) of
                (n, notifCmd) \<Rightarrow> (a1\<lparr>notification := n\<rparr>, notifCmd))
         | None \<Rightarrow> (a1, None)))"


subsection \<open>The producer goroutine and the command that reads its channel\<close>

text \<open>
  A channel of lines: the lines sent and not yet received, and whether it is closed.
  The capacity of 100 only makes the producer wait; it changes neither the lines received
  nor their order. What the streaming call of the cluster client did is its outcome: the
  lines it sent and the error it returned.
\<close>

record Chan =
  ch_buf :: "string list"
  ch_closed :: bool

definition makeChan :: Chan where
  "makeChan = \<lparr>ch_buf = [], ch_closed = False\<rparr>"

record StreamOutcome =
  so_lines :: "string list"
  so_err :: "error option"

text \<open>
  The goroutine of \<open>startLogStreaming\<close> and of \<open>startSinglePodStream\<close>:
  \<open>defer close(lineChan)\<close>, and the streaming call with its result assigned to \<open>_\<close>.
\<close>

definition streamGoroutine :: "StreamOutcome \<Rightarrow> Chan \<Rightarrow> Chan" where
  "streamGoroutine out ch = ch\<lparr>ch_buf := ch_buf ch @ so_lines out, ch_closed := True\<rparr>"

text \<open>
  Running the command \<open>waitForLogLine\<close>: the message it returns and the channel after
  the receive; \<open>None\<close> while the receive blocks.
\<close>

definition run_waitForLogLine :: "Chan \<Rightarrow> (Msg \<times> Chan) option" where
  "run_waitForLogLine ch =
     (case ch_buf ch of
        line # rest \<Rightarrow> Some (logLineMsg line, ch\<lparr>ch_buf := rest\<rparr>)
      | [] \<Rightarrow> if ch_closed ch then Some (logStreamEndedMsg None, ch) else None)"

definition run_waitForMultiPodLogLine :: "string \<Rightarrow> string \<Rightarrow> Chan \<Rightarrow> (Msg \<times> Chan) option" where
  "run_waitForMultiPodLogLine podName container ch =
     (case ch_buf ch of
        line # rest \<Rightarrow> Some (multiPodLogLineMsg podName container line, ch\<lparr>ch_buf := rest\<rparr>)
      | [] \<Rightarrow> if ch_closed ch then Some (multiPodLogStreamEndedMsg podName None, ch) else None)"

text \<open>
  The messages a finished producer gives rise to, the command being run again after each
  line (as \<open>handleLogLine\<close> asks): one message per line, then the stream-ended message.
\<close>

fun deliver :: "nat \<Rightarrow> Chan \<Rightarrow> Msg list" where
  "deliver 0 ch = []"
| "deliver (Suc n) ch =
     (case run_waitForLogLine ch of
        None \<Rightarrow> []
      | Some (logLineMsg line, ch') \<Rightarrow> logLineMsg line # deliver n ch'
      | Some (m, ch') \<Rightarrow> [m])"

subsection \<open>SSH connection and container log streaming\<close>

definition closeSSHConnection :: "App \<Rightarrow> App" where
  "closeSSHConnection a =
     (case sshClient a of
        Some c \<Rightarrow> a\<lparr>closedSSHClients := closedSSHClients a @ [c], sshClient := None\<rparr>
      | None \<Rightarrow> a)\<lparr>selectedSSHHost := None, nodeInfo := None, crictlContainers := []\<rparr>"

definition connectToSSHHost :: "SSHHost \<Rightarrow> App \<Rightarrow> App \<times> Cmd option" where
  "connectToSSHHost host a =
     ((closeSSHConnection a)\<lparr>sshClient := Some (SSHClient host []),
                               selectedSSHHost := Some host\<rparr>,
      Some retrySSHConnection)"

definition handleSSHConnectResult :: "Ext \<Rightarrow> error option \<Rightarrow> App \<Rightarrow> App \<times> Cmd option" where
  "handleSSHConnectResult ext e a =
     (let a1 = a\<lparr>loading := False\<rparr> in
      case e of
        Some e' \<Rightarrow>
          if e' = ErrPassphraseRequired
          then
            (let hostName = (case selectedSSHHost a1 of Some h \<Rightarrow> sh_Name h | None \<Rightarrow> [])
             in case pi_Show ext hostName (passphraseInput a1) of
                  (p, cmd) \<Rightarrow> (a1\<lparr>passphraseInput := p, viewState := ViewSSHConnecting\<rparr>, cmd))
          else (a1\<lparr>err := Some e', viewState := ViewSSHHosts\<rparr>, None)
      | None \<Rightarrow>
          (a1\<lparr>viewState := ViewCrictlContainers, err := None, loading := True\<rparr>,
           tea_Batch [Some fetchCrictlContainers, Some fetchNodeInfo]))"

definition handleSSHCrictlContainers ::
  "Ext \<Rightarrow> CrictlContainer list \<Rightarrow> error option \<Rightarrow> App \<Rightarrow> App \<times> Cmd option" where
  "handleSSHCrictlContainers ext cs e a =
     (let a1 = a\<lparr>loading := False\<rparr> in
      case e of
        Some e' \<Rightarrow> (a1\<lparr>err := Some e'\<rparr>, None)
      | None \<Rightarrow>
          (a1\<lparr>crictlContainers := cs,
              crictlContainerList :=
                setItems ext (map crictlContainerItem cs) (crictlContainerList a1),
              err := None\<rparr>, None))"

definition handleSSHNodeInfo :: "NodeInfo option \<Rightarrow> error option \<Rightarrow> App \<Rightarrow> App \<times> Cmd option" where
  "handleSSHNodeInfo info e a =
     (case e of
        Some e' \<Rightarrow> (a, None)
      | None \<Rightarrow> (a\<lparr>nodeInfo := info\<rparr>, None))"

definition stopCrictlLogStream :: "App \<Rightarrow> App" where
  "stopCrictlLogStream a =
     (case crictlLogStreamCancel a of
        Some c \<Rightarrow> a\<lparr>cancelledCtxs := cancelledCtxs a @ [c], crictlLogStreamCancel := None\<rparr>
      | None \<Rightarrow> a)\<lparr>crictlLogStreamActive := False\<rparr>"

definition startCrictlLogStreaming :: "App \<Rightarrow> App \<times> Cmd option" where
  "startCrictlLogStreaming a =
     (case (sshClient a, selectedCrictlContainer a) of
        (Some c, Some sel) \<Rightarrow>
          let a1 = stopCrictlLogStream a;
              ctx = nextCtx a1;
              a2 = a1\<lparr>nextCtx := Suc ctx, crictlLogStreamCancel := Some ctx,
                      crictlLogStreamActive := True\<rparr>;
              opts = \<lparr>clo_TailLines = 0, clo_Timestamps = clv_Timestamps (crictlLogViewer a2),
                      clo_Follow = True\<rparr>;
              lineChan = nextChan a2;
              a3 = a2\<lparr>nextChan := Suc lineChan, crictlLogLineChan := Some lineChan,
                      goroutines := goroutines a2 @
                        [StreamContainerLogs ctx (cc_ContainerID sel) opts lineChan]\<rparr>
          in (a3, Some (waitForCrictlLogLine lineChan))
      | _ \<Rightarrow> (a, None))"

definition handleCrictlLogsResult ::
  "Ext \<Rightarrow> string \<Rightarrow> error option \<Rightarrow> App \<Rightarrow> App \<times> Cmd option" where
  "handleCrictlLogsResult ext logs e a =
     (let a1 = a\<lparr>loading := False\<rparr> in
      case e of
        Some e' \<Rightarrow> (a1\<lparr>err := Some e'\<rparr>, None)
      | None \<Rightarrow>
          (a1\<lparr>crictlLogViewer := crictlLogViewer_do ext (CLV_SetLogs logs) (crictlLogViewer a1),
              err := None\<rparr>, None))"

definition handleCrictlLogLine :: "Ext \<Rightarrow> string \<Rightarrow> App \<Rightarrow> App \<times> Cmd option" where
  "handleCrictlLogLine ext line a =
     (if viewState a \<noteq> ViewCrictlLogs then (a, None)
      else
        let a1 = a\<lparr>crictlLogViewer :=
                      crictlLogViewer_do ext (CLV_AppendLog line) (crictlLogViewer a)\<rparr> in
        case crictlLogLineChan a1 of
          Some ch \<Rightarrow>
            if crictlLogStreamActive a1 then (a1, Some (waitForCrictlLogLine ch)) else (a1, None)
        | None \<Rightarrow> (a1, None))"

definition handleCrictlLogStreamEnded :: "Ext \<Rightarrow> error option \<Rightarrow> App \<Rightarrow> App \<times> Cmd option" where
  "handleCrictlLogStreamEnded ext e a =
     (let a1 = a\<lparr>crictlLogStreamActive := False\<rparr> in
      if e = Some Canceled then (a1, None)
      else if clv_IsFollowing (crictlLogViewer a1) \<and> viewState a1 = ViewCrictlLogs
      then startCrictlLogStreaming a1
      else
        (case e of
           Some e' \<Rightarrow>
             (case notification_Show ext (''Log stream ended: '' @ error_Error ext e')
                     NotificationInfo (notification a1) of
                (n, notifCmd) \<Rightarrow> (a1\<lparr>notification := n\<rparr>, notifCmd))
         | None \<Rightarrow> (a1, None)))"

subsection \<open>Multi-pod log streaming\<close>

text \<open>Reading a Go map: the zero value for a missing key, also when the map is \<open>nil\<close>.\<close>

definition mapGet :: "(string \<times> string) list option \<Rightarrow> string \<Rightarrow> string" where
  "mapGet m k =
     (case m of
        None \<Rightarrow> []
      | Some kvs \<Rightarrow> (case map_of kvs k of Some v \<Rightarrow> v | None \<Rightarrow> []))"

definition stopMultiPodStreams :: "App \<Rightarrow> App" where
  "stopMultiPodStreams a =
     (case multiPodStreamCancel a of
        Some c \<Rightarrow> a\<lparr>cancelledCtxs := cancelledCtxs a @ [c], multiPodStreamCancel := None\<rparr>
      | None \<Rightarrow> a)
     \<lparr>multiPodStreamCtx := None, multiPodStreamActive := False, multiPodActiveStreams := 0,
      multiPodLineChanMap := None, multiPodContainerMap := None\<rparr>"

definition startSinglePodStream ::
  "nat \<Rightarrow> string \<Rightarrow> string \<Rightarrow> string \<Rightarrow> bool \<Rightarrow> App \<Rightarrow> panic + App \<times> Cmd option" where
  "startSinglePodStream ctx namespace podName container withHistory a =
     (case multiPodLineChanMap a of
        None \<Rightarrow> Inl NilMapAssignment
      | Some m \<Rightarrow>
          let lineChan = nextChan a;
              a1 = a\<lparr>nextChan := Suc lineChan,
                     multiPodLineChanMap := Some (AList.update podName lineChan m)\<rparr>;
              tailLines = (if withHistory then 100 else 0);
              a2 = a1\<lparr>goroutines := goroutines a1 @
                        [StreamPodLogs ctx namespace podName
                           \<lparr>lo_Container = container, lo_TailLines = tailLines,
                            lo_Timestamps = False, lo_Follow = True\<rparr> lineChan]\<rparr>
          in Inr (a2, Some (waitForMultiPodLogLine podName container lineChan)))"

text \<open>
  The map from pod name to first container that \<open>startMultiPodStreaming\<close> builds: for
  each item of the pod list, for each selected name.
\<close>

fun containerOfPodNames :: "Pod \<Rightarrow> string list \<Rightarrow> (string \<times> string) list \<Rightarrow> (string \<times> string) list" where
  "containerOfPodNames pod [] m = m"
| "containerOfPodNames pod (name # names) m =
     containerOfPodNames pod names
       (case pod_Containers pod of
          first # _ \<Rightarrow> if pod_Name pod = name then AList.update name first m else m
        | [] \<Rightarrow> m)"

fun buildPodContainerMap :: "Item list \<Rightarrow> string list \<Rightarrow> (string \<times> string) list \<Rightarrow> (string \<times> string) list" where
  "buildPodContainerMap [] podNames m = m"
| "buildPodContainerMap (item # items) podNames m =
     buildPodContainerMap items podNames
       (case item of podItem pod \<Rightarrow> containerOfPodNames pod podNames m | _ \<Rightarrow> m)"

text \<open>The loop over the selected pods, with the commands collected so far.\<close>

fun startStreams ::
  "nat \<Rightarrow> string \<Rightarrow> (string \<times> string) list \<Rightarrow> string list \<Rightarrow> Cmd option list \<Rightarrow> App
     \<Rightarrow> panic + App \<times> Cmd option list" where
  "startStreams ctx namespace podContainerMap [] cmds a = Inr (a, cmds)"
| "startStreams ctx namespace podContainerMap (podName # rest) cmds a =
     (let container = mapGet (Some podContainerMap) podName in
      case multiPodContainerMap a of
        None \<Rightarrow> Inl NilMapAssignment
      | Some cm \<Rightarrow>
          (case startSinglePodStream ctx namespace podName container True
                  (a\<lparr>multiPodContainerMap := Some (AList.update podName container cm)\<rparr>) of
             Inl p \<Rightarrow> Inl p
           | Inr (a', cmd) \<Rightarrow> startStreams ctx namespace podContainerMap rest (cmds @ [cmd]) a'))"

definition startMultiPodStreaming :: "string list \<Rightarrow> App \<Rightarrow> panic + App \<times> Cmd option" where
  "startMultiPodStreaming podNames a =
     (case k8sClient a of
        None \<Rightarrow> Inr (a, None)
      | Some c \<Rightarrow>
          let a1 = stopMultiPodStreams a;
              podContainerMap = buildPodContainerMap (Items (podList a1)) podNames [];
              a2 = a1\<lparr>multiPodLogViewer := SetFollowing True (SetPods podNames (multiPodLogViewer a1)),
                      viewState := ViewMultiPodLogs\<rparr>;
              ctx = nextCtx a2;
              a3 = a2\<lparr>nextCtx := Suc ctx, multiPodStreamCancel := Some ctx,
                      multiPodStreamCtx := Some ctx, multiPodStreamActive := True,
                      multiPodActiveStreams := int (length podNames),
                      multiPodLineChanMap := Some [], multiPodContainerMap := Some []\<rparr>
          in case startStreams ctx (CurrentNamespace c) podContainerMap podNames [] a3 of
               Inl p \<Rightarrow> Inl p
             | Inr (a4, cmds) \<Rightarrow> Inr (a4, tea_Batch cmds))"

definition handleMultiPodLogLine :: "string \<Rightarrow> string \<Rightarrow> string \<Rightarrow> App \<Rightarrow> App \<times> Cmd option" where
  "handleMultiPodLogLine podName container line a =
     (if viewState a \<noteq> ViewMultiPodLogs then (a, None)
      else
        let a1 = a\<lparr>multiPodLogViewer :=
                      AppendEntry \<lparr>PodName = podName, Container = container, Line = line\<rparr>
                        (multiPodLogViewer a)\<rparr> in
        case multiPodLineChanMap a1 of
          None \<Rightarrow> (a1, None)
        | Some m \<Rightarrow>
            (case map_of m podName of
               Some ch \<Rightarrow> (a1, Some (waitForMultiPodLogLine podName container ch))
             | None \<Rightarrow> (a1, None)))"

definition handleMultiPodLogStreamEnded ::
  "string \<Rightarrow> error option \<Rightarrow> App \<Rightarrow> panic + App \<times> Cmd option" where
  "handleMultiPodLogStreamEnded podName e a =
     (let a1 = a\<lparr>multiPodLineChanMap :=
                   map_option (AList.delete podName) (multiPodLineChanMap a)\<rparr> in
      if e = Some Canceled
      then Inr (a1\<lparr>multiPodActiveStreams := multiPodActiveStreams a1 - 1\<rparr>, None)
      else if viewState a1 = ViewMultiPodLogs \<and> multiPodStreamActive a1
              \<and> multiPodStreamCtx a1 \<noteq> None
      then
        (let container = mapGet (multiPodContainerMap a1) podName in
         case k8sClient a1 of
           None \<Rightarrow> Inl NilPointerDereference
         | Some c \<Rightarrow>
             startSinglePodStream (the (multiPodStreamCtx a1)) (CurrentNamespace c) podName
               container False a1)
      else
        (let a2 = a1\<lparr>multiPodActiveStreams := multiPodActiveStreams a1 - 1\<rparr> in
         Inr (if multiPodActiveStreams a2 \<le> 0
              then a2\<lparr>multiPodStreamActive := False\<rparr> else a2, None)))"

section \<open>Routing a message to a visible modal\<close>

text \<open>
  The blocks that hand a message to a visible dialog and act on its answer. Each is
  written twice in the source, with the same text: in \<open>handleKeyMsg\<close> and at the end of
  \<open>Update\<close>.
\<close>

definition updateConfirmDialog :: "Ext \<Rightarrow> Msg \<Rightarrow> App \<Rightarrow> App \<times> Cmd option" where
  "updateConfirmDialog ext msg a =
     (case cd_Update ext msg (confirmDialog a) of
        (d, confirmed, cancelled, cmd) \<Rightarrow>
          if confirmed
          then
            (let action = cd_action d;
                 targetName = cd_targetName d;
                 a1 = a\<lparr>confirmDialog := cd_Hide d\<rparr>
             in case action of
                  ConfirmActionDeletePod \<Rightarrow> (a1, Some (deletePod targetName))
                | ConfirmActionRestartPod \<Rightarrow> (a1, Some (restartPod targetName))
                | ConfirmActionDeleteDeployment \<Rightarrow> (a1, Some (deleteDeployment targetName))
                | ConfirmActionRestartDeployment \<Rightarrow> (a1, Some (restartDeployment targetName))
                | ConfirmActionNone \<Rightarrow>
                    (if cancelled then a1\<lparr>confirmDialog := cd_Hide (confirmDialog a1)\<rparr> else a1,
                     cmd))
          else if cancelled then (a\<lparr>confirmDialog := cd_Hide d\<rparr>, cmd)
          else (a\<lparr>confirmDialog := d\<rparr>, cmd))"

definition updateScaleDialog :: "Ext \<Rightarrow> Msg \<Rightarrow> App \<Rightarrow> App \<times> Cmd option" where
  "updateScaleDialog ext msg a =
     (case sd_Update ext msg (scaleDialog a) of
        (d, confirmed, cancelled, cmd) \<Rightarrow>
          if confirmed
          then (a\<lparr>scaleDialog := sd_Hide d\<rparr>,
                Some (scaleDeployment (sd_deployName d) (sd_target d)))
          else if cancelled then (a\<lparr>scaleDialog := sd_Hide d\<rparr>, cmd)
          else (a\<lparr>scaleDialog := d\<rparr>, cmd))"

definition updateContainerSelector :: "Ext \<Rightarrow> Msg \<Rightarrow> App \<Rightarrow> App \<times> Cmd option" where
  "updateContainerSelector ext msg a =
     (case cs_Update ext msg (containerSelector a) of
        (c, selected, cancelled, cmd) \<Rightarrow>
          if selected
          then
            (let container = cs_selected c;
                 a1 = a\<lparr>containerSelector := cs_Hide c\<rparr>;
                 a2 = a1\<lparr>logViewer := logViewer_do ext (LV_SetContainer container) (logViewer a1)\<rparr>;
                 a3 = (stopLogStream a2)\<lparr>loading := True\<rparr>
             in (a3, Some (fetchLogs (lv_PodName (logViewer a3)) container
                             (lv_TailLines (logViewer a3)) (lv_Timestamps (logViewer a3)))))
          else if cancelled then (a\<lparr>containerSelector := cs_Hide c\<rparr>, cmd)
          else (a\<lparr>containerSelector := c\<rparr>, cmd))"

definition updatePodMultiSelector :: "Ext \<Rightarrow> Msg \<Rightarrow> App \<Rightarrow> panic + App \<times> Cmd option" where
  "updatePodMultiSelector ext msg a =
     (case pms_Update ext msg (podMultiSelector a) of
        (s, confirmed, cancelled, cmd) \<Rightarrow>
          if confirmed
          then
            (let selectedPods = SelectedPods s;
                 a1 = a\<lparr>podMultiSelector := pms_Hide s\<rparr>
             in if length selectedPods > 0 then startMultiPodStreaming selectedPods a1
                else Inr (if cancelled
                          then a1\<lparr>podMultiSelector := pms_Hide (podMultiSelector a1)\<rparr>
                          else a1, cmd))
          else if cancelled then Inr (a\<lparr>podMultiSelector := pms_Hide s\<rparr>, cmd)
          else Inr (a\<lparr>podMultiSelector := s\<rparr>, cmd))"

definition updatePassphraseInput :: "Ext \<Rightarrow> Msg \<Rightarrow> App \<Rightarrow> App \<times> Cmd option" where
  "updatePassphraseInput ext msg a =
     (case pi_Update ext msg (passphraseInput a) of
        (p, passphrase, submitted, cancelled, cmd) \<Rightarrow>
          let a1 = (if submitted then a\<lparr>passphraseInput := pi_Hide p\<rparr>
                    else a\<lparr>passphraseInput := p\<rparr>)
          in
            (case (submitted, sshClient a1, selectedSSHHost a1) of
               (True, Some c, Some h) \<Rightarrow>
                 (a1\<lparr>sshClient := Some (SSHClient (sc_host c) passphrase), loading := True\<rparr>,
                  Some retrySSHConnection)
             | _ \<Rightarrow>
                 if cancelled
                 then (a1\<lparr>passphraseInput := pi_Hide (passphraseInput a1),
                          viewState := ViewSSHHosts\<rparr>, cmd)
                 else (a1, cmd)))"

definition updateSearchInput :: "Ext \<Rightarrow> Msg \<Rightarrow> App \<Rightarrow> App \<times> Cmd option" where
  "updateSearchInput ext msg a =
     (case searchInput_Update ext msg (searchInput a) of
        (s, query, submitted, cancelled, cmd) \<Rightarrow>
          let a1 = a\<lparr>searchInput := s\<rparr> in
          if submitted \<or> cancelled
          then
            (let a2 = a1\<lparr>searchInput := si_Hide (searchInput a1)\<rparr> in
             if cancelled
             then
               (if viewState a2 = ViewLogs
                then (a2\<lparr>logViewer := logViewer_do ext (LV_SetSearchQuery []) (logViewer a2)\<rparr>,
                      cmd)
                else if viewState a2 = ViewCrictlLogs
                then (a2\<lparr>crictlLogViewer :=
                           crictlLogViewer_do ext (CLV_SetSearchQuery []) (crictlLogViewer a2)\<rparr>,
                      cmd)
                else (a2, cmd))
             else (a2, cmd))
          else if viewState a1 = ViewLogs
          then
            (let a2 = a1\<lparr>logViewer :=
                          logViewer_do ext (LV_SetSearchQuery query) (logViewer a1)\<rparr>
             in (a2\<lparr>searchInput :=
                      searchInput_do ext (SI_SetMatchCount (lv_MatchCount (logViewer a2)))
                        (searchInput a2)\<rparr>, cmd))
          else if viewState a1 = ViewCrictlLogs
          then
            (let a2 = a1\<lparr>crictlLogViewer :=
                          crictlLogViewer_do ext (CLV_SetSearchQuery query) (crictlLogViewer a1)\<rparr>
             in (a2\<lparr>searchInput :=
                      searchInput_do ext (SI_SetMatchCount (clv_MatchCount (crictlLogViewer a2)))
                        (searchInput a2)\<rparr>, cmd))
          else (a1, cmd))"

section \<open>Passing a message to the component of the current view\<close>

text \<open>\<open>Update\<close> of the multi-pod log viewer.\<close>

definition mpv_Update ::
  "ViewUpdates \<Rightarrow> Msg \<Rightarrow> MultiPodLogViewer \<Rightarrow> MultiPodLogViewer \<times> Cmd option" where
  "mpv_Update vu msg v =
     (if keyOf msg = Some ''G''
      then (v\<lparr>mpv_autoScroll := True, mpv_following := True,
              mpv_viewport := GotoBottom (mpv_viewport v)\<rparr>, None)
      else if keyOf msg = Some ''g''
      then (v\<lparr>mpv_autoScroll := False, mpv_following := False,
              mpv_viewport := GotoTop (mpv_viewport v)\<rparr>, None)
      else
        let v1 = (if keyOf msg \<in> Some ` {''up'', ''down'', ''pgup'', ''pgdown'', ''k'', ''j''}
                  then v\<lparr>mpv_autoScroll := False, mpv_following := False\<rparr> else v)
        in case viewport_Update vu msg (mpv_viewport v1) of
             (vp, cmd) \<Rightarrow> (v1\<lparr>mpv_viewport := vp\<rparr>, cmd))"

text \<open>
  The final \<open>switch a.viewState\<close>, the same in \<open>Update\<close> and in \<open>handleKeyMsg\<close>.
\<close>

definition updateChild :: "ViewUpdates \<Rightarrow> Msg \<Rightarrow> App \<Rightarrow> panic + App \<times> Cmd option" where
  "updateChild vu msg a =
     (case viewState a of
        ViewKubeConfigSelect \<Rightarrow>
          (case listUpdate vu msg (kubeConfigList a) of
             Inl p \<Rightarrow> Inl p
           | Inr (l, cmd) \<Rightarrow> Inr (a\<lparr>kubeConfigList := l\<rparr>, cmd))
      | ViewNamespaces \<Rightarrow>
          (case listUpdate vu msg (namespaceList a) of
             Inl p \<Rightarrow> Inl p
           | Inr (l, cmd) \<Rightarrow> Inr (a\<lparr>namespaceList := l\<rparr>, cmd))
      | ViewPods \<Rightarrow>
          (case listUpdate vu msg (podList a) of
             Inl p \<Rightarrow> Inl p
           | Inr (l, cmd) \<Rightarrow> Inr (a\<lparr>podList := l\<rparr>, cmd))
      | ViewPodDetails \<Rightarrow>
          (case podDetails_Update vu msg (podDetails a) of
             (d, cmd) \<Rightarrow> Inr (a\<lparr>podDetails := d\<rparr>, cmd))
      | ViewLogs \<Rightarrow>
          (case logViewer_Update vu msg (logViewer a) of
             (v, cmd) \<Rightarrow> Inr (a\<lparr>logViewer := v\<rparr>, cmd))
      | ViewMultiPodLogs \<Rightarrow>
          (case mpv_Update vu msg (multiPodLogViewer a) of
             (v, cmd) \<Rightarrow> Inr (a\<lparr>multiPodLogViewer := v\<rparr>, cmd))
      | ViewSSHHosts \<Rightarrow>
          (case listUpdate vu msg (sshHostList a) of
             Inl p \<Rightarrow> Inl p
           | Inr (l, cmd) \<Rightarrow> Inr (a\<lparr>sshHostList := l\<rparr>, cmd))
      | ViewCrictlContainers \<Rightarrow>
          (case listUpdate vu msg (crictlContainerList a) of
             Inl p \<Rightarrow> Inl p
           | Inr (l, cmd) \<Rightarrow> Inr (a\<lparr>crictlContainerList := l\<rparr>, cmd))
      | ViewCrictlLogs \<Rightarrow>
          (case crictlLogViewer_Update vu msg (crictlLogViewer a) of
             (v, cmd) \<Rightarrow> Inr (a\<lparr>crictlLogViewer := v\<rparr>, cmd))
      | ViewDeployments \<Rightarrow>
          (case listUpdate vu msg (deploymentList a) of
             Inl p \<Rightarrow> Inl p
           | Inr (l, cmd) \<Rightarrow> Inr (a\<lparr>deploymentList := l\<rparr>, cmd))
      | ViewDeploymentDetails \<Rightarrow>
          (case deploymentDetails_Update vu msg (deploymentDetails a) of
             (d, cmd) \<Rightarrow> Inr (a\<lparr>deploymentDetails := d\<rparr>, cmd))
      | ViewServices \<Rightarrow>
          (case listUpdate vu msg (serviceList a) of
             Inl p \<Rightarrow> Inl p
           | Inr (l, cmd) \<Rightarrow> Inr (a\<lparr>serviceList := l\<rparr>, cmd))
      | ViewServiceDetails \<Rightarrow>
          (case serviceDetails_Update vu msg (serviceDetails a) of
             (d, cmd) \<Rightarrow> Inr (a\<lparr>serviceDetails := d\<rparr>, cmd))
      | ViewEvents \<Rightarrow>
          (case eventViewer_Update vu msg (eventViewer a) of
             (v, cmd) \<Rightarrow> Inr (a\<lparr>eventViewer := v\<rparr>, cmd))
      | _ \<Rightarrow> Inr (a, None))"


section \<open>Key handling\<close>

text \<open>
  A case of the \<open>switch msg.String()\<close> of \<open>handleKeyMsg\<close> either returns (a panic, or
  the model and a command) or leaves the switch without returning, and the key is then
  passed to the component of the current view. No case changes the state before leaving
  the switch.
\<close>

type_synonym KeyResult = "(panic + App \<times> Cmd option) option"

definition returns :: "App \<Rightarrow> Cmd option \<Rightarrow> KeyResult" where
  "returns a cmd = Some (Inr (a, cmd))"

definition key_help :: "App \<Rightarrow> KeyResult" where
  "key_help a =
     (if viewState a \<noteq> ViewConnecting \<and> viewState a \<noteq> ViewSSHConnecting
      then returns (a\<lparr>helpScreen := hs_Toggle (helpScreen a)\<rparr>) None
      else None)"

definition key_q :: "App \<Rightarrow> KeyResult" where
  "key_q a =
     (if viewState a \<in> {ViewMain, ViewNamespaces, ViewPods, ViewPodDetails, ViewLogs,
                          ViewMultiPodLogs, ViewSSHHosts, ViewCrictlContainers, ViewCrictlLogs,
                          ViewNodeInfo}
      then returns
             (closeSSHConnection (stopCrictlLogStream (stopMultiPodStreams (stopLogStream a))))
             (Some Quit)
      else if viewState a = ViewKubeConfigSelect then returns a (Some Quit)
      else None)"

definition key_enter :: "Ext \<Rightarrow> App \<Rightarrow> KeyResult" where
  "key_enter ext a =
     (case viewState a of
        ViewKubeConfigSelect \<Rightarrow>
          (case SelectedItem (kubeConfigList a) of
             Some (kubeConfigItem kc) \<Rightarrow>
               returns (a\<lparr>selectedConfig := Some kc, viewState := ViewConnecting,
                          connectionStatus := StatusConnecting, err := None\<rparr>)
                 (Some (connectToCluster (kc_Path kc)))
           | _ \<Rightarrow> None)
      | ViewNamespaces \<Rightarrow>
          (case SelectedItem (namespaceList a) of
             Some (namespaceItem ns) \<Rightarrow>
               (case (k8sClient a, clusterInfo a) of
                  (Some c, Some ci) \<Rightarrow>
                    returns (a\<lparr>k8sClient := Some (Client (ns_Name ns)),
                               clusterInfo := Some (ClusterInfo (ns_Name ns)),
                               viewState := ViewPods, loading := True\<rparr>)
                      (tea_Batch [Some fetchPods, Some schedulePodRefresh])
                | _ \<Rightarrow> Some (Inl NilPointerDereference))
           | _ \<Rightarrow> None)
      | ViewPods \<Rightarrow>
          (case SelectedItem (podList a) of
             Some (podItem pod) \<Rightarrow>
               returns (a\<lparr>selectedPodName := pod_Name pod, viewState := ViewPodDetails,
                          loading := True\<rparr>)
                 (Some (fetchPodDetails (pod_Name pod)))
           | _ \<Rightarrow> None)
      | ViewSSHHosts \<Rightarrow>
          (case SelectedItem (sshHostList a) of
             Some (sshHostItem host) \<Rightarrow>
               (case connectToSSHHost host
                       (a\<lparr>viewState := ViewSSHConnecting, loading := True, err := None\<rparr>) of
                  (a', cmd) \<Rightarrow> returns a' cmd)
           | _ \<Rightarrow> None)
      | ViewCrictlContainers \<Rightarrow>
          (case SelectedItem (crictlContainerList a) of
             Some (crictlContainerItem container) \<Rightarrow>
               (let nodeName = (case selectedSSHHost a of Some h \<Rightarrow> sh_Name h | None \<Rightarrow> [])
                in returns
                     (a\<lparr>selectedCrictlContainer := Some container,
                        crictlLogViewer :=
                          crictlLogViewer_do ext
                            (CLV_SetContainer (cc_ContainerID container) (cc_Name container) nodeName)
                            (crictlLogViewer a),
                        viewState := ViewCrictlLogs, loading := True\<rparr>)
                     (Some fetchCrictlLogs))
           | _ \<Rightarrow> None)
      | ViewDeployments \<Rightarrow>
          (case SelectedItem (deploymentList a) of
             Some (deploymentItem d) \<Rightarrow>
               returns (a\<lparr>selectedDeployName := dep_Name d, viewState := ViewDeploymentDetails,
                          loading := True\<rparr>)
                 (Some (fetchDeploymentDetails (dep_Name d)))
           | _ \<Rightarrow> None)
      | ViewServices \<Rightarrow>
          (case SelectedItem (serviceList a) of
             Some (serviceItem svc) \<Rightarrow>
               returns (a\<lparr>selectedServiceName := svc_Name svc, viewState := ViewServiceDetails,
                          loading := True\<rparr>)
                 (Some (fetchServiceDetails (svc_Name svc)))
           | _ \<Rightarrow> None)
      | _ \<Rightarrow> None)"


definition key_r :: "App \<Rightarrow> KeyResult" where
  "key_r a =
     (case viewState a of
        ViewNamespaces \<Rightarrow>
          if k8sClient a \<noteq> None then returns (a\<lparr>loading := True\<rparr>) (Some fetchNamespaces)
          else None
      | ViewPods \<Rightarrow>
          if k8sClient a \<noteq> None then returns (a\<lparr>loading := True\<rparr>) (Some fetchPods)
          else None
      | ViewPodDetails \<Rightarrow>
          if k8sClient a \<noteq> None \<and> selectedPodName a \<noteq> []
          then returns (a\<lparr>loading := True\<rparr>) (Some (fetchPodDetails (selectedPodName a)))
          else None
      | ViewLogs \<Rightarrow>
          if k8sClient a \<noteq> None
          then
            (let a1 = (stopLogStream a)\<lparr>loading := True\<rparr> in
             returns a1
               (Some (fetchLogs (lv_PodName (logViewer a1)) (lv_Container (logViewer a1))
                        (lv_TailLines (logViewer a1)) (lv_Timestamps (logViewer a1)))))
          else None
      | ViewMain \<Rightarrow>
          (case selectedConfig a of
             Some c \<Rightarrow>
               if connectionStatus a \<noteq> StatusConnected
               then returns (a\<lparr>viewState := ViewConnecting,
                               connectionStatus := StatusConnecting, err := None\<rparr>)
                      (Some (connectToCluster (kc_Path c)))
               else None
           | None \<Rightarrow> None)
      | ViewCrictlContainers \<Rightarrow>
          if sshClient a \<noteq> None
          then returns (a\<lparr>loading := True\<rparr>) (Some fetchCrictlContainers)
          else None
      | ViewCrictlLogs \<Rightarrow>
          if sshClient a \<noteq> None \<and> selectedCrictlContainer a \<noteq> None
          then returns ((stopCrictlLogStream a)\<lparr>loading := True\<rparr>) (Some fetchCrictlLogs)
          else None
      | ViewDeployments \<Rightarrow>
          if k8sClient a \<noteq> None then returns (a\<lparr>loading := True\<rparr>) (Some fetchDeployments)
          else None
      | ViewDeploymentDetails \<Rightarrow>
          if k8sClient a \<noteq> None \<and> selectedDeployName a \<noteq> []
          then returns (a\<lparr>loading := True\<rparr>)
                 (Some (fetchDeploymentDetails (selectedDeployName a)))
          else None
      | ViewServices \<Rightarrow>
          if k8sClient a \<noteq> None then returns (a\<lparr>loading := True\<rparr>) (Some fetchServices)
          else None
      | ViewServiceDetails \<Rightarrow>
          if k8sClient a \<noteq> None \<and> selectedServiceName a \<noteq> []
          then returns (a\<lparr>loading := True\<rparr>)
                 (Some (fetchServiceDetails (selectedServiceName a)))
          else None
      | ViewEvents \<Rightarrow>
          if k8sClient a \<noteq> None
          then returns (a\<lparr>loading := True\<rparr>)
                 (tea_Batch [Some fetchEvents, Some scheduleEventRefresh])
          else None
      | _ \<Rightarrow> None)"

definition key_l :: "App \<Rightarrow> KeyResult" where
  "key_l a =
     (if viewState a = ViewPodDetails \<and> selectedPodName a \<noteq> []
      then returns (a\<lparr>logSourceView := ViewPodDetails, loading := True\<rparr>)
             (Some (fetchContainers (selectedPodName a)))
      else if viewState a = ViewPods
      then
        (case SelectedItem (podList a) of
           Some (podItem pod) \<Rightarrow>
             returns (a\<lparr>selectedPodName := pod_Name pod, logSourceView := ViewPods,
                        loading := True\<rparr>)
               (Some (fetchContainers (pod_Name pod)))
         | _ \<Rightarrow> None)
      else None)"

text \<open>The pods among the items of a list: the loop of the \<open>L\<close> key.\<close>

fun podsOfItems :: "Item list \<Rightarrow> Pod list" where
  "podsOfItems [] = []"
| "podsOfItems (podItem pod # items) = pod # podsOfItems items"
| "podsOfItems (item # items) = podsOfItems items"

definition key_L :: "Ext \<Rightarrow> App \<Rightarrow> KeyResult" where
  "key_L ext a =
     (if viewState a = ViewPods \<and> k8sClient a \<noteq> None
      then
        (let ps = podsOfItems (Items (podList a)) in
         if length ps > 0
         then (case pms_Show ext ps (podMultiSelector a) of
                 (s, cmd) \<Rightarrow> returns (a\<lparr>podMultiSelector := s\<rparr>) cmd)
         else None)
      else None)"

text \<open>The keys \<open>d\<close> and \<open>R\<close>: the confirmation dialog for deleting or restarting a pod.\<close>

definition key_confirm :: "Ext \<Rightarrow> ConfirmAction \<Rightarrow> App \<Rightarrow> KeyResult" where
  "key_confirm ext action a =
     (if viewState a = ViewPodDetails \<and> selectedPodName a \<noteq> []
      then (case cd_Show ext action (selectedPodName a) (confirmDialog a) of
              (d, cmd) \<Rightarrow> returns (a\<lparr>confirmDialog := d\<rparr>) cmd)
      else if viewState a = ViewPods
      then
        (case SelectedItem (podList a) of
           Some (podItem pod) \<Rightarrow>
             (case cd_Show ext action (pod_Name pod) (confirmDialog a) of
                (d, cmd) \<Rightarrow> returns (a\<lparr>confirmDialog := d\<rparr>) cmd)
         | _ \<Rightarrow> None)
      else None)"

text \<open>
  The key \<open>f\<close>. \<open>ToggleFollowing\<close> of the single-pod and container log viewers
  returns the follow flag after the toggle, as the one of the multi-pod viewer does.
\<close>

definition key_f :: "Ext \<Rightarrow> App \<Rightarrow> KeyResult" where
  "key_f ext a =
     (if viewState a = ViewLogs
      then
        (let a1 = a\<lparr>logViewer := logViewer_do ext LV_ToggleFollowing (logViewer a)\<rparr> in
         if lv_IsFollowing (logViewer a1)
         then (case startLogStreaming a1 of (a2, cmd) \<Rightarrow> returns a2 cmd)
         else returns (stopLogStream a1) None)
      else if viewState a = ViewCrictlLogs
      then
        (let a1 = a\<lparr>crictlLogViewer :=
                      crictlLogViewer_do ext CLV_ToggleFollowing (crictlLogViewer a)\<rparr> in
         if clv_IsFollowing (crictlLogViewer a1)
         then (case startCrictlLogStreaming a1 of (a2, cmd) \<Rightarrow> returns a2 cmd)
         else returns (stopCrictlLogStream a1) None)
      else if viewState a = ViewEvents
      then returns (a\<lparr>eventViewer := eventViewer_do ext EV_ToggleFollowing (eventViewer a)\<rparr>)
             None
      else if viewState a = ViewMultiPodLogs
      then returns (a\<lparr>multiPodLogViewer := ToggleFollowing (multiPodLogViewer a)\<rparr>) None
      else None)"

definition key_t :: "Ext \<Rightarrow> App \<Rightarrow> KeyResult" where
  "key_t ext a =
     (if viewState a = ViewLogs
      then
        (let a1 = a\<lparr>logViewer := logViewer_do ext LV_ToggleTimestamps (logViewer a)\<rparr>;
             a2 = (stopLogStream a1)\<lparr>loading := True\<rparr>
         in returns a2
              (Some (fetchLogs (lv_PodName (logViewer a2)) (lv_Container (logViewer a2))
                       (lv_TailLines (logViewer a2)) (lv_Timestamps (logViewer a2)))))
      else if viewState a = ViewCrictlLogs \<and> selectedCrictlContainer a \<noteq> None
      then
        (let a1 = a\<lparr>crictlLogViewer :=
                      crictlLogViewer_do ext CLV_ToggleTimestamps (crictlLogViewer a)\<rparr>
         in returns ((stopCrictlLogStream a1)\<lparr>loading := True\<rparr>) (Some fetchCrictlLogs))
      else None)"

definition key_m :: "Ext \<Rightarrow> App \<Rightarrow> KeyResult" where
  "key_m ext a =
     (if viewState a = ViewPods
      then
        (if metricsClient a \<noteq> None
         then
           (let a1 = rebuildPodList ext (a\<lparr>metricsEnabled := \<not> metricsEnabled a\<rparr>) in
            if metricsEnabled a1 \<and> podMetrics a1 = None
            then returns a1 (Some fetchMetrics)
            else returns a1 None)
         else
           (case notification_Show ext
                   ''Metrics not available (metrics-server not installed)''
                   NotificationWarning (notification a) of
              (n, cmd) \<Rightarrow> returns (a\<lparr>notification := n\<rparr>) None))
      else None)"

definition key_c :: "Ext \<Rightarrow> App \<Rightarrow> KeyResult" where
  "key_c ext a =
     (if viewState a = ViewLogs \<and> length (lv_Containers (logViewer a)) > 1
      then (case cs_Show ext (lv_Containers (logViewer a)) (lv_Container (logViewer a))
                   (containerSelector a) of
              (c, cmd) \<Rightarrow> returns (a\<lparr>containerSelector := c\<rparr>) cmd)
      else None)"

definition key_slash :: "App \<Rightarrow> KeyResult" where
  "key_slash a =
     (if viewState a = ViewLogs \<or> viewState a = ViewCrictlLogs
      then returns (a\<lparr>searchInput := si_Show (searchInput a)\<rparr>) None
      else None)"

definition key_s :: "Ext \<Rightarrow> App \<Rightarrow> KeyResult" where
  "key_s ext a =
     (if viewState a = ViewDeployments
      then
        (case SelectedItem (deploymentList a) of
           Some (deploymentItem d) \<Rightarrow>
             (case sd_Show ext (dep_Name d) (dep_Replicas d) (scaleDialog a) of
                (sd, cmd) \<Rightarrow> returns (a\<lparr>scaleDialog := sd\<rparr>) cmd)
         | _ \<Rightarrow> None)
      else if viewState a = ViewDeploymentDetails
      then
        (case dd_Deployment (deploymentDetails a) of
           Some dep \<Rightarrow>
             (case sd_Show ext (dep_Name dep) (dep_Replicas dep) (scaleDialog a) of
                (sd, cmd) \<Rightarrow> returns (a\<lparr>scaleDialog := sd\<rparr>) cmd)
         | None \<Rightarrow> None)
      else None)"

definition key_w :: "Ext \<Rightarrow> App \<Rightarrow> KeyResult" where
  "key_w ext a =
     (if viewState a = ViewEvents
      then returns (a\<lparr>eventViewer := eventViewer_do ext EV_ToggleWarningsOnly (eventViewer a)\<rparr>)
             None
      else None)"

definition key_k :: "Ext \<Rightarrow> App \<Rightarrow> KeyResult" where
  "key_k ext a =
     (if viewState a = ViewEvents
      then returns (a\<lparr>eventViewer := eventViewer_do ext EV_CycleKindFilter (eventViewer a)\<rparr>)
             None
      else None)"

text \<open>The keys \<open>n\<close> and \<open>N\<close>: the next and the previous search match.\<close>

definition key_match :: "Ext \<Rightarrow> SearchInputOp \<Rightarrow> App \<Rightarrow> KeyResult" where
  "key_match ext op a =
     (if viewState a = ViewLogs \<and> lv_SearchQuery (logViewer a) \<noteq> []
      then returns (a\<lparr>searchInput := searchInput_do ext op (searchInput a)\<rparr>) None
      else if viewState a = ViewCrictlLogs \<and> clv_searchQuery (crictlLogViewer a) \<noteq> []
      then returns (a\<lparr>searchInput := searchInput_do ext op (searchInput a)\<rparr>) None
      else None)"

subsection \<open>The digit keys\<close>

definition key_1 :: "App \<Rightarrow> KeyResult" where
  "key_1 a =
     (if connectionStatus a = StatusConnected \<and> viewState a \<noteq> ViewNamespaces
      then returns (a\<lparr>viewState := ViewNamespaces, loading := True\<rparr>) (Some fetchNamespaces)
      else None)"

definition key_2 :: "App \<Rightarrow> KeyResult" where
  "key_2 a =
     (if connectionStatus a = StatusConnected \<and> viewState a \<noteq> ViewPods
      then returns (a\<lparr>viewState := ViewPods, loading := True\<rparr>)
             (tea_Batch [Some fetchPods, Some schedulePodRefresh])
      else None)"

definition key_3 :: "App \<Rightarrow> KeyResult" where
  "key_3 a =
     (if connectionStatus a = StatusConnected \<and> viewState a \<noteq> ViewDeployments
      then returns (a\<lparr>viewState := ViewDeployments, loading := True\<rparr>) (Some fetchDeployments)
      else None)"

definition key_4 :: "App \<Rightarrow> KeyResult" where
  "key_4 a =
     (if connectionStatus a = StatusConnected \<and> viewState a \<noteq> ViewServices
      then returns (a\<lparr>viewState := ViewServices, loading := True\<rparr>) (Some fetchServices)
      else None)"

definition key_5 :: "App \<Rightarrow> KeyResult" where
  "key_5 a =
     (if connectionStatus a = StatusConnected \<and> viewState a \<noteq> ViewEvents
      then returns (a\<lparr>viewState := ViewEvents, loading := True\<rparr>)
             (tea_Batch [Some fetchEvents, Some scheduleEventRefresh])
      else None)"

definition key_9 :: "App \<Rightarrow> KeyResult" where
  "key_9 a =
     (if length (SSHHosts (config a)) > 0
      then returns (a\<lparr>viewState := ViewSSHHosts, err := None\<rparr>) None
      else None)"


subsection \<open>The escape key\<close>

definition key_esc :: "Ext \<Rightarrow> App \<Rightarrow> KeyResult" where
  "key_esc ext a =
     (case viewState a of
        ViewMain \<Rightarrow>
          if connectionStatus a = StatusConnected
          then returns (a\<lparr>viewState := ViewPods\<rparr>)
                 (tea_Batch [Some fetchPods, Some schedulePodRefresh])
          else if length (KubeConfigs (config a)) > 1
          then returns (a\<lparr>viewState := ViewKubeConfigSelect, k8sClient := None,
                          clusterInfo := None, connectionStatus := StatusDisconnected\<rparr>) None
          else None
      | ViewLogs \<Rightarrow>
          (let a1 = stopLogStream a;
               a2 = a1\<lparr>logViewer := logViewer_do ext LV_Clear (logViewer a1)\<rparr>
           in if logSourceView a2 = ViewPods
              then returns (a2\<lparr>viewState := ViewPods, selectedPodName := []\<rparr>)
                     (tea_Batch [Some fetchPods, Some schedulePodRefresh])
              else returns (a2\<lparr>viewState := ViewPodDetails, loading := True\<rparr>)
                     (Some (fetchPodDetails (selectedPodName a2))))
      | ViewMultiPodLogs \<Rightarrow>
          (let a1 = stopMultiPodStreams a;
               a2 = a1\<lparr>multiPodLogViewer := Clear (multiPodLogViewer a1)\<rparr>
           in returns (a2\<lparr>viewState := ViewPods\<rparr>)
                (tea_Batch [Some fetchPods, Some schedulePodRefresh]))
      | ViewPodDetails \<Rightarrow>
          returns (a\<lparr>viewState := ViewPods, selectedPodName := []\<rparr>)
            (tea_Batch [Some fetchPods, Some schedulePodRefresh])
      | ViewPods \<Rightarrow> returns (a\<lparr>viewState := ViewNamespaces\<rparr>) (Some fetchNamespaces)
      | ViewNamespaces \<Rightarrow>
          if length (KubeConfigs (config a)) > 1
          then returns (a\<lparr>viewState := ViewKubeConfigSelect, k8sClient := None,
                          clusterInfo := None, connectionStatus := StatusDisconnected\<rparr>) None
          else None
      | ViewSSHHosts \<Rightarrow>
          if connectionStatus a = StatusConnected
          then returns (a\<lparr>viewState := ViewPods\<rparr>)
                 (tea_Batch [Some fetchPods, Some schedulePodRefresh])
          else returns (a\<lparr>viewState := ViewNamespaces\<rparr>) (Some fetchNamespaces)
      | ViewCrictlContainers \<Rightarrow>
          returns ((closeSSHConnection a)\<lparr>viewState := ViewSSHHosts\<rparr>) None
      | ViewNodeInfo \<Rightarrow>
          returns ((closeSSHConnection a)\<lparr>viewState := ViewSSHHosts\<rparr>) None
      | ViewCrictlLogs \<Rightarrow>
          (let a1 = stopCrictlLogStream a;
               a2 = a1\<lparr>crictlLogViewer := crictlLogViewer_do ext CLV_Clear (crictlLogViewer a1)\<rparr>
           in returns (a2\<lparr>selectedCrictlContainer := None, viewState := ViewCrictlContainers\<rparr>)
                None)
      | ViewDeployments \<Rightarrow>
          returns (a\<lparr>viewState := ViewPods\<rparr>)
            (tea_Batch [Some fetchPods, Some schedulePodRefresh])
      | ViewDeploymentDetails \<Rightarrow>
          returns (a\<lparr>viewState := ViewDeployments, selectedDeployName := []\<rparr>)
            (Some fetchDeployments)
      | ViewServices \<Rightarrow>
          returns (a\<lparr>viewState := ViewPods\<rparr>)
            (tea_Batch [Some fetchPods, Some schedulePodRefresh])
      | ViewServiceDetails \<Rightarrow>
          returns (a\<lparr>viewState := ViewServices, selectedServiceName := []\<rparr>)
            (Some fetchServices)
      | ViewEvents \<Rightarrow>
          returns (a\<lparr>viewState := ViewPods\<rparr>)
            (tea_Batch [Some fetchPods, Some schedulePodRefresh])
      | _ \<Rightarrow> None)"

subsection \<open>\<open>handleKeyMsg\<close>\<close>

text \<open>The \<open>switch msg.String()\<close>.\<close>

definition keySwitch :: "Ext \<Rightarrow> string \<Rightarrow> App \<Rightarrow> KeyResult" where
  "keySwitch ext key a =
     (if key = ''ctrl+c'' then returns a (Some Quit)
      else if key = ''?'' then key_help a
      else if key = ''q'' then key_q a
      else if key = ''enter'' then key_enter ext a
      else if key = ''r'' then key_r a
      else if key = ''l'' then key_l a
      else if key = ''L'' then key_L ext a
      else if key = ''d'' then key_confirm ext ConfirmActionDeletePod a
      else if key = ''R'' then key_confirm ext ConfirmActionRestartPod a
      else if key = ''f'' then key_f ext a
      else if key = ''t'' then key_t ext a
      else if key = ''m'' then key_m ext a
      else if key = ''c'' then key_c ext a
      else if key = ''/'' then key_slash a
      else if key = ''s'' then key_s ext a
      else if key = ''w'' then key_w ext a
      else if key = ''k'' then key_k ext a
      else if key = ''n'' then key_match ext SI_NextMatch a
      else if key = ''N'' then key_match ext SI_PrevMatch a
      else if key = ''1'' then key_1 a
      else if key = ''2'' then key_2 a
      else if key = ''3'' then key_3 a
      else if key = ''4'' then key_4 a
      else if key = ''5'' then key_5 a
      else if key = ''9'' then key_9 a
      else if key = ''esc'' then key_esc ext a
      else None)"

text \<open>
  "Handle filter mode for lists": while the list of the current view is editing its
  filter, the key goes to that list.
\<close>

definition filterModeList :: "ViewUpdates \<Rightarrow> Msg \<Rightarrow> App \<Rightarrow> KeyResult" where
  "filterModeList vu msg a =
     (if viewState a = ViewKubeConfigSelect \<and> SettingFilter (kubeConfigList a)
      then (case listUpdate vu msg (kubeConfigList a) of
              Inl p \<Rightarrow> Some (Inl p)
            | Inr (l, cmd) \<Rightarrow> Some (Inr (a\<lparr>kubeConfigList := l\<rparr>, cmd)))
      else if viewState a = ViewNamespaces \<and> SettingFilter (namespaceList a)
      then (case listUpdate vu msg (namespaceList a) of
              Inl p \<Rightarrow> Some (Inl p)
            | Inr (l, cmd) \<Rightarrow> Some (Inr (a\<lparr>namespaceList := l\<rparr>, cmd)))
      else if viewState a = ViewPods \<and> SettingFilter (podList a)
      then (case listUpdate vu msg (podList a) of
              Inl p \<Rightarrow> Some (Inl p)
            | Inr (l, cmd) \<Rightarrow> Some (Inr (a\<lparr>podList := l\<rparr>, cmd)))
      else if viewState a = ViewSSHHosts \<and> SettingFilter (sshHostList a)
      then (case listUpdate vu msg (sshHostList a) of
              Inl p \<Rightarrow> Some (Inl p)
            | Inr (l, cmd) \<Rightarrow> Some (Inr (a\<lparr>sshHostList := l\<rparr>, cmd)))
      else if viewState a = ViewCrictlContainers \<and> SettingFilter (crictlContainerList a)
      then (case listUpdate vu msg (crictlContainerList a) of
              Inl p \<Rightarrow> Some (Inl p)
            | Inr (l, cmd) \<Rightarrow> Some (Inr (a\<lparr>crictlContainerList := l\<rparr>, cmd)))
      else None)"

text \<open>The help screen, asked for a key: \<open>?\<close> and \<open>esc\<close> hide it, every key is swallowed.\<close>

definition updateHelpScreen :: "Msg \<Rightarrow> App \<Rightarrow> App \<times> Cmd option" where
  "updateHelpScreen msg a =
     (if keyOf msg = Some ''?'' \<or> keyOf msg = Some ''esc''
      then a\<lparr>helpScreen := hs_Hide (helpScreen a)\<rparr> else a, None)"

definition handleKeyMsg ::
  "Ext \<Rightarrow> ViewUpdates \<Rightarrow> string \<Rightarrow> App \<Rightarrow> panic + App \<times> Cmd option" where
  "handleKeyMsg ext vu key a =
     (if viewState a = ViewConnecting
      then (if key = ''ctrl+c'' then Inr (a, Some Quit) else Inr (a, None))
      else if cd_visible (confirmDialog a) then Inr (updateConfirmDialog ext (KeyMsg key) a)
      else if sd_visible (scaleDialog a) then Inr (updateScaleDialog ext (KeyMsg key) a)
      else if hs_visible (helpScreen a) then Inr (updateHelpScreen (KeyMsg key) a)
      else if cs_visible (containerSelector a)
      then Inr (updateContainerSelector ext (KeyMsg key) a)
      else if pms_visible (podMultiSelector a) then updatePodMultiSelector ext (KeyMsg key) a
      else if pi_visible (passphraseInput a) then Inr (updatePassphraseInput ext (KeyMsg key) a)
      else if si_visible (searchInput a) then Inr (updateSearchInput ext (KeyMsg key) a)
      else
        (case filterModeList vu (KeyMsg key) a of
           Some r \<Rightarrow> r
         | None \<Rightarrow>
             (case keySwitch ext key a of
                Some r \<Rightarrow> r
              | None \<Rightarrow> updateChild vu (KeyMsg key) a)))"

section \<open>\<open>Update\<close>\<close>

definition sidebarMinWidth :: int where
  "sidebarMinWidth = 90"

text \<open>
  The window-size message. The sizes of the lists only matter for rendering and are not
  kept; the help screen is resized, which leaves its visibility as it is.
\<close>

definition handleWindowSize :: "Ext \<Rightarrow> int \<Rightarrow> int \<Rightarrow> App \<Rightarrow> App" where
  "handleWindowSize ext w h a =
     (let a1 = a\<lparr>width := w, height := h, ready := True\<rparr>;
          a2 = (if width a1 \<ge> sidebarMinWidth
                then
                  (let sw = width a1 div 4;
                       sw1 = (if sw < 24 then 24 else sw);
                       sw2 = (if sw1 > 30 then 30 else sw1)
                   in a1\<lparr>showSidebar := True, sidebarWidth := sw2,
                         contentWidth := width a1 - 4 - sw2\<rparr>)
                else a1\<lparr>showSidebar := False, sidebarWidth := 0,
                        contentWidth := width a1 - 4\<rparr>);
          cw = contentWidth a2;
          viewH = (if showSidebar a2 then height a2 - 6 else height a2 - 8);
          logH = (if showSidebar a2 then height a2 - 6 else height a2 - 10)
      in a2\<lparr>kubeConfigList := newList ext (map kubeConfigItem (KubeConfigs (config a2))),
            namespaceList := newList ext [],
            podList := newList ext [],
            podDetails := podDetails_SetSize ext cw viewH (podDetails a2),
            logViewer := logViewer_do ext (LV_SetSize cw logH) (logViewer a2),
            confirmDialog := (confirmDialog a2)\<lparr>cd_width := width a2\<rparr>,
            notification := notification_SetWidth ext (width a2) (notification a2),
            containerSelector := (containerSelector a2)\<lparr>cs_width := width a2\<rparr>,
            sshHostList := newList ext (map sshHostItem (SSHHosts (config a2))),
            crictlContainerList := newList ext [],
            passphraseInput := (passphraseInput a2)\<lparr>pi_width := width a2\<rparr>,
            crictlLogViewer := crictlLogViewer_do ext (CLV_SetSize cw logH) (crictlLogViewer a2),
            deploymentList := newList ext [],
            deploymentDetails := deploymentDetails_SetSize ext cw viewH (deploymentDetails a2),
            serviceList := newList ext [],
            serviceDetails := serviceDetails_SetSize ext cw viewH (serviceDetails a2),
            eventViewer := eventViewer_do ext (EV_SetSize cw logH) (eventViewer a2),
            scaleDialog := (scaleDialog a2)\<lparr>sd_width := width a2\<rparr>,
            podMultiSelector := (podMultiSelector a2)\<lparr>pms_width := width a2\<rparr>,
            multiPodLogViewer := SetSize cw logH (multiPodLogViewer a2)\<rparr>)"

text \<open>The two periodic refresh ticks.\<close>

definition podRefreshTick :: "App \<Rightarrow> App \<times> Cmd option" where
  "podRefreshTick a =
     (if viewState a = ViewPods \<and> k8sClient a \<noteq> None \<and> \<not> cd_visible (confirmDialog a)
         \<and> \<not> SettingFilter (podList a) \<and> FilterStateOf (podList a) = Unfiltered
      then (a, tea_Batch [Some fetchPods, Some schedulePodRefresh])
      else if viewState a = ViewPods \<and> k8sClient a \<noteq> None
      then (a, Some schedulePodRefresh)
      else (a, None))"

definition eventRefreshTick :: "App \<Rightarrow> App \<times> Cmd option" where
  "eventRefreshTick a =
     (if viewState a = ViewEvents \<and> k8sClient a \<noteq> None \<and> ev_IsFollowing (eventViewer a)
      then (a, tea_Batch [Some fetchEvents, Some scheduleEventRefresh])
      else if viewState a = ViewEvents \<and> k8sClient a \<noteq> None
      then (a, Some scheduleEventRefresh)
      else (a, None))"

text \<open>
  The end of \<open>Update\<close>, reached by the messages its type switch has no case for: the
  visible dialogs in turn, then the component of the current view.
\<close>

definition updateDialogsThenChild ::
  "Ext \<Rightarrow> ViewUpdates \<Rightarrow> Msg \<Rightarrow> App \<Rightarrow> panic + App \<times> Cmd option" where
  "updateDialogsThenChild ext vu msg a =
     (if cd_visible (confirmDialog a) then Inr (updateConfirmDialog ext msg a)
      else if sd_visible (scaleDialog a) then Inr (updateScaleDialog ext msg a)
      else if cs_visible (containerSelector a) then Inr (updateContainerSelector ext msg a)
      else if pms_visible (podMultiSelector a) then updatePodMultiSelector ext msg a
      else if pi_visible (passphraseInput a) then Inr (updatePassphraseInput ext msg a)
      else updateChild vu msg a)"

definition Update :: "Ext \<Rightarrow> ViewUpdates \<Rightarrow> Msg \<Rightarrow> App \<Rightarrow> panic + App \<times> Cmd option" where
  "Update ext vu msg a =
     (case msg of
        KeyMsg key \<Rightarrow> handleKeyMsg ext vu key a
      | WindowSizeMsg w h \<Rightarrow> Inr (handleWindowSize ext w h a, None)
      | connectResultMsg client info e \<Rightarrow> Inr (handleConnectResult ext client info e a)
      | namespacesResultMsg namespaces e \<Rightarrow> Inr (handleNamespacesResult ext namespaces e a)
      | podsResultMsg ps e \<Rightarrow> Inr (handlePodsResult ext ps e a)
      | podDetailsResultMsg pod events e \<Rightarrow> Inr (handlePodDetailsResult ext pod events e a)
      | podRefreshTickMsg \<Rightarrow> Inr (podRefreshTick a)
      | eventRefreshTickMsg \<Rightarrow> Inr (eventRefreshTick a)
      | podDeleteResultMsg podName e \<Rightarrow> Inr (handlePodDeleteResult ext podName e a)
      | podRestartResultMsg podName e \<Rightarrow> Inr (handlePodRestartResult ext podName e a)
      | notificationExpiredMsg \<Rightarrow>
          Inr (a\<lparr>notification := notification_Hide ext (notification a)\<rparr>, None)
      | containersResultMsg containers e \<Rightarrow> handleContainersResult ext containers e a
      | logsResultMsg logs e \<Rightarrow> Inr (handleLogsResult ext logs e a)
      | logLineMsg line \<Rightarrow> Inr (handleLogLine ext line a)
      | logStreamEndedMsg e \<Rightarrow> Inr (handleLogStreamEnded ext e a)
      | multiPodLogLineMsg podName container line \<Rightarrow>
          Inr (handleMultiPodLogLine podName container line a)
      | multiPodLogStreamEndedMsg podName e \<Rightarrow> handleMultiPodLogStreamEnded podName e a
      | sshConnectResultMsg e \<Rightarrow> Inr (handleSSHConnectResult ext e a)
      | sshCrictlContainersMsg cs e \<Rightarrow> Inr (handleSSHCrictlContainers ext cs e a)
      | sshNodeInfoMsg info e \<Rightarrow> Inr (handleSSHNodeInfo info e a)
      | sshCrictlLogsMsg logs e \<Rightarrow> Inr (handleCrictlLogsResult ext logs e a)
      | sshCrictlLogLineMsg line \<Rightarrow> Inr (handleCrictlLogLine ext line a)
      | sshCrictlLogStreamEndedMsg e \<Rightarrow> Inr (handleCrictlLogStreamEnded ext e a)
      | deploymentsResultMsg ds e \<Rightarrow> Inr (handleDeploymentsResult ext ds e a)
      | deploymentDetailsResultMsg d e \<Rightarrow> Inr (handleDeploymentDetailsResult ext d e a)
      | deploymentScaleResultMsg name replicas e \<Rightarrow>
          Inr (handleDeploymentScaleResult ext name replicas e a)
      | deploymentRestartResultMsg name e \<Rightarrow> Inr (handleDeploymentRestartResult ext name e a)
      | deploymentDeleteResultMsg name e \<Rightarrow> Inr (handleDeploymentDeleteResult ext name e a)
      | servicesResultMsg svcs e \<Rightarrow> Inr (handleServicesResult ext svcs e a)
      | serviceDetailsResultMsg svc e \<Rightarrow> Inr (handleServiceDetailsResult ext svc e a)
      | eventsResultMsg events e \<Rightarrow> Inr (handleEventsResult ext events e a)
      | metricsResultMsg metrics e \<Rightarrow> Inr (handleMetricsResult ext metrics e a)
      | spinnerTickMsg \<Rightarrow>
          (case spinner_Update ext msg (spinner a) of
             (sp, cmd) \<Rightarrow> Inr (a\<lparr>spinner := sp\<rparr>, cmd))
      | OtherMsg n \<Rightarrow> updateDialogsThenChild ext vu msg a)"

text \<open>
  Processing a sequence of messages, one \<open>Update\<close> after the other, with the commands
  returned; a panic ends the run.
\<close>

fun run :: "Ext \<Rightarrow> ViewUpdates \<Rightarrow> Msg list \<Rightarrow> App \<Rightarrow> panic + App \<times> Cmd option list" where
  "run ext vu [] a = Inr (a, [])"
| "run ext vu (msg # msgs) a =
     (case Update ext vu msg a of
        Inl p \<Rightarrow> Inl p
      | Inr (a', cmd) \<Rightarrow>
          (case run ext vu msgs a' of
             Inl p \<Rightarrow> Inl p
           | Inr (a'', cmds) \<Rightarrow> Inr (a'', cmd # cmds)))"


section \<open>A sample environment\<close>

text \<open>
  One choice of the parameters, used to run the loop on concrete inputs: forms that stay
  in their normal state (but for the multi-select form, which \<open>enter\<close> completes with all
  pods selected), lists that select their first item and start editing the filter
  on \<open>/\<close> and answer a message of their own with a command, viewers whose
  \<open>ToggleFollowing\<close> flips the follow flag.
\<close>

definition firstItem :: "Item list \<Rightarrow> Item option" where
  "firstItem items = (case items of [] \<Rightarrow> None | x # _ \<Rightarrow> Some x)"

definition vu0 :: ViewUpdates where
  "vu0 =
     \<lparr>list_Update = (\<lambda>msg l.
        if keyOf msg = Some ''/''
        then (l\<lparr>SettingFilter := True, FilterStateOf := Filtering\<rparr>, None)
        else (case msg of OtherMsg n \<Rightarrow> (l, Some (ExtCmd n)) | _ \<Rightarrow> (l, None))),
      podDetails_Update = (\<lambda>msg d. (d, None)),
      logViewer_Update = (\<lambda>msg v. (v, None)),
      viewport_Update = (\<lambda>msg v. (v, None)),
      crictlLogViewer_Update = (\<lambda>msg v. (v, None)),
      deploymentDetails_Update = (\<lambda>msg d. (d, None)),
      serviceDetails_Update = (\<lambda>msg d. (d, None)),
      eventViewer_Update = (\<lambda>msg v. (v, None))\<rparr>"

definition ext0 :: Ext where
  "ext0 =
     \<lparr>form_Init = (\<lambda>f. None),
      form_Update_Confirm = (\<lambda>msg f v. (f, v, None)),
      form_Update_Input = (\<lambda>msg f v. (f, v, None)),
      form_Update_Select = (\<lambda>msg f v. (f, v, None)),
      form_Update_MultiSelect = (\<lambda>msg f v.
        if keyOf msg = Some ''enter''
        then (f\<lparr>State := StateCompleted\<rparr>, [allPodsValue], None)
        else (f, v, None)),
      searchInput_Update = (\<lambda>msg s. (s, [], False, False, None)),
      searchInput_do = (\<lambda>op s. s),
      list_New = (\<lambda>items. \<lparr>Items = items, SelectedItem = firstItem items,
                              SettingFilter = False, FilterStateOf = Unfiltered,
                              hasDelegate = True\<rparr>),
      list_SetItems = (\<lambda>items l. l\<lparr>Items := items, SelectedItem := firstItem items\<rparr>),
      logViewer_do = (\<lambda>op v.
        case op of
          LV_ToggleFollowing \<Rightarrow> v\<lparr>lv_IsFollowing := \<not> lv_IsFollowing v\<rparr>
        | LV_SetPod name ns cs \<Rightarrow>
            v\<lparr>lv_PodName := name, lv_Containers := cs,
              lv_Container := (case cs of [] \<Rightarrow> [] | c # _ \<Rightarrow> c)\<rparr>
        | _ \<Rightarrow> v),
      crictlLogViewer_do = (\<lambda>op v.
        case op of
          CLV_ToggleFollowing \<Rightarrow> v\<lparr>clv_IsFollowing := \<not> clv_IsFollowing v\<rparr>
        | _ \<Rightarrow> v),
      eventViewer_do = (\<lambda>op v.
        case op of
          EV_ToggleFollowing \<Rightarrow> v\<lparr>ev_IsFollowing := \<not> ev_IsFollowing v\<rparr>
        | _ \<Rightarrow> v),
      podDetails_SetSize = (\<lambda>w h d. d),
      podDetails_SetPod = (\<lambda>pod events d. d),
      deploymentDetails_SetSize = (\<lambda>w h d. d),
      deploymentDetails_SetDeployment = (\<lambda>dep d. d\<lparr>dd_Deployment := dep\<rparr>),
      serviceDetails_SetSize = (\<lambda>w h d. d),
      serviceDetails_SetService = (\<lambda>svc d. d),
      notification_Show = (\<lambda>text kind n. (n, None)),
      notification_Hide = (\<lambda>n. n),
      notification_SetWidth = (\<lambda>w n. n),
      NewLogViewer = \<lparr>lv_PodName = [], lv_Container = [], lv_Containers = [],
                       lv_TailLines = 100, lv_Timestamps = False, lv_IsFollowing = False,
                       lv_SearchQuery = [], lv_MatchCount = 0, lv_rest = 0\<rparr>,
      NewCrictlLogViewer = \<lparr>clv_TailLines = 100, clv_Timestamps = False,
                             clv_IsFollowing = False, clv_searchQuery = [],
                             clv_MatchCount = 0, clv_rest = 0\<rparr>,
      NewEventViewer = \<lparr>ev_IsFollowing = True, ev_rest = 0\<rparr>,
      NewPodDetailsModel = Opaque 0,
      NewDeploymentDetailsModel = \<lparr>dd_Deployment = None, dd_rest = 0\<rparr>,
      NewServiceDetailsModel = Opaque 0,
      NewNotification = Opaque 0,
      spinner_New = Opaque 0,
      spinner_Update = (\<lambda>msg sp. (sp, Some spinnerTick)),
      NewMetricsClient = (\<lambda>path. None),
      CheckMetricsAvailable = (\<lambda>mc. False),
      error_Error = (\<lambda>e. case e of OtherError text \<Rightarrow> text | _ \<Rightarrow> []),
      Sprintf_d = (\<lambda>i. []),
      ParseInt = (\<lambda>text. None)\<rparr>"

text \<open>A configuration with two kubeconfigs (so that none is selected at start) and one SSH host.\<close>

definition cfg2 :: Config where
  "cfg2 =
     \<lparr>KubeConfigs = [KubeConfig ''dev'' ''/home/u/.kube/dev'',
                      KubeConfig ''prod'' ''/home/u/.kube/prod''],
      SSHHosts = [SSHHost ''k3s-node-1'']\<rparr>"

text \<open>The state at start: \<open>NewApp\<close>, then \<open>Init\<close>.\<close>

definition startApp :: "Ext \<Rightarrow> Config \<Rightarrow> App" where
  "startApp ext cfg = fst (Init (NewApp ext cfg))"

text \<open>A configuration with a single kubeconfig, which \<open>Init\<close> connects to at once.\<close>

definition cfg1 :: Config where
  "cfg1 =
     \<lparr>KubeConfigs = [KubeConfig ''dev'' ''/home/u/.kube/dev''],
      SSHHosts = [SSHHost ''k3s-node-1'']\<rparr>"

text \<open>
  A session that ends in the logs view with follow mode on: the window is sized, the
  cluster connects, the namespace and the pod are chosen, \<open>l\<close> opens the logs from the
  pod list and \<open>f\<close> turns follow mode on.
\<close>

definition logsTrace :: "Msg list" where
  "logsTrace =
     [WindowSizeMsg 120 40,
      connectResultMsg (Some (Client ''default'')) (Some (ClusterInfo ''default'')) None,
      namespacesResultMsg [Namespace ''default''] None,
      KeyMsg ''enter'',
      podsResultMsg [Pod ''web-1'' [''app'']] None,
      KeyMsg ''l'',
      containersResultMsg [''app''] None,
      KeyMsg ''f'']"

text \<open>
  A session in which the user starts an SSH connection, goes back to the host list with
  \<open>9\<close> and opens the help screen before the connection attempt answers that a passphrase
  is required.
\<close>

definition sshTrace :: "Msg list" where
  "sshTrace =
     [WindowSizeMsg 120 40, KeyMsg ''9'', KeyMsg ''enter'', KeyMsg ''9'', KeyMsg ''?'',
      sshConnectResultMsg (Some ErrPassphraseRequired)]"

text \<open>
  A session that opens the multi-pod selector on two pods; and the state of a running
  multi-pod session on them.
\<close>

definition podsTrace :: "Msg list" where
  "podsTrace =
     [WindowSizeMsg 120 40,
      connectResultMsg (Some (Client ''default'')) (Some (ClusterInfo ''default'')) None,
      namespacesResultMsg [Namespace ''default''] None,
      KeyMsg ''enter'',
      podsResultMsg [Pod ''web-1'' [''app''], Pod ''web-2'' [''app'', ''sidecar'']] None]"

text \<open>The same, followed by \<open>L\<close> and \<open>enter\<close>: a multi-pod log session on both pods.\<close>

definition multiTrace :: "Msg list" where
  "multiTrace = podsTrace @ [KeyMsg ''L'', KeyMsg ''enter'']"

definition entryWeb1 :: MultiPodLogEntry where
  "entryWeb1 = \<lparr>PodName = ''web-1'', Container = ''app'', Line = ''started''\<rparr>"

definition entryWeb2 :: MultiPodLogEntry where
  "entryWeb2 = \<lparr>PodName = ''web-2'', Container = ''app'', Line = ''ready''\<rparr>"

definition sizedViewer :: MultiPodLogViewer where
  "sizedViewer = SetSize 86 34 NewMultiPodLogViewer"

section \<open>Notions used by the properties\<close>

text \<open>
  The state a sequence of messages leads to (the state it started from, had it panicked),
  and the commands returned on the way (none, had it panicked).
\<close>

definition stateAfter :: "Ext \<Rightarrow> ViewUpdates \<Rightarrow> Msg list \<Rightarrow> App \<Rightarrow> App" where
  "stateAfter ext vu msgs a = (case run ext vu msgs a of Inr (a', cmds) \<Rightarrow> a' | Inl p \<Rightarrow> a)"

definition commandsAfter :: "Ext \<Rightarrow> ViewUpdates \<Rightarrow> Msg list \<Rightarrow> App \<Rightarrow> Cmd option list" where
  "commandsAfter ext vu msgs a =
     (case run ext vu msgs a of Inr (a', cmds) \<Rightarrow> cmds | Inl p \<Rightarrow> [])"

text \<open>
  The viewport shows the rendering of the entries (or the waiting text when there are
  none).
\<close>

definition contentRendered :: "MultiPodLogViewer \<Rightarrow> bool" where
  "contentRendered v \<longleftrightarrow>
     vp_content (mpv_viewport v) =
       map normalizeChunk
         (joinPlain
            (if mpv_entries v = [] then [Plain ''Waiting for logs...'']
             else renderEntries 0 (length (mpv_entries v)) [] (mpv_entries v)))"

text \<open>The tail lines a goroutine asks for, and the goroutines started between two states.\<close>

fun tailLinesOf :: "Goroutine \<Rightarrow> int" where
  "tailLinesOf (StreamPodLogs ctx ns pod opts ch) = lo_TailLines opts"
| "tailLinesOf (StreamContainerLogs ctx cid opts ch) = clo_TailLines opts"

fun podOf :: "Goroutine \<Rightarrow> string" where
  "podOf (StreamPodLogs ctx ns pod opts ch) = pod"
| "podOf (StreamContainerLogs ctx cid opts ch) = []"

fun ctxOf :: "Goroutine \<Rightarrow> nat" where
  "ctxOf (StreamPodLogs ctx ns pod opts ch) = ctx"
| "ctxOf (StreamContainerLogs ctx cid opts ch) = ctx"

text \<open>The command that reads the channel a goroutine of a multi-pod session writes to.\<close>

fun readerOf :: "Goroutine \<Rightarrow> Cmd" where
  "readerOf (StreamPodLogs ctx ns pod opts ch) = waitForMultiPodLogLine pod (lo_Container opts) ch"
| "readerOf (StreamContainerLogs ctx cid opts ch) = waitForCrictlLogLine ch"

definition startedBetween :: "App \<Rightarrow> App \<Rightarrow> Goroutine list" where
  "startedBetween a a' = drop (length (goroutines a)) (goroutines a')"

text \<open>The stream-ended messages of a list of sources, each with its error.\<close>

definition streamEndedMsgs :: "(string \<times> error option) list \<Rightarrow> Msg list" where
  "streamEndedMsgs ends = map (\<lambda>(podName, e). multiPodLogStreamEndedMsg podName e) ends"

text \<open>The seven modals, their visibility, and the two orders in which the loop asks them.\<close>

datatype Modal =
    ConfirmModal
  | ScaleModal
  | HelpModal
  | ContainerSelectorModal
  | MultiPodSelectorModal
  | PassphraseModal
  | SearchModal

fun modalVisible :: "App \<Rightarrow> Modal \<Rightarrow> bool" where
  "modalVisible a ConfirmModal = cd_visible (confirmDialog a)"
| "modalVisible a ScaleModal = sd_visible (scaleDialog a)"
| "modalVisible a HelpModal = hs_visible (helpScreen a)"
| "modalVisible a ContainerSelectorModal = cs_visible (containerSelector a)"
| "modalVisible a MultiPodSelectorModal = pms_visible (podMultiSelector a)"
| "modalVisible a PassphraseModal = pi_visible (passphraseInput a)"
| "modalVisible a SearchModal = si_visible (searchInput a)"

definition keyOrder :: "Modal list" where
  "keyOrder =
     [ConfirmModal, ScaleModal, HelpModal, ContainerSelectorModal, MultiPodSelectorModal,
      PassphraseModal, SearchModal]"

definition otherOrder :: "Modal list" where
  "otherOrder =
     [ConfirmModal, ScaleModal, ContainerSelectorModal, MultiPodSelectorModal,
      PassphraseModal]"

definition firstVisible :: "Modal list \<Rightarrow> App \<Rightarrow> Modal option" where
  "firstVisible order a = List.find (modalVisible a) order"

definition visibleModals :: "App \<Rightarrow> Modal list" where
  "visibleModals a = filter (modalVisible a) keyOrder"

text \<open>
  Asking a modal: the function the loop calls for it. The loop asks the help screen for
  key messages only.
\<close>

definition askModal :: "Ext \<Rightarrow> Modal \<Rightarrow> Msg \<Rightarrow> App \<Rightarrow> panic + App \<times> Cmd option" where
  "askModal ext m msg a =
     (case m of
        ConfirmModal \<Rightarrow> Inr (updateConfirmDialog ext msg a)
      | ScaleModal \<Rightarrow> Inr (updateScaleDialog ext msg a)
      | HelpModal \<Rightarrow> Inr (updateHelpScreen msg a)
      | ContainerSelectorModal \<Rightarrow> Inr (updateContainerSelector ext msg a)
      | MultiPodSelectorModal \<Rightarrow> updatePodMultiSelector ext msg a
      | PassphraseModal \<Rightarrow> Inr (updatePassphraseInput ext msg a)
      | SearchModal \<Rightarrow> Inr (updateSearchInput ext msg a))"

text \<open>At most one of the modals other than the passphrase input is visible.\<close>

definition atMostOneModal :: "App \<Rightarrow> bool" where
  "atMostOneModal a \<longleftrightarrow> length (filter (\<lambda>m. m \<noteq> PassphraseModal) (visibleModals a)) \<le> 1"

text \<open>Every modal but \<open>m\<close> is the same in \<open>a'\<close> as in \<open>a\<close>.\<close>

definition otherModalsUnchanged :: "Modal \<Rightarrow> App \<Rightarrow> App \<Rightarrow> bool" where
  "otherModalsUnchanged m a a' \<longleftrightarrow>
     (m = ConfirmModal \<or> confirmDialog a' = confirmDialog a)
     \<and> (m = ScaleModal \<or> scaleDialog a' = scaleDialog a)
     \<and> (m = HelpModal \<or> helpScreen a' = helpScreen a)
     \<and> (m = ContainerSelectorModal \<or> containerSelector a' = containerSelector a)
     \<and> (m = MultiPodSelectorModal \<or> podMultiSelector a' = podMultiSelector a)
     \<and> (m = PassphraseModal \<or> passphraseInput a' = passphraseInput a)
     \<and> (m = SearchModal \<or> searchInput a' = searchInput a)"

text \<open>The list of the current view is editing its filter.\<close>

definition filterEditing :: "App \<Rightarrow> bool" where
  "filterEditing a \<longleftrightarrow>
     viewState a = ViewKubeConfigSelect \<and> SettingFilter (kubeConfigList a)
     \<or> viewState a = ViewNamespaces \<and> SettingFilter (namespaceList a)
     \<or> viewState a = ViewPods \<and> SettingFilter (podList a)
     \<or> viewState a = ViewSSHHosts \<and> SettingFilter (sshHostList a)
     \<or> viewState a = ViewCrictlContainers \<and> SettingFilter (crictlContainerList a)"

text \<open>
  A key reaches the \<open>switch\<close> on the key: the view is not the connecting view, no modal
  is visible and no list filter is being edited.
\<close>

definition reachesKeySwitch :: "App \<Rightarrow> bool" where
  "reachesKeySwitch a \<longleftrightarrow>
     viewState a \<noteq> ViewConnecting \<and> visibleModals a = [] \<and> \<not> filterEditing a"


text \<open>The states the loop can be in: the state at start, and every state a message leads to.\<close>

inductive reachable :: "Ext \<Rightarrow> ViewUpdates \<Rightarrow> Config \<Rightarrow> App \<Rightarrow> bool"
  for ext :: Ext and vu :: ViewUpdates and cfg :: Config where
  reachable_start: "reachable ext vu cfg (startApp ext cfg)"
| reachable_step:
    "reachable ext vu cfg a \<Longrightarrow> Update ext vu msg a = Inr (a', cmd) \<Longrightarrow> reachable ext vu cfg a'"

text \<open>In the logs view there is a cluster client.\<close>

definition logsViewHasClient :: "App \<Rightarrow> bool" where
  "logsViewHasClient a \<longleftrightarrow> viewState a \<noteq> ViewLogs \<or> k8sClient a \<noteq> None"

text \<open>
  The messages the type switch of \<open>Update\<close> has a case for, the key message apart: the
  loop's own result and tick messages, the window size, the spinner tick.
\<close>

definition isLoopMsg :: "Msg \<Rightarrow> bool" where
  "isLoopMsg msg = (case msg of KeyMsg key \<Rightarrow> False | OtherMsg n \<Rightarrow> False | _ \<Rightarrow> True)"

text \<open>
  Three ways a step of the loop can treat the view, the cluster client and the recorded
  parent of the logs view. \<open>stepOK\<close>: the logs view is not entered, the client is
  still there if the view is the logs view, the recorded parent is unchanged.
  \<open>recordsParent\<close>: the current view is recorded as the parent. \<open>entersLogs\<close>: the
  logs view is entered, with a client and the recorded parent unchanged.
\<close>

definition stepOK :: "App \<Rightarrow> App \<Rightarrow> bool" where
  "stepOK a a' \<longleftrightarrow>
     (logsViewHasClient a \<longrightarrow> logsViewHasClient a')
     \<and> (viewState a' = ViewLogs \<longrightarrow> viewState a = ViewLogs)
     \<and> logSourceView a' = logSourceView a"

definition recordsParent :: "App \<Rightarrow> App \<Rightarrow> bool" where
  "recordsParent a a' \<longleftrightarrow>
     viewState a' = viewState a \<and> k8sClient a' = k8sClient a \<and> logSourceView a' = viewState a
     \<and> (viewState a = ViewPods \<or> viewState a = ViewPodDetails)"

definition entersLogs :: "App \<Rightarrow> App \<Rightarrow> bool" where
  "entersLogs a a' \<longleftrightarrow>
     viewState a' = ViewLogs \<and> k8sClient a' \<noteq> None \<and> logSourceView a' = logSourceView a"

definition keyKeeps :: "App \<Rightarrow> KeyResult \<Rightarrow> bool" where
  "keyKeeps a r = (case r of Some (Inr (a', cmd)) \<Rightarrow> stepOK a a' | _ \<Rightarrow> True)"

definition keeps :: "App \<Rightarrow> panic + App \<times> Cmd option \<Rightarrow> bool" where
  "keeps a r = (case r of Inr (a', cmd) \<Rightarrow> stepOK a a' | Inl p \<Rightarrow> True)"

definition keepsOrRecords :: "App \<Rightarrow> panic + App \<times> Cmd option \<Rightarrow> bool" where
  "keepsOrRecords a r =
     (case r of Inr (a', cmd) \<Rightarrow> stepOK a a' \<or> recordsParent a a' | Inl p \<Rightarrow> True)"

text \<open>
  What the loop keeps about the modals: at most one of those other than the passphrase
  input is visible, and none is visible in the connecting view. \<open>modalStep\<close>: a step that
  shows none of them, and neither enters the connecting view nor shows the passphrase
  input in it.
\<close>

definition modalsOK :: "App \<Rightarrow> bool" where
  "modalsOK a \<longleftrightarrow> atMostOneModal a \<and> (viewState a = ViewConnecting \<longrightarrow> visibleModals a = [])"

definition modalStep :: "App \<Rightarrow> App \<Rightarrow> bool" where
  "modalStep a a' \<longleftrightarrow>
     (cd_visible (confirmDialog a') \<longrightarrow> cd_visible (confirmDialog a))
     \<and> (sd_visible (scaleDialog a') \<longrightarrow> sd_visible (scaleDialog a))
     \<and> (hs_visible (helpScreen a') \<longrightarrow> hs_visible (helpScreen a))
     \<and> (cs_visible (containerSelector a') \<longrightarrow> cs_visible (containerSelector a))
     \<and> (pms_visible (podMultiSelector a') \<longrightarrow> pms_visible (podMultiSelector a))
     \<and> (si_visible (searchInput a') \<longrightarrow> si_visible (searchInput a))
     \<and> (viewState a' = ViewConnecting \<longrightarrow>
          viewState a = ViewConnecting
          \<and> (pi_visible (passphraseInput a') \<longrightarrow> pi_visible (passphraseInput a)))"

definition keyKeepsModals :: "App \<Rightarrow> KeyResult \<Rightarrow> bool" where
  "keyKeepsModals a r = (case r of Some (Inr (a', cmd)) \<Rightarrow> modalsOK a' | _ \<Rightarrow> True)"

definition keepsModals :: "App \<Rightarrow> panic + App \<times> Cmd option \<Rightarrow> bool" where
  "keepsModals a r = (case r of Inr (a', cmd) \<Rightarrow> modalStep a a' | Inl p \<Rightarrow> True)"

section \<open>Sample states\<close>

text \<open>
  The states the sample sessions lead to, from the start with the single kubeconfig.
\<close>

definition podsState :: App where
  "podsState = stateAfter ext0 vu0 podsTrace (startApp ext0 cfg1)"

definition logsState :: App where
  "logsState = stateAfter ext0 vu0 logsTrace (startApp ext0 cfg1)"

definition multiState :: App where
  "multiState = stateAfter ext0 vu0 multiTrace (startApp ext0 cfg1)"

text \<open>
  The pods view after \<open>?\<close> (the help screen is open) and after \<open>L\<close> (the multi-pod
  selector is open); the logs view after \<open>/\<close> (the search input is open).
\<close>

definition helpState :: App where
  "helpState = stateAfter ext0 vu0 [KeyMsg ''?''] podsState"

definition selectorState :: App where
  "selectorState = stateAfter ext0 vu0 [KeyMsg ''L''] podsState"

definition searchState :: App where
  "searchState = stateAfter ext0 vu0 [KeyMsg ''/''] logsState"

text \<open>
  The logs requested from the pod list with \<open>l\<close>, then \<open>enter\<close> pressed before the
  containers arrive: the pod details view, waiting for the containers; and the state when
  they have arrived.
\<close>

definition waitingInDetailsState :: App where
  "waitingInDetailsState = stateAfter ext0 vu0 [KeyMsg ''l'', KeyMsg ''enter''] podsState"

definition logsOverDetailsState :: App where
  "logsOverDetailsState =
     stateAfter ext0 vu0 [containersResultMsg [''app''] None] waitingInDetailsState"

text \<open>
  The multi-pod session stopped with \<open>esc\<close>, and a new session started with \<open>L\<close> and
  \<open>enter\<close> before the stream-ended messages of the stopped one have arrived.
\<close>

definition stoppedState :: App where
  "stoppedState = stateAfter ext0 vu0 [KeyMsg ''esc''] multiState"

definition secondSessionState :: App where
  "secondSessionState = stateAfter ext0 vu0 [KeyMsg ''L'', KeyMsg ''enter''] stoppedState"


definition helpPassState :: App where
  "helpPassState = stateAfter ext0 vu0 sshTrace (startApp ext0 cfg2)"

text \<open>
  Other update functions of the views: every list and the log viewer answer every message
  with a command.
\<close>

definition vu1 :: ViewUpdates where
  "vu1 = vu0\<lparr>list_Update := (\<lambda>msg l. (l, Some Quit)),
             logViewer_Update := (\<lambda>msg v. (v, Some Quit))\<rparr>"

section \<open>Properties\<close>

lemma startApp_cfg2: "startApp ext0 cfg2 = NewApp ext0 cfg2"
  by (simp add: startApp_def Init_def NewApp_def cfg2_def)

subsection \<open>Log lines outside the logs view\<close>

text \<open>
  Claim C10. A log-line message processed while the current view is not the logs view is
  discarded: \<open>Update\<close> returns the state as it was (so the log viewer's content and the
  notification are unchanged) and no command (the channel is not read again).
\<close>

theorem log_line_outside_logs_view_discarded:
  "viewState a \<noteq> ViewLogs \<Longrightarrow> Update ext vu (logLineMsg line) a = Inr (a, None)"
  by (simp add: Update_def handleLogLine_def)

theorem log_line_outside_logs_view_discarded_witness:
  "viewState (startApp ext0 cfg2) \<noteq> ViewLogs
   \<and> Update ext0 vu0 (logLineMsg ''ready'') (startApp ext0 cfg2) = Inr (startApp ext0 cfg2, None)"
proof -
  have h: "viewState (startApp ext0 cfg2) \<noteq> ViewLogs"
    by (simp add: startApp_cfg2 NewApp_def)
  show ?thesis
    using h log_line_outside_logs_view_discarded [OF h] by simp
qed

subsection \<open>Refresh ticks after the view was left\<close>

lemma podRefreshTick_off_view:
  "viewState a \<noteq> ViewPods \<Longrightarrow> Update ext vu podRefreshTickMsg a = Inr (a, None)"
  by (simp add: Update_def podRefreshTick_def)

lemma eventRefreshTick_off_view:
  "viewState a \<noteq> ViewEvents \<Longrightarrow> Update ext vu eventRefreshTickMsg a = Inr (a, None)"
  by (simp add: Update_def eventRefreshTick_def)

text \<open>
  Claim C4, as stated, fails: a pod refresh tick processed at start, in the kubeconfig
  selection view, returns no command at all, so it does not schedule the next tick.
\<close>

theorem tick_off_view_rearms_counterexample:
  "viewState (startApp ext0 cfg2) \<noteq> ViewPods
   \<and> Update ext0 vu0 podRefreshTickMsg (startApp ext0 cfg2) = Inr (startApp ext0 cfg2, None)"
  by (simp add: startApp_cfg2 NewApp_def Update_def podRefreshTick_def)

text \<open>
  Claim C4, amended. Any number of consecutive pod refresh ticks processed while the
  current view is not the pods view, and any number of consecutive event refresh ticks
  processed while it is not the events view, leave the state unchanged and return no
  command: no fetch task, and no next tick either.
\<close>

theorem ticks_off_view_emit_nothing:
  "(viewState a \<noteq> ViewPods \<longrightarrow>
      run ext vu (replicate n podRefreshTickMsg) a = Inr (a, replicate n None))
   \<and> (viewState a \<noteq> ViewEvents \<longrightarrow>
      run ext vu (replicate n eventRefreshTickMsg) a = Inr (a, replicate n None))"
  by (induction n) (simp_all add: podRefreshTick_off_view eventRefreshTick_off_view)

theorem ticks_off_view_emit_nothing_witness:
  "viewState (startApp ext0 cfg2) \<noteq> ViewPods
   \<and> viewState (startApp ext0 cfg2) \<noteq> ViewEvents
   \<and> run ext0 vu0 (replicate 3 podRefreshTickMsg) (startApp ext0 cfg2)
       = Inr (startApp ext0 cfg2, replicate 3 None)
   \<and> run ext0 vu0 (replicate 3 eventRefreshTickMsg) (startApp ext0 cfg2)
       = Inr (startApp ext0 cfg2, replicate 3 None)"
proof -
  have h: "viewState (startApp ext0 cfg2) \<noteq> ViewPods"
    "viewState (startApp ext0 cfg2) \<noteq> ViewEvents"
    by (simp_all add: startApp_cfg2 NewApp_def)
  show ?thesis
    using h ticks_off_view_emit_nothing [of "startApp ext0 cfg2" ext0 vu0 3] by simp
qed

subsection \<open>Headers of the multi-pod log viewer\<close>

lemma sourceOf_nonempty: "sourceOf e \<noteq> []"
  by (simp add: sourceOf_def)

text \<open>
  The headers \<open>updateContent\<close> writes: one where the first entry's source differs from
  the initial \<open>lastSource\<close>, and one at each later change of source.
\<close>

lemma headers_renderEntries:
  "length (filter isHeader (renderEntries i n l0 es)) =
     (case es of [] \<Rightarrow> 0
      | e # es' \<Rightarrow> (if sourceOf e \<noteq> l0 then 1 else 0)
                    + adjacentSourceChanges (map sourceOf es))"
proof (induction es arbitrary: i l0)
  case Nil
  then show ?case by simp
next
  case (Cons e es)
  show ?case
  proof (cases es)
    case Nil
    then show ?thesis by (simp add: Let_def)
  next
    case (Cons e' es')
    then show ?thesis
      using Cons.IH [of "Suc i" "if sourceOf e \<noteq> l0 then sourceOf e else l0"]
      by (simp add: Let_def)
  qed
qed

text \<open>Joining the plain pieces and replacing the line ends keeps the header pieces.\<close>

lemma headers_joinPlain: "length (filter isHeader (joinPlain cs)) = length (filter isHeader cs)"
  by (induction cs rule: joinPlain.induct) simp_all

lemma headers_normalize:
  "length (filter isHeader (map normalizeChunk (joinPlain cs))) = length (filter isHeader cs)"
proof -
  have "isHeader (normalizeChunk c) = isHeader c" for c
    by (cases c) simp_all
  then have "filter isHeader (map normalizeChunk ds) = map normalizeChunk (filter isHeader ds)"
    for ds
    by (induction ds) simp_all
  then show ?thesis by (simp add: headers_joinPlain)
qed

lemma contentRendered_SetPods:
  "mpv_ready v \<Longrightarrow>
     contentRendered (SetPods ps v) \<and> mpv_ready (SetPods ps v) \<and> mpv_entries (SetPods ps v) = []"
  by (simp add: SetPods_def contentRendered_def Let_def SetContent_def GotoTop_def)

lemma AppendEntry_rendered:
  "mpv_ready v \<Longrightarrow> contentRendered v \<Longrightarrow>
     mpv_ready (AppendEntry e v) \<and> contentRendered (AppendEntry e v)
     \<and> mpv_entries (AppendEntry e v) = mpv_entries v @ keptEntries [e]"
  by (simp add: AppendEntry_def contentRendered_def Let_def SetContent_def GotoBottom_def
      updateContent_def keptEntries_def)

lemma keptEntries_append: "keptEntries (xs @ ys) = keptEntries xs @ keptEntries ys"
  by (simp add: keptEntries_def)

lemma appendAll_rendered:
  "mpv_ready v \<Longrightarrow> contentRendered v \<Longrightarrow>
     mpv_ready (appendAll es v) \<and> contentRendered (appendAll es v)
     \<and> mpv_entries (appendAll es v) = mpv_entries v @ keptEntries es"
proof (induction es arbitrary: v)
  case Nil
  then show ?case by (simp add: appendAll_def keptEntries_def)
next
  case (Cons e es)
  have step: "mpv_ready (AppendEntry e v) \<and> contentRendered (AppendEntry e v)
      \<and> mpv_entries (AppendEntry e v) = mpv_entries v @ keptEntries [e]"
    using AppendEntry_rendered Cons.prems by blast
  have "appendAll (e # es) v = appendAll es (AppendEntry e v)"
    by (simp add: appendAll_def)
  moreover have "keptEntries (e # es) = keptEntries [e] @ keptEntries es"
    using keptEntries_append [of "[e]" es] by simp
  ultimately show ?case
    using Cons.IH [of "AppendEntry e v"] step by simp
qed

text \<open>
  Claim C6, as stated, fails: after a single entry is appended the content has one header
  line, while a sequence of one append has no adjacent change of source.
\<close>

theorem headers_single_entry_counterexample:
  "headerCount (appendAll [entryWeb1] (SetPods [''web-1''] sizedViewer)) = 1
   \<and> adjacentSourceChanges (map sourceOf [entryWeb1]) = 0"
  by code_simp

text \<open>
  Claim C6, amended. In a viewer that has been sized, after a new session is set up and a
  sequence of tagged entries is appended, the entries whose line is empty once a trailing
  newline is removed are not kept, and the number of header lines in the content is zero
  when no entry was kept and otherwise one (the header of the first kept entry) plus the
  number of adjacent changes of source among the kept entries, a source being the pod name,
  a slash and the container.
\<close>

theorem headers_count_source_changes:
  assumes "mpv_ready v"
  shows "headerCount (appendAll es (SetPods ps v)) =
           (if keptEntries es = [] then 0
            else 1 + adjacentSourceChanges (map sourceOf (keptEntries es)))"
proof -
  let ?v = "appendAll es (SetPods ps v)"
  have inv: "contentRendered ?v" "mpv_entries ?v = keptEntries es"
    using appendAll_rendered [of "SetPods ps v" es] contentRendered_SetPods [OF assms, of ps]
    by simp_all
  show ?thesis
  proof (cases "keptEntries es = []")
    case True
    then show ?thesis using inv by (simp add: headerCount_def contentRendered_def)
  next
    case False
    let ?r = "renderEntries 0 (length (keptEntries es)) [] (keptEntries es)"
    from False inv have "vp_content (mpv_viewport ?v) = map normalizeChunk (joinPlain ?r)"
      by (simp add: contentRendered_def)
    then have "headerCount ?v = length (filter isHeader ?r)"
      unfolding headerCount_def by (simp only: headers_normalize)
    with False show ?thesis
      using headers_renderEntries [of 0 "length (keptEntries es)" "[]" "keptEntries es"]
      by (cases "keptEntries es") (simp_all add: sourceOf_nonempty del: renderEntries.simps)
  qed
qed

theorem headers_count_source_changes_witness:
  "mpv_ready sizedViewer
   \<and> headerCount (appendAll [entryWeb1, entryWeb2, entryWeb1]
                    (SetPods [''web-1'', ''web-2''] sizedViewer)) = 3
   \<and> keptEntries [entryWeb1, entryWeb2, entryWeb1] = [entryWeb1, entryWeb2, entryWeb1]
   \<and> 1 + adjacentSourceChanges (map sourceOf [entryWeb1, entryWeb2, entryWeb1]) = 3"
proof -
  have h: "mpv_ready sizedViewer" by code_simp
  have k: "keptEntries [entryWeb1, entryWeb2, entryWeb1] = [entryWeb1, entryWeb2, entryWeb1]"
    by code_simp
  have c: "1 + adjacentSourceChanges (map sourceOf [entryWeb1, entryWeb2, entryWeb1]) = 3"
    by code_simp
  show ?thesis
    using h k c
      headers_count_source_changes [OF h, of "[entryWeb1, entryWeb2, entryWeb1]"
        "[''web-1'', ''web-2'']"]
    by simp
qed

subsection \<open>The error of a stream-ended message\<close>

lemma deliver_lines:
  "deliver (Suc (length ls)) \<lparr>ch_buf = ls, ch_closed = True\<rparr>
     = map logLineMsg ls @ [logStreamEndedMsg None]"
  by (induction ls) (simp_all add: run_waitForLogLine_def)

text \<open>
  Whatever the streaming call returned, the messages delivered for a finished producer are
  its lines followed by a stream-ended message without error.
\<close>

lemma stream_goroutine_end_message:
  "deliver (Suc (length (so_lines out))) (streamGoroutine out makeChan)
     = map logLineMsg (so_lines out) @ [logStreamEndedMsg None]"
  using deliver_lines [of "so_lines out"] by (simp add: streamGoroutine_def makeChan_def)

text \<open>
  Claim C1 does not hold of the code: when the streaming call ends with the error
  \<open>context.Canceled\<close>, the goroutine drops the error and the one message delivered is a
  stream-ended message whose error is \<open>nil\<close>, not \<open>context.Canceled\<close>.
\<close>

theorem cancelled_stream_end_carries_no_error:
  "deliver 1 (streamGoroutine \<lparr>so_lines = [], so_err = Some Canceled\<rparr> makeChan)
     = [logStreamEndedMsg None]"
  by (simp add: streamGoroutine_def makeChan_def run_waitForLogLine_def)

subsection \<open>What a step does to the view, the client and the recorded parent\<close>

lemma keyKeeps_simps:
  "keyKeeps a None" "keyKeeps a (Some (Inl p))" "keyKeeps a (returns a' c) = stepOK a a'"
  by (simp_all add: keyKeeps_def returns_def)

lemma keeps_simps: "keeps a (Inl p)" "keeps a (Inr r) = stepOK a (fst r)"
  by (simp_all add: keeps_def case_prod_beta)

lemma keeps_ifI: "keeps a x \<Longrightarrow> keeps a y \<Longrightarrow> keeps a (if c then x else y)"
  by simp

lemma stepOK_refl: "stepOK a a"
  by (simp add: stepOK_def)

lemma frame_stop:
  "viewState (stopLogStream a) = viewState a" "k8sClient (stopLogStream a) = k8sClient a"
  "logSourceView (stopLogStream a) = logSourceView a"
  "viewState (stopCrictlLogStream a) = viewState a" "k8sClient (stopCrictlLogStream a) = k8sClient a"
  "logSourceView (stopCrictlLogStream a) = logSourceView a"
  "viewState (stopMultiPodStreams a) = viewState a" "k8sClient (stopMultiPodStreams a) = k8sClient a"
  "logSourceView (stopMultiPodStreams a) = logSourceView a"
  "viewState (closeSSHConnection a) = viewState a" "k8sClient (closeSSHConnection a) = k8sClient a"
  "logSourceView (closeSSHConnection a) = logSourceView a"
  "viewState (rebuildPodList ext a) = viewState a" "k8sClient (rebuildPodList ext a) = k8sClient a"
  "logSourceView (rebuildPodList ext a) = logSourceView a"
  by (simp_all add: stopLogStream_def stopCrictlLogStream_def stopMultiPodStreams_def
      closeSSHConnection_def rebuildPodList_def Let_def split: option.split)

lemma frame_start:
  "viewState (fst (startLogStreaming a)) = viewState a"
  "k8sClient (fst (startLogStreaming a)) = k8sClient a"
  "logSourceView (fst (startLogStreaming a)) = logSourceView a"
  "viewState (fst (startCrictlLogStreaming a)) = viewState a"
  "k8sClient (fst (startCrictlLogStreaming a)) = k8sClient a"
  "logSourceView (fst (startCrictlLogStreaming a)) = logSourceView a"
  "viewState (fst (connectToSSHHost h a)) = viewState a"
  "k8sClient (fst (connectToSSHHost h a)) = k8sClient a"
  "logSourceView (fst (connectToSSHHost h a)) = logSourceView a"
  by (simp_all add: startLogStreaming_def startCrictlLogStreaming_def connectToSSHHost_def
      frame_stop Let_def split: option.split)

lemmas frame =
  frame_stop frame_start keyKeeps_simps case_prod_beta Let_def stepOK_def logsViewHasClient_def

lemma ok_key_help: "keyKeeps a (key_help a)"
  by (simp add: key_help_def frame)

lemma ok_key_q: "keyKeeps a (key_q a)"
  by (simp add: key_q_def frame)

lemma ok_key_enter: "keyKeeps a (key_enter ext a)"
  by (cases "viewState a") (simp_all add: key_enter_def frame split: option.split Item.split)

lemma ok_key_r: "keyKeeps a (key_r a)"
  by (cases "viewState a") (simp_all add: key_r_def frame split: option.split)

lemma ok_key_L: "keyKeeps a (key_L ext a)"
  by (simp add: key_L_def frame)

lemma ok_key_confirm: "keyKeeps a (key_confirm ext act a)"
  by (simp add: key_confirm_def frame split: option.split Item.split)

lemma ok_key_f: "keyKeeps a (key_f ext a)"
  by (simp add: key_f_def frame)

lemma ok_key_t: "keyKeeps a (key_t ext a)"
  by (simp add: key_t_def frame)

lemma ok_key_m: "keyKeeps a (key_m ext a)"
  by (simp add: key_m_def frame)

lemma ok_key_c: "keyKeeps a (key_c ext a)"
  by (simp add: key_c_def frame)

lemma ok_key_slash: "keyKeeps a (key_slash a)"
  by (simp add: key_slash_def frame)

lemma ok_key_s: "keyKeeps a (key_s ext a)"
  by (simp add: key_s_def frame split: option.split Item.split)

lemma ok_key_w: "keyKeeps a (key_w ext a)"
  by (simp add: key_w_def frame)

lemma ok_key_k: "keyKeeps a (key_k ext a)"
  by (simp add: key_k_def frame)

lemma ok_key_match: "keyKeeps a (key_match ext op a)"
  by (simp add: key_match_def frame)

lemma ok_key_digits:
  "keyKeeps a (key_1 a) \<and> keyKeeps a (key_2 a) \<and> keyKeeps a (key_3 a)
   \<and> keyKeeps a (key_4 a) \<and> keyKeeps a (key_5 a) \<and> keyKeeps a (key_9 a)"
  by (simp add: key_1_def key_2_def key_3_def key_4_def key_5_def key_9_def frame)

lemma ok_key_esc: "keyKeeps a (key_esc ext a)"
  by (cases "viewState a") (simp_all add: key_esc_def frame)

lemma ok_keySwitch: "key \<noteq> ''l'' \<Longrightarrow> keyKeeps a (keySwitch ext key a)"
  using ok_key_digits [of a]
  by (simp add: keySwitch_def keyKeeps_simps stepOK_refl ok_key_help ok_key_q ok_key_enter ok_key_r ok_key_L
      ok_key_confirm ok_key_f ok_key_t ok_key_m ok_key_c ok_key_slash ok_key_s ok_key_w ok_key_k
      ok_key_match ok_key_esc)

text \<open>The key \<open>l\<close> is the one step that records the parent of the logs view.\<close>

lemma key_l_records:
  "key_l a = Some (Inr (a', cmd)) \<Longrightarrow>
     viewState a' = viewState a \<and> k8sClient a' = k8sClient a \<and> logSourceView a' = viewState a
     \<and> (viewState a = ViewPods \<or> viewState a = ViewPodDetails)"
  by (auto simp: key_l_def returns_def split: if_splits option.splits Item.splits)

lemma keeps_weaken: "keeps a r \<Longrightarrow> keepsOrRecords a r"
  by (cases r) (auto simp: keeps_def keepsOrRecords_def)

lemma keepsOrRecords_ifI:
  "keepsOrRecords a x \<Longrightarrow> keepsOrRecords a y \<Longrightarrow> keepsOrRecords a (if c then x else y)"
  by simp

lemma startSingle_frame:
  "startSinglePodStream ctx ns pn cn wh a = Inr (a', cmd) \<Longrightarrow>
     \<exists>n m g. a' = a\<lparr>nextChan := n, multiPodLineChanMap := m, goroutines := g\<rparr>"
  by (auto simp: startSinglePodStream_def Let_def split: option.splits)

lemma startStreams_frame:
  "startStreams ctx ns pcm pns cmds a = Inr (a', cmds') \<Longrightarrow>
     \<exists>n m cm g. a' = a\<lparr>nextChan := n, multiPodLineChanMap := m, multiPodContainerMap := cm,
                        goroutines := g\<rparr>"
proof (induction pns arbitrary: a cmds)
  case Nil
  then have "a' = a" by simp
  then have "a' = a\<lparr>nextChan := nextChan a, multiPodLineChanMap := multiPodLineChanMap a,
                     multiPodContainerMap := multiPodContainerMap a, goroutines := goroutines a\<rparr>"
    by simp
  then show ?case by blast
next
  case (Cons pn pns)
  from Cons.prems obtain cm a1 cmd where
    cm: "multiPodContainerMap a = Some cm" and
    s1: "startSinglePodStream ctx ns pn (mapGet (Some pcm) pn) True
           (a\<lparr>multiPodContainerMap := Some (AList.update pn (mapGet (Some pcm) pn) cm)\<rparr>)
         = Inr (a1, cmd)" and
    rest: "startStreams ctx ns pcm pns (cmds @ [cmd]) a1 = Inr (a', cmds')"
    by (auto simp: Let_def split: option.splits sum.splits)
  from startSingle_frame [OF s1] obtain n m g where
    a1: "a1 = a\<lparr>multiPodContainerMap := Some (AList.update pn (mapGet (Some pcm) pn) cm),
                  nextChan := n, multiPodLineChanMap := m, goroutines := g\<rparr>" by auto
  from Cons.IH [OF rest] obtain n' m' cm' g' where
    "a' = a1\<lparr>nextChan := n', multiPodLineChanMap := m', multiPodContainerMap := cm',
               goroutines := g'\<rparr>" by blast
  with a1 have "a' = a\<lparr>nextChan := n', multiPodLineChanMap := m', multiPodContainerMap := cm',
                         goroutines := g'\<rparr>" by simp
  then show ?case by blast
qed

text \<open>What \<open>startMultiPodStreaming\<close> changes: see its definition; the rest is as before.\<close>

lemma startMulti_frame:
  "startMultiPodStreaming pns a = Inr (a', cmd) \<Longrightarrow>
     a' = a \<or>
     (\<exists>cc ctx1 ctx2 act n lm cm v nc ch g.
        a' = a\<lparr>cancelledCtxs := cc, multiPodStreamCancel := ctx1, multiPodStreamCtx := ctx2,
               multiPodStreamActive := True, multiPodActiveStreams := n,
               multiPodLineChanMap := lm, multiPodContainerMap := cm,
               multiPodLogViewer := v, viewState := ViewMultiPodLogs, nextCtx := nc,
               nextChan := ch, goroutines := g\<rparr>)"
proof (cases "k8sClient a")
  case None
  assume "startMultiPodStreaming pns a = Inr (a', cmd)"
  with None show ?thesis by (simp add: startMultiPodStreaming_def)
next
  case (Some c)
  assume r: "startMultiPodStreaming pns a = Inr (a', cmd)"
  let ?a1 = "stopMultiPodStreams a"
  let ?a3 = "?a1\<lparr>multiPodLogViewer := SetFollowing True (SetPods pns (multiPodLogViewer ?a1)),
                 viewState := ViewMultiPodLogs, nextCtx := Suc (nextCtx ?a1),
                 multiPodStreamCancel := Some (nextCtx ?a1), multiPodStreamCtx := Some (nextCtx ?a1),
                 multiPodStreamActive := True, multiPodActiveStreams := int (length pns),
                 multiPodLineChanMap := Some [], multiPodContainerMap := Some []\<rparr>"
  from r Some obtain cmds where
    "startStreams (nextCtx ?a1) (CurrentNamespace c)
       (buildPodContainerMap (Items (podList ?a1)) pns []) pns [] ?a3 = Inr (a', cmds)"
    by (auto simp: startMultiPodStreaming_def Let_def split: sum.splits)
  from startStreams_frame [OF this] obtain n m cm g where
    a': "a' = ?a3\<lparr>nextChan := n, multiPodLineChanMap := m, multiPodContainerMap := cm,
                   goroutines := g\<rparr>" by blast
  have "\<exists>cc. ?a1 = a\<lparr>cancelledCtxs := cc, multiPodStreamCancel := None,
                       multiPodStreamCtx := None, multiPodStreamActive := False,
                       multiPodActiveStreams := 0, multiPodLineChanMap := None,
                       multiPodContainerMap := None\<rparr>"
    by (cases "multiPodStreamCancel a")
       (auto simp: stopMultiPodStreams_def intro: exI [of _ "cancelledCtxs a"])
  then obtain cc where "?a1 = a\<lparr>cancelledCtxs := cc, multiPodStreamCancel := None,
                       multiPodStreamCtx := None, multiPodStreamActive := False,
                       multiPodActiveStreams := 0, multiPodLineChanMap := None,
                       multiPodContainerMap := None\<rparr>" by blast
  with a' have "a' = a\<lparr>cancelledCtxs := cc, multiPodStreamCancel := Some (nextCtx ?a1),
               multiPodStreamCtx := Some (nextCtx ?a1),
               multiPodStreamActive := True, multiPodActiveStreams := int (length pns),
               multiPodLineChanMap := m, multiPodContainerMap := cm,
               multiPodLogViewer := SetFollowing True (SetPods pns (multiPodLogViewer ?a1)),
               viewState := ViewMultiPodLogs, nextCtx := Suc (nextCtx ?a1),
               nextChan := n, goroutines := g\<rparr>"
    by simp
  then show ?thesis by blast
qed

lemma ok_startMulti: "keeps a (startMultiPodStreaming pns a)"
proof (cases "startMultiPodStreaming pns a")
  case (Inl p)
  then show ?thesis by (simp add: keeps_simps)
next
  case (Inr r)
  obtain a' cmd where "r = (a', cmd)" by (cases r)
  with Inr startMulti_frame [of pns a a' cmd] show ?thesis
    by (auto simp: keeps_simps stepOK_def logsViewHasClient_def)
qed

lemma ok_multiEnded: "keeps a (handleMultiPodLogStreamEnded pn e a)"
proof (cases "handleMultiPodLogStreamEnded pn e a")
  case (Inl p)
  then show ?thesis by (simp add: keeps_simps)
next
  case (Inr r)
  obtain a' cmd where "r = (a', cmd)" by (cases r)
  with Inr show ?thesis
    by (auto simp: handleMultiPodLogStreamEnded_def keeps_simps stepOK_def logsViewHasClient_def
        Let_def split: option.splits if_splits dest!: startSingle_frame)
qed

lemma ok_modals:
  "stepOK a (fst (updateConfirmDialog ext msg a))"
  "stepOK a (fst (updateScaleDialog ext msg a))"
  "stepOK a (fst (updateContainerSelector ext msg a))"
  "stepOK a (fst (updatePassphraseInput ext msg a))"
  "stepOK a (fst (updateSearchInput ext msg a))"
  by (simp_all add: updateConfirmDialog_def updateScaleDialog_def updateContainerSelector_def
      updatePassphraseInput_def updateSearchInput_def frame
      split: option.split ConfirmAction.split bool.split)

lemma ok_podMulti: "keeps a (updatePodMultiSelector ext msg a)"
proof -
  let ?a1 = "a\<lparr>podMultiSelector := pms_Hide (fst (pms_Update ext msg (podMultiSelector a)))\<rparr>"
  have "stepOK a ?a1" by (simp add: stepOK_def logsViewHasClient_def)
  with ok_startMulti [of ?a1] have "keeps a (startMultiPodStreaming pns ?a1)" for pns
    by (cases "startMultiPodStreaming pns ?a1")
       (auto simp: keeps_def stepOK_def logsViewHasClient_def dest!: startMulti_frame)
  then show ?thesis
    by (simp add: updatePodMultiSelector_def frame keeps_simps)
qed

lemma ok_child: "keeps a (updateChild vu msg a)"
  by (cases "viewState a")
     (simp_all add: updateChild_def keeps_def frame split: sum.split prod.split)

lemma ok_filter: "keyKeeps a (filterModeList vu msg a)"
  by (simp add: filterModeList_def keyKeeps_def frame split: sum.split prod.split)

lemma ok_handleKeyMsg:
  assumes "key \<noteq> ''l''"
  shows "keeps a (handleKeyMsg ext vu key a)"
proof -
  have k1: "keeps a (case keySwitch ext key a of Some r \<Rightarrow> r
                     | None \<Rightarrow> updateChild vu (KeyMsg key) a)"
    using ok_keySwitch [OF assms, of a ext] ok_child [of a vu "KeyMsg key"]
    by (cases "keySwitch ext key a")
       (simp_all add: keyKeeps_def keeps_def case_prod_beta split: sum.splits)
  have k2: "keeps a (case filterModeList vu (KeyMsg key) a of Some r \<Rightarrow> r
                     | None \<Rightarrow> (case keySwitch ext key a of Some r \<Rightarrow> r
                                  | None \<Rightarrow> updateChild vu (KeyMsg key) a))"
    using k1 ok_filter [of a vu "KeyMsg key"]
    by (cases "filterModeList vu (KeyMsg key) a")
       (simp_all add: keyKeeps_def keeps_def split: sum.splits)
  have k3: "stepOK a (fst (updateHelpScreen msg a))" for msg
    by (simp add: updateHelpScreen_def stepOK_def logsViewHasClient_def)
  show ?thesis
    unfolding handleKeyMsg_def
    by (intro keeps_ifI) (simp_all add: keeps_simps k2 k3 ok_modals ok_podMulti stepOK_refl)
qed

lemma l_handleKeyMsg: "keepsOrRecords a (handleKeyMsg ext vu ''l'' a)"
proof -
  have k1: "keepsOrRecords a (case keySwitch ext ''l'' a of Some r \<Rightarrow> r
                     | None \<Rightarrow> updateChild vu (KeyMsg ''l'') a)"
  proof (cases "key_l a")
    case None
    then show ?thesis using keeps_weaken [OF ok_child [of a vu "KeyMsg ''l''"]]
      by (simp add: keySwitch_def)
  next
    case (Some r)
    then show ?thesis using key_l_records [of a]
      by (cases r) (auto simp: keySwitch_def keepsOrRecords_def recordsParent_def)
  qed
  have k2: "keepsOrRecords a (case filterModeList vu (KeyMsg ''l'') a of Some r \<Rightarrow> r
                     | None \<Rightarrow> (case keySwitch ext ''l'' a of Some r \<Rightarrow> r
                                  | None \<Rightarrow> updateChild vu (KeyMsg ''l'') a))"
    using k1 ok_filter [of a vu "KeyMsg ''l''"]
    by (cases "filterModeList vu (KeyMsg ''l'') a")
       (auto simp: keyKeeps_def keepsOrRecords_def split: sum.splits)
  have k3: "stepOK a (fst (updateHelpScreen msg a))" for msg
    by (simp add: updateHelpScreen_def stepOK_def logsViewHasClient_def)
  have k4: "keepsOrRecords a (Inr r) = (stepOK a (fst r) \<or> recordsParent a (fst r))" for r
    by (simp add: keepsOrRecords_def case_prod_beta)
  show ?thesis
    unfolding handleKeyMsg_def
    by (intro keepsOrRecords_ifI)
       (simp_all add: k4 k2 k3 ok_modals keeps_weaken [OF ok_podMulti] stepOK_refl)
qed

lemmas handler_defs =
  handleConnectResult_def handleNamespacesResult_def handlePodsResult_def
  handlePodDetailsResult_def handlePodDeleteResult_def handlePodRestartResult_def
  handleDeploymentsResult_def handleDeploymentDetailsResult_def handleDeploymentScaleResult_def
  handleDeploymentRestartResult_def handleDeploymentDeleteResult_def handleServicesResult_def
  handleServiceDetailsResult_def handleEventsResult_def handleMetricsResult_def
  handleLogsResult_def handleLogLine_def handleLogStreamEnded_def
  handleSSHConnectResult_def handleSSHCrictlContainers_def handleSSHNodeInfo_def
  handleCrictlLogsResult_def handleCrictlLogLine_def handleCrictlLogStreamEnded_def
  handleMultiPodLogLine_def podRefreshTick_def eventRefreshTick_def handleWindowSize_def pi_Show_def

lemma ok_handlers:
  "stepOK a (fst (handleConnectResult ext c i e a))"
  "stepOK a (fst (handleNamespacesResult ext ns e a))"
  "stepOK a (fst (handlePodsResult ext ps e a))"
  "stepOK a (fst (handlePodDetailsResult ext p evs e a))"
  "stepOK a (fst (handlePodDeleteResult ext n e a))"
  "stepOK a (fst (handlePodRestartResult ext n e a))"
  "stepOK a (fst (handleDeploymentsResult ext ds e a))"
  "stepOK a (fst (handleDeploymentDetailsResult ext d e a))"
  "stepOK a (fst (handleDeploymentScaleResult ext n r e a))"
  "stepOK a (fst (handleDeploymentRestartResult ext n e a))"
  "stepOK a (fst (handleDeploymentDeleteResult ext n e a))"
  "stepOK a (fst (handleServicesResult ext ss e a))"
  "stepOK a (fst (handleServiceDetailsResult ext s e a))"
  "stepOK a (fst (handleEventsResult ext es e a))"
  "stepOK a (fst (handleMetricsResult ext m e a))"
  "stepOK a (fst (handleLogsResult ext l e a))"
  "stepOK a (fst (handleLogLine ext ln a))"
  "stepOK a (fst (handleLogStreamEnded ext e a))"
  "stepOK a (fst (handleSSHConnectResult ext e a))"
  "stepOK a (fst (handleSSHCrictlContainers ext cs e a))"
  "stepOK a (fst (handleSSHNodeInfo ni e a))"
  "stepOK a (fst (handleCrictlLogsResult ext l e a))"
  "stepOK a (fst (handleCrictlLogLine ext ln a))"
  "stepOK a (fst (handleCrictlLogStreamEnded ext e a))"
  "stepOK a (fst (handleMultiPodLogLine pn cn ln a))"
  "stepOK a (fst (podRefreshTick a))"
  "stepOK a (fst (eventRefreshTick a))"
  "stepOK a (handleWindowSize ext w h a)"
  by (simp_all add: handler_defs frame split: option.split)

lemma ok_dialogsThenChild: "keeps a (updateDialogsThenChild ext vu msg a)"
  by (simp add: updateDialogsThenChild_def keeps_simps ok_modals ok_podMulti ok_child)

lemma containers_step:
  "handleContainersResult ext cs e a = Inr (a', cmd) \<Longrightarrow>
     (e \<noteq> None \<and> stepOK a a') \<or> (e = None \<and> entersLogs a a')"
  by (auto simp: handleContainersResult_def entersLogs_def stepOK_def logsViewHasClient_def Let_def
      split: option.splits)

text \<open>
  What a step of the loop does to the view, the cluster client and the recorded parent of
  the logs view.
\<close>

lemma Update_step:
  assumes "Update ext vu msg a = Inr (a', cmd)"
  shows "stepOK a a'
         \<or> ((\<exists>cs. msg = containersResultMsg cs None) \<and> entersLogs a a')
         \<or> (msg = KeyMsg ''l'' \<and> recordsParent a a')"
proof (cases msg)
  case (KeyMsg key)
  show ?thesis
  proof (cases "key = ''l''")
    case True
    with KeyMsg assms l_handleKeyMsg [of a ext vu] show ?thesis
      by (auto simp: Update_def keepsOrRecords_def)
  next
    case False
    with KeyMsg assms ok_handleKeyMsg [OF False, of a ext vu] show ?thesis
      by (auto simp: Update_def keeps_def)
  qed
next
  case (OtherMsg n)
  with assms ok_dialogsThenChild [of a ext vu msg] show ?thesis
    by (auto simp: Update_def keeps_def)
next
  case (containersResultMsg cs e)
  with assms containers_step [of ext cs e a a' cmd] show ?thesis
    by (auto simp: Update_def)
next
  case (multiPodLogStreamEndedMsg pn e)
  with assms ok_multiEnded [of a pn e] show ?thesis
    by (auto simp: Update_def keeps_def)
next
  case notificationExpiredMsg
  with assms show ?thesis
    by (auto simp: Update_def stepOK_def logsViewHasClient_def)
next
  case spinnerTickMsg
  with assms show ?thesis
    by (auto simp: Update_def stepOK_def logsViewHasClient_def case_prod_beta)
qed (use assms in \<open>auto simp: Update_def ok_handlers dest!: arg_cong [where f = fst]\<close>)

lemma start_logsViewHasClient: "logsViewHasClient (startApp ext cfg)"
  by (simp add: startApp_def Init_def NewApp_def logsViewHasClient_def split: option.split)

lemma reachable_logsViewHasClient: "reachable ext vu cfg a \<Longrightarrow> logsViewHasClient a"
proof (induction rule: reachable.induct)
  case reachable_start
  show ?case by (rule start_logsViewHasClient)
next
  case (reachable_step a msg a' cmd)
  from Update_step [OF reachable_step.hyps(2)] reachable_step.IH
  show ?case
    by (auto simp: stepOK_def entersLogs_def recordsParent_def logsViewHasClient_def)
qed

subsection \<open>States reached by a sequence of messages\<close>

lemma reachable_stateAfter:
  "reachable ext vu cfg a \<Longrightarrow> reachable ext vu cfg (stateAfter ext vu msgs a)"
proof (induction msgs arbitrary: a)
  case Nil
  then show ?case by (simp add: stateAfter_def)
next
  case (Cons msg msgs)
  show ?case
  proof (cases "Update ext vu msg a")
    case (Inl p)
    then show ?thesis using Cons.prems by (simp add: stateAfter_def)
  next
    case (Inr r)
    obtain a1 cmd where r: "r = (a1, cmd)" by (cases r)
    have r1: "reachable ext vu cfg a1"
      using Cons.prems Inr r by (auto intro: reachable_step)
    show ?thesis
    proof (cases "run ext vu msgs a1")
      case (Inl p)
      then show ?thesis using Cons.prems Inr r by (simp add: stateAfter_def)
    next
      case (Inr r2)
      then show ?thesis using Cons.IH [OF r1] \<open>Update ext vu msg a = Inr r\<close> r
        by (simp add: stateAfter_def split: prod.splits)
    qed
  qed
qed

subsection \<open>Restart of a single-pod stream\<close>

lemma startLogStreaming_client:
  "k8sClient a = Some c \<Longrightarrow>
     snd (startLogStreaming a) = Some (waitForLogLine (nextChan a))
     \<and> goroutines (fst (startLogStreaming a)) =
         goroutines a @
           [StreamPodLogs (nextCtx a) (CurrentNamespace c) (lv_PodName (logViewer a))
              \<lparr>lo_Container = lv_Container (logViewer a), lo_TailLines = 0,
               lo_Timestamps = lv_Timestamps (logViewer a), lo_Follow = True\<rparr> (nextChan a)]"
  by (simp add: startLogStreaming_def stopLogStream_def Let_def split: option.split)

text \<open>
  Claim C2. A stream-ended message processed in the logs view with follow mode on: when its
  error is not \<open>context.Canceled\<close>, the loop starts exactly one new stream, which asks for
  zero tail lines, and returns the one command that reads the new channel; when its error
  is \<open>context.Canceled\<close>, it starts no stream and returns no command. The state is any
  state the loop reaches from start, where the logs view always has a cluster client.
\<close>

theorem stream_end_restart:
  assumes "reachable ext vu cfg a" "lv_IsFollowing (logViewer a)" "viewState a = ViewLogs"
  shows "(e \<noteq> Some Canceled \<longrightarrow>
            (\<exists>a'. Update ext vu (logStreamEndedMsg e) a = Inr (a', Some (waitForLogLine (nextChan a)))
                  \<and> map tailLinesOf (startedBetween a a') = [0]))
       \<and> (e = Some Canceled \<longrightarrow>
            (\<exists>a'. Update ext vu (logStreamEndedMsg e) a = Inr (a', None)
                  \<and> startedBetween a a' = []))"
proof -
  from reachable_logsViewHasClient [OF assms(1)] assms(3)
  obtain c where c: "k8sClient a = Some c"
    by (auto simp: logsViewHasClient_def)
  let ?a1 = "a\<lparr>logStreamActive := False\<rparr>"
  have c1: "k8sClient ?a1 = Some c" using c by simp
  have cancelled: "Update ext vu (logStreamEndedMsg (Some Canceled)) a = Inr (?a1, None)"
    by (simp add: Update_def handleLogStreamEnded_def)
  have restart: "Update ext vu (logStreamEndedMsg e) a = Inr (startLogStreaming ?a1)"
    if "e \<noteq> Some Canceled"
    using that assms(2,3) by (simp add: Update_def handleLogStreamEnded_def)
  have p1: "\<exists>a'. Update ext vu (logStreamEndedMsg e) a = Inr (a', Some (waitForLogLine (nextChan a)))
            \<and> map tailLinesOf (startedBetween a a') = [0]"
    if ne: "e \<noteq> Some Canceled"
    using startLogStreaming_client [OF c1]
    by (intro exI [of _ "fst (startLogStreaming ?a1)"])
       (simp add: restart [OF ne] prod_eq_iff startedBetween_def)
  have p2: "\<exists>a'. Update ext vu (logStreamEndedMsg e) a = Inr (a', None)
            \<and> startedBetween a a' = []"
    if "e = Some Canceled"
    using that cancelled by (intro exI [of _ ?a1]) (simp add: startedBetween_def)
  from p1 p2 show ?thesis by blast
qed

lemma logs_state_facts:
  "lv_IsFollowing (logViewer logsState)"
  "viewState logsState = ViewLogs"
  by code_simp+

theorem stream_end_restart_witness:
  "reachable ext0 vu0 cfg1 logsState
   \<and> lv_IsFollowing (logViewer logsState)
   \<and> viewState logsState = ViewLogs
   \<and> (\<exists>a'. Update ext0 vu0 (logStreamEndedMsg None) logsState
              = Inr (a', Some (waitForLogLine (nextChan logsState)))
            \<and> map tailLinesOf (startedBetween logsState a') = [0])
   \<and> (\<exists>a'. Update ext0 vu0 (logStreamEndedMsg (Some Canceled)) logsState = Inr (a', None)
            \<and> startedBetween logsState a' = [])"
proof -
  have h1: "reachable ext0 vu0 cfg1 logsState"
    unfolding logsState_def by (rule reachable_stateAfter) (rule reachable_start)
  note h2 = logs_state_facts(1) and h3 = logs_state_facts(2)
  from stream_end_restart [OF h1 h2 h3, of None]
       stream_end_restart [OF h1 h2 h3, of "Some Canceled"] h1 h2 h3
  show ?thesis by auto
qed

subsection \<open>Tail lines in a multi-pod session\<close>

lemma startSingle_goroutines:
  "startSinglePodStream ctx ns pn cn wh a = Inr (a', cmd) \<Longrightarrow>
     goroutines a' = goroutines a @
        [StreamPodLogs ctx ns pn \<lparr>lo_Container = cn, lo_TailLines = (if wh then 100 else 0),
                                   lo_Timestamps = False, lo_Follow = True\<rparr> (nextChan a)]
     \<and> cmd = Some (waitForMultiPodLogLine pn cn (nextChan a))
     \<and> multiPodLineChanMap a' \<noteq> None \<and> multiPodContainerMap a' = multiPodContainerMap a"
  by (auto simp: startSinglePodStream_def Let_def split: option.splits)

lemma startSingle_ok:
  "multiPodLineChanMap a \<noteq> None \<Longrightarrow> \<exists>a' cmd. startSinglePodStream ctx ns pn cn wh a = Inr (a', cmd)"
  by (auto simp: startSinglePodStream_def Let_def split: option.splits)

lemma startStreams_goroutines:
  "multiPodLineChanMap a \<noteq> None \<Longrightarrow> multiPodContainerMap a \<noteq> None \<Longrightarrow>
     \<exists>a' gs. startStreams ctx ns pcm pns cmds a = Inr (a', cmds @ map Some (map readerOf gs))
        \<and> goroutines a' = goroutines a @ gs
        \<and> map podOf gs = pns \<and> map tailLinesOf gs = replicate (length pns) 100
        \<and> map ctxOf gs = replicate (length pns) ctx"
proof (induction pns arbitrary: a cmds)
  case Nil
  then show ?case by simp
next
  case (Cons pn pns)
  from Cons.prems obtain cm where cm: "multiPodContainerMap a = Some cm" by auto
  let ?cn = "mapGet (Some pcm) pn"
  let ?a0 = "a\<lparr>multiPodContainerMap := Some (AList.update pn ?cn cm)\<rparr>"
  have "multiPodLineChanMap ?a0 \<noteq> None" using Cons.prems by simp
  from startSingle_ok [OF this] obtain a1 cmd where
    s1: "startSinglePodStream ctx ns pn ?cn True ?a0 = Inr (a1, cmd)" by blast
  note g1 = startSingle_goroutines [OF s1]
  have p1: "multiPodLineChanMap a1 \<noteq> None" "multiPodContainerMap a1 \<noteq> None"
    using g1 by simp_all
  from Cons.IH [OF p1, of "cmds @ [cmd]"] obtain a' gs where
    r: "startStreams ctx ns pcm pns (cmds @ [cmd]) a1 = Inr (a', (cmds @ [cmd]) @ map Some (map readerOf gs))"
    and g: "goroutines a' = goroutines a1 @ gs" "map podOf gs = pns"
      "map tailLinesOf gs = replicate (length pns) 100" "map ctxOf gs = replicate (length pns) ctx"
    by blast
  let ?g = "StreamPodLogs ctx ns pn \<lparr>lo_Container = ?cn, lo_TailLines = 100,
                                   lo_Timestamps = False, lo_Follow = True\<rparr> (nextChan a)"
  show ?case
    apply (rule exI [of _ a'], rule exI [of _ "?g # gs"])
    using cm s1 r g g1 by simp
qed

lemma startMulti_goroutines:
  assumes "k8sClient a = Some c"
  shows "\<exists>a' cmd. startMultiPodStreaming pns a = Inr (a', cmd)
          \<and> map podOf (startedBetween a a') = pns
          \<and> map tailLinesOf (startedBetween a a') = replicate (length pns) 100
          \<and> map ctxOf (startedBetween a a') = replicate (length pns) (nextCtx a)
          \<and> multiPodStreamCancel a' = Some (nextCtx a)
          \<and> viewState a' = ViewMultiPodLogs"
proof -
  let ?a1 = "stopMultiPodStreams a"
  let ?pcm = "buildPodContainerMap (Items (podList ?a1)) pns []"
  let ?a3 = "?a1\<lparr>multiPodLogViewer := SetFollowing True (SetPods pns (multiPodLogViewer ?a1)),
                 viewState := ViewMultiPodLogs, nextCtx := Suc (nextCtx ?a1),
                 multiPodStreamCancel := Some (nextCtx ?a1), multiPodStreamCtx := Some (nextCtx ?a1),
                 multiPodStreamActive := True, multiPodActiveStreams := int (length pns),
                 multiPodLineChanMap := Some [], multiPodContainerMap := Some []\<rparr>"
  have st: "nextCtx ?a1 = nextCtx a" "goroutines ?a1 = goroutines a"
    by (simp_all add: stopMultiPodStreams_def split: option.split)
  have "multiPodLineChanMap ?a3 \<noteq> None" "multiPodContainerMap ?a3 \<noteq> None" by simp_all
  from startStreams_goroutines [OF this, of "nextCtx a" "CurrentNamespace c" ?pcm pns "[]"]
  obtain a' gs where
    r: "startStreams (nextCtx a) (CurrentNamespace c) ?pcm pns [] ?a3 = Inr (a', [] @ map Some (map readerOf gs))"
    and g: "goroutines a' = goroutines ?a3 @ gs" "map podOf gs = pns"
      "map tailLinesOf gs = replicate (length pns) 100"
      "map ctxOf gs = replicate (length pns) (nextCtx a)"
    by blast
  from startStreams_frame [OF r] obtain n m cm g' where
    "a' = ?a3\<lparr>nextChan := n, multiPodLineChanMap := m, multiPodContainerMap := cm,
                goroutines := g'\<rparr>" by blast
  then have fr: "multiPodStreamCancel a' = Some (nextCtx a) \<and> viewState a' = ViewMultiPodLogs"
    using st by simp
  show ?thesis
    apply (rule exI [of _ a'])
    using assms r g fr st
    by (simp add: startMultiPodStreaming_def Let_def startedBetween_def)
qed

lemma ended_result:
  "Update ext vu (multiPodLogStreamEndedMsg pn e) a = Inr (a', cmd) \<Longrightarrow>
     (cmd = None \<and> startedBetween a a' = [])
     \<or> (e \<noteq> Some Canceled \<and> viewState a = ViewMultiPodLogs \<and> multiPodStreamActive a
         \<and> map podOf (startedBetween a a') = [pn] \<and> map tailLinesOf (startedBetween a a') = [0]
         \<and> (\<exists>cn ch. cmd = Some (waitForMultiPodLogLine pn cn ch)))"
  by (auto simp: Update_def handleMultiPodLogStreamEnded_def Let_def startedBetween_def
      split: if_splits option.splits dest!: startSingle_goroutines)

text \<open>
  Claim C5. Starting a multi-pod session (with a cluster client) starts one stream per
  selected pod, each asking for a tail of 100 lines. A stream-ended message of a multi-pod
  session either starts nothing and returns no command, or its error is not
  \<open>context.Canceled\<close> and it starts exactly one stream, for the pod that ended, asking for
  zero tail lines.
\<close>

theorem multi_pod_tail_lines:
  "(k8sClient a \<noteq> None \<longrightarrow>
      (\<exists>a' cmd. startMultiPodStreaming podNames a = Inr (a', cmd)
         \<and> map podOf (startedBetween a a') = podNames
         \<and> map tailLinesOf (startedBetween a a') = replicate (length podNames) 100))
   \<and> (Update ext vu (multiPodLogStreamEndedMsg podName e) a = Inr (a1, cmd1) \<longrightarrow>
        (cmd1 = None \<and> startedBetween a a1 = [])
        \<or> (e \<noteq> Some Canceled \<and> map podOf (startedBetween a a1) = [podName]
            \<and> map tailLinesOf (startedBetween a a1) = [0]))"
proof -
  have p1: "\<exists>a' cmd. startMultiPodStreaming podNames a = Inr (a', cmd)
         \<and> map podOf (startedBetween a a') = podNames
         \<and> map tailLinesOf (startedBetween a a') = replicate (length podNames) 100"
    if "k8sClient a \<noteq> None"
  proof -
    from that obtain c where "k8sClient a = Some c" by auto
    from startMulti_goroutines [OF this, of podNames] show ?thesis by blast
  qed
  have p2: "(cmd1 = None \<and> startedBetween a a1 = [])
        \<or> (e \<noteq> Some Canceled \<and> map podOf (startedBetween a a1) = [podName]
            \<and> map tailLinesOf (startedBetween a a1) = [0])"
    if "Update ext vu (multiPodLogStreamEndedMsg podName e) a = Inr (a1, cmd1)"
    using ended_result [OF that] by blast
  from p1 p2 show ?thesis by blast
qed

lemma pods_state_client: "k8sClient podsState \<noteq> None"
  by code_simp

lemma multi_state_restart:
  "case Update ext0 vu0 (multiPodLogStreamEndedMsg ''web-1'' None) multiState of
     Inl p \<Rightarrow> False
   | Inr (a1, cmd1) \<Rightarrow> cmd1 = Some (waitForMultiPodLogLine ''web-1'' ''app'' 2)"
  by code_simp

theorem multi_pod_tail_lines_witness:
  "k8sClient podsState \<noteq> None
   \<and> (\<exists>a' cmd. startMultiPodStreaming [''web-1'', ''web-2''] podsState = Inr (a', cmd)
         \<and> map tailLinesOf (startedBetween podsState a') = [100, 100])
   \<and> (\<exists>a1. Update ext0 vu0 (multiPodLogStreamEndedMsg ''web-1'' None) multiState
              = Inr (a1, Some (waitForMultiPodLogLine ''web-1'' ''app'' 2))
         \<and> map podOf (startedBetween multiState a1) = [''web-1'']
         \<and> map tailLinesOf (startedBetween multiState a1) = [0])"
proof -
  let ?c = "Some (waitForMultiPodLogLine ''web-1'' ''app'' 2)"
  from multi_state_restart obtain a1 where
    u: "Update ext0 vu0 (multiPodLogStreamEndedMsg ''web-1'' None) multiState = Inr (a1, ?c)"
    by (auto split: sum.splits prod.splits)
  have c1: "\<exists>a' cmd. startMultiPodStreaming [''web-1'', ''web-2''] podsState = Inr (a', cmd)
      \<and> map tailLinesOf (startedBetween podsState a') = [100, 100]"
    using multi_pod_tail_lines [where a = podsState and podNames = "[''web-1'', ''web-2'']",
        THEN conjunct1] pods_state_client
    by auto
  have c2: "map podOf (startedBetween multiState a1) = [''web-1'']
      \<and> map tailLinesOf (startedBetween multiState a1) = [0]"
    using multi_pod_tail_lines [where a = multiState and ext = ext0 and vu = vu0
        and podName = "''web-1''" and e = None and ?a1.0 = a1 and ?cmd1.0 = ?c,
        THEN conjunct2] u
    by simp
  from pods_state_client c1 c2 u show ?thesis by simp
qed

subsection \<open>Stopping a multi-pod session\<close>

lemma ended_inactive:
  "\<not> multiPodStreamActive a \<Longrightarrow>
     \<exists>a'. Update ext vu (multiPodLogStreamEndedMsg pn e) a = Inr (a', None)
          \<and> \<not> multiPodStreamActive a' \<and> goroutines a' = goroutines a"
  by (simp add: Update_def handleMultiPodLogStreamEnded_def Let_def)

lemma ended_run_inactive:
  "\<not> multiPodStreamActive a \<Longrightarrow>
     \<exists>a'. run ext vu (streamEndedMsgs ends) a = Inr (a', replicate (length ends) None)
          \<and> \<not> multiPodStreamActive a' \<and> goroutines a' = goroutines a"
proof (induction ends arbitrary: a)
  case Nil
  then show ?case by (simp add: streamEndedMsgs_def)
next
  case (Cons pe ends)
  obtain pn e where pe: "pe = (pn, e)" by (cases pe)
  from ended_inactive [OF Cons.prems, of ext vu pn e] obtain a1 where
    s: "Update ext vu (multiPodLogStreamEndedMsg pn e) a = Inr (a1, None)"
    and i: "\<not> multiPodStreamActive a1" and g: "goroutines a1 = goroutines a" by blast
  from Cons.IH [OF i] obtain a' where
    "run ext vu (streamEndedMsgs ends) a1 = Inr (a', replicate (length ends) None)"
    "\<not> multiPodStreamActive a'" "goroutines a' = goroutines a1" by blast
  then show ?case using s g pe by (auto simp: streamEndedMsgs_def)
qed

text \<open>
  What \<open>stopMultiPodStreams\<close> achieves: the shared context is cancelled, the session is
  inactive with no active stream, and as long as it is inactive no stream-ended message
  starts a stream or returns a command.
\<close>

lemma stopped_session_no_restart:
  "(multiPodStreamCancel a = Some c \<longrightarrow> c \<in> set (cancelledCtxs (stopMultiPodStreams a)))
   \<and> \<not> multiPodStreamActive (stopMultiPodStreams a)
   \<and> multiPodActiveStreams (stopMultiPodStreams a) = 0
   \<and> (\<exists>a'. run ext vu (streamEndedMsgs ends) (stopMultiPodStreams a)
               = Inr (a', replicate (length ends) None)
            \<and> startedBetween (stopMultiPodStreams a) a' = []
            \<and> \<not> multiPodStreamActive a')"
proof -
  have i: "\<not> multiPodStreamActive (stopMultiPodStreams a)"
    by (simp add: stopMultiPodStreams_def)
  have q: "\<exists>a'. run ext vu (streamEndedMsgs ends) (stopMultiPodStreams a)
               = Inr (a', replicate (length ends) None)
            \<and> startedBetween (stopMultiPodStreams a) a' = []
            \<and> \<not> multiPodStreamActive a'"
    using ended_run_inactive [OF i, of ext vu ends] by (auto simp: startedBetween_def)
  have r: "multiPodStreamCancel a = Some c \<longrightarrow> c \<in> set (cancelledCtxs (stopMultiPodStreams a))"
    "multiPodActiveStreams (stopMultiPodStreams a) = 0"
    by (simp_all add: stopMultiPodStreams_def)
  from i q r show ?thesis by blast
qed

text \<open>
  Claim C7 does not hold of the code. A multi-pod session on two pods is stopped with
  \<open>esc\<close>: its context is cancelled and the session is inactive. Its producers drop the
  error of the streaming call, so the stream-ended message of a cancelled stream carries no
  error. When a new session has been started before that message is processed, the
  message finds the session active and restarts a stream for its pod, with zero tail
  lines: a restart task emitted after the stop.
\<close>

theorem stale_stream_end_restarts_after_stop:
  "map podOf (goroutines multiState) = [''web-1'', ''web-2'']
   \<and> map ctxOf (goroutines multiState) = [0, 0]
   \<and> multiPodStreamCancel multiState = Some 0
   \<and> cancelledCtxs stoppedState = [0]
   \<and> \<not> multiPodStreamActive stoppedState
   \<and> multiPodActiveStreams stoppedState = 0
   \<and> map_option fst
        (run_waitForMultiPodLogLine ''web-1'' ''app''
           (streamGoroutine \<lparr>so_lines = [], so_err = Some Canceled\<rparr> makeChan))
       = Some (multiPodLogStreamEndedMsg ''web-1'' None)
   \<and> commandsAfter ext0 vu0 [multiPodLogStreamEndedMsg ''web-1'' None] stoppedState = [None]
   \<and> viewState secondSessionState = ViewMultiPodLogs
   \<and> multiPodStreamCancel secondSessionState = Some 1
   \<and> commandsAfter ext0 vu0 [multiPodLogStreamEndedMsg ''web-1'' None] secondSessionState
       = [Some (waitForMultiPodLogLine ''web-1'' ''app'' 4)]
   \<and> map podOf
        (startedBetween secondSessionState
           (stateAfter ext0 vu0 [multiPodLogStreamEndedMsg ''web-1'' None] secondSessionState))
       = [''web-1'']
   \<and> map tailLinesOf
        (startedBetween secondSessionState
           (stateAfter ext0 vu0 [multiPodLogStreamEndedMsg ''web-1'' None] secondSessionState))
       = [0]"
  by code_simp

subsection \<open>The digit keys\<close>

lemma reachesKeySwitch_iff:
  "reachesKeySwitch a \<longleftrightarrow>
     viewState a \<noteq> ViewConnecting \<and> \<not> cd_visible (confirmDialog a) \<and> \<not> sd_visible (scaleDialog a)
     \<and> \<not> hs_visible (helpScreen a) \<and> \<not> cs_visible (containerSelector a)
     \<and> \<not> pms_visible (podMultiSelector a) \<and> \<not> pi_visible (passphraseInput a)
     \<and> \<not> si_visible (searchInput a) \<and> \<not> filterEditing a"
  by (auto simp: reachesKeySwitch_def visibleModals_def keyOrder_def filter_empty_conv)

lemma filterModeList_None: "\<not> filterEditing a \<Longrightarrow> filterModeList vu msg a = None"
  by (auto simp: filterEditing_def filterModeList_def)

lemma handleKeyMsg_switch:
  "reachesKeySwitch a \<Longrightarrow>
     handleKeyMsg ext vu key a =
       (case keySwitch ext key a of Some r \<Rightarrow> r | None \<Rightarrow> updateChild vu (KeyMsg key) a)"
  by (simp add: reachesKeySwitch_iff handleKeyMsg_def filterModeList_None)

lemma keySwitch_digits:
  "keySwitch ext ''1'' a = key_1 a" "keySwitch ext ''2'' a = key_2 a"
  "keySwitch ext ''3'' a = key_3 a" "keySwitch ext ''4'' a = key_4 a"
  "keySwitch ext ''5'' a = key_5 a" "keySwitch ext ''9'' a = key_9 a"
  "keySwitch ext ''l'' a = key_l a" "keySwitch ext ''esc'' a = key_esc ext a"
  by (simp_all add: keySwitch_def)






text \<open>
  Before the first window-size message the lists have no delegate: a key handed to the list
  of the current view panics.
\<close>

lemma digit_key_before_first_resize:
  "Update ext0 vu0 (KeyMsg ''3'') (startApp ext0 cfg2) = Inl NilPointerDereference"
  by code_simp

subsection \<open>The parent of the logs view\<close>

text \<open>
  What the code does about the parent of the logs view, for a key that reaches the switch
  on the key: \<open>l\<close> records the view it is pressed in, the pod list (on a selected pod) or
  the pod details (of a selected pod), and fetches the containers; the containers result
  enters the logs view and leaves the record as it is; \<open>esc\<close> in the logs view returns
  to the pod list, clearing the selected pod, when the pod list is recorded, and to the pod
  details of the selected pod when the pod details are.
\<close>

lemma logs_view_parent_steps:
  "reachesKeySwitch a \<and> viewState a = ViewPods \<and> SelectedItem (podList a) = Some (podItem pod)
     \<longrightarrow> Update ext vu (KeyMsg ''l'') a =
        Inr (a\<lparr>selectedPodName := pod_Name pod, logSourceView := ViewPods, loading := True\<rparr>,
             Some (fetchContainers (pod_Name pod)))"
  "reachesKeySwitch a \<and> viewState a = ViewPodDetails \<and> selectedPodName a \<noteq> []
     \<longrightarrow> Update ext vu (KeyMsg ''l'') a =
        Inr (a\<lparr>logSourceView := ViewPodDetails, loading := True\<rparr>,
             Some (fetchContainers (selectedPodName a)))"
  "Update ext vu (containersResultMsg cs None) a = Inr (a', cmd)
     \<longrightarrow> viewState a' = ViewLogs \<and> logSourceView a' = logSourceView a"
  "reachesKeySwitch a \<and> viewState a = ViewLogs \<and> logSourceView a = ViewPods
     \<longrightarrow> (\<exists>a2. Update ext vu (KeyMsg ''esc'') a =
               Inr (a2, tea_Batch [Some fetchPods, Some schedulePodRefresh])
            \<and> viewState a2 = ViewPods \<and> selectedPodName a2 = [])"
  "reachesKeySwitch a \<and> viewState a = ViewLogs \<and> logSourceView a = ViewPodDetails
     \<longrightarrow> (\<exists>a2. Update ext vu (KeyMsg ''esc'') a =
               Inr (a2, Some (fetchPodDetails (selectedPodName a)))
            \<and> viewState a2 = ViewPodDetails \<and> selectedPodName a2 = selectedPodName a)"
proof -
  show "reachesKeySwitch a \<and> viewState a = ViewPods
      \<and> SelectedItem (podList a) = Some (podItem pod)
     \<longrightarrow> Update ext vu (KeyMsg ''l'') a =
        Inr (a\<lparr>selectedPodName := pod_Name pod, logSourceView := ViewPods, loading := True\<rparr>,
             Some (fetchContainers (pod_Name pod)))"
    by (simp add: Update_def handleKeyMsg_switch keySwitch_digits key_l_def returns_def)
  show "reachesKeySwitch a \<and> viewState a = ViewPodDetails \<and> selectedPodName a \<noteq> []
     \<longrightarrow> Update ext vu (KeyMsg ''l'') a =
        Inr (a\<lparr>logSourceView := ViewPodDetails, loading := True\<rparr>,
             Some (fetchContainers (selectedPodName a)))"
    by (simp add: Update_def handleKeyMsg_switch keySwitch_digits key_l_def returns_def)
  show "Update ext vu (containersResultMsg cs None) a = Inr (a', cmd)
     \<longrightarrow> viewState a' = ViewLogs \<and> logSourceView a' = logSourceView a"
    using containers_step [of ext cs None a a' cmd]
    by (auto simp: Update_def entersLogs_def)
  show "reachesKeySwitch a \<and> viewState a = ViewLogs \<and> logSourceView a = ViewPods
     \<longrightarrow> (\<exists>a2. Update ext vu (KeyMsg ''esc'') a =
               Inr (a2, tea_Batch [Some fetchPods, Some schedulePodRefresh])
            \<and> viewState a2 = ViewPods \<and> selectedPodName a2 = [])"
    by (simp add: Update_def handleKeyMsg_switch keySwitch_digits key_esc_def returns_def
        frame_stop Let_def)
  show "reachesKeySwitch a \<and> viewState a = ViewLogs \<and> logSourceView a = ViewPodDetails
     \<longrightarrow> (\<exists>a2. Update ext vu (KeyMsg ''esc'') a =
               Inr (a2, Some (fetchPodDetails (selectedPodName a)))
            \<and> viewState a2 = ViewPodDetails \<and> selectedPodName a2 = selectedPodName a)"
    by (simp add: Update_def handleKeyMsg_switch keySwitch_digits key_esc_def returns_def
        frame_stop Let_def stopLogStream_def split: option.split)
qed

text \<open>
  Claim C9 does not hold of the code. In the pod list, \<open>l\<close> asks for the containers of
  the selected pod and records the pod list as the parent; \<open>enter\<close>, pressed before the
  containers arrive, opens the pod details. The containers result then enters the logs
  view from the pod details view, with the pod list still recorded, and \<open>esc\<close> returns
  to the pod list and clears the selected pod instead of returning to the pod details.
\<close>

theorem logs_entered_from_details_return_to_pods:
  "viewState podsState = ViewPods
   \<and> commandsAfter ext0 vu0 [KeyMsg ''l'', KeyMsg ''enter''] podsState
       = [Some (fetchContainers ''web-1''), Some (fetchPodDetails ''web-1'')]
   \<and> viewState waitingInDetailsState = ViewPodDetails
   \<and> logSourceView waitingInDetailsState = ViewPods
   \<and> commandsAfter ext0 vu0 [containersResultMsg [''app''] None] waitingInDetailsState
       = [Some (fetchLogs ''web-1'' ''app'' 100 False)]
   \<and> viewState logsOverDetailsState = ViewLogs
   \<and> logSourceView logsOverDetailsState = ViewPods
   \<and> reachesKeySwitch logsOverDetailsState
   \<and> commandsAfter ext0 vu0 [KeyMsg ''esc''] logsOverDetailsState
       = [tea_Batch [Some fetchPods, Some schedulePodRefresh]]
   \<and> viewState (stateAfter ext0 vu0 [KeyMsg ''esc''] logsOverDetailsState) = ViewPods
   \<and> selectedPodName (stateAfter ext0 vu0 [KeyMsg ''esc''] logsOverDetailsState) = []"
  by code_simp

subsection \<open>What a step does to the modals\<close>

lemma modals_stop:
  "confirmDialog (stopLogStream a) = confirmDialog a"
  "scaleDialog (stopLogStream a) = scaleDialog a"
  "helpScreen (stopLogStream a) = helpScreen a"
  "containerSelector (stopLogStream a) = containerSelector a"
  "podMultiSelector (stopLogStream a) = podMultiSelector a"
  "passphraseInput (stopLogStream a) = passphraseInput a"
  "searchInput (stopLogStream a) = searchInput a"
  "confirmDialog (stopCrictlLogStream a) = confirmDialog a"
  "scaleDialog (stopCrictlLogStream a) = scaleDialog a"
  "helpScreen (stopCrictlLogStream a) = helpScreen a"
  "containerSelector (stopCrictlLogStream a) = containerSelector a"
  "podMultiSelector (stopCrictlLogStream a) = podMultiSelector a"
  "passphraseInput (stopCrictlLogStream a) = passphraseInput a"
  "searchInput (stopCrictlLogStream a) = searchInput a"
  "confirmDialog (stopMultiPodStreams a) = confirmDialog a"
  "scaleDialog (stopMultiPodStreams a) = scaleDialog a"
  "helpScreen (stopMultiPodStreams a) = helpScreen a"
  "containerSelector (stopMultiPodStreams a) = containerSelector a"
  "podMultiSelector (stopMultiPodStreams a) = podMultiSelector a"
  "passphraseInput (stopMultiPodStreams a) = passphraseInput a"
  "searchInput (stopMultiPodStreams a) = searchInput a"
  "confirmDialog (closeSSHConnection a) = confirmDialog a"
  "scaleDialog (closeSSHConnection a) = scaleDialog a"
  "helpScreen (closeSSHConnection a) = helpScreen a"
  "containerSelector (closeSSHConnection a) = containerSelector a"
  "podMultiSelector (closeSSHConnection a) = podMultiSelector a"
  "passphraseInput (closeSSHConnection a) = passphraseInput a"
  "searchInput (closeSSHConnection a) = searchInput a"
  "confirmDialog (rebuildPodList ext a) = confirmDialog a"
  "scaleDialog (rebuildPodList ext a) = scaleDialog a"
  "helpScreen (rebuildPodList ext a) = helpScreen a"
  "containerSelector (rebuildPodList ext a) = containerSelector a"
  "podMultiSelector (rebuildPodList ext a) = podMultiSelector a"
  "passphraseInput (rebuildPodList ext a) = passphraseInput a"
  "searchInput (rebuildPodList ext a) = searchInput a"
  by (simp_all add: stopLogStream_def stopCrictlLogStream_def stopMultiPodStreams_def
      closeSSHConnection_def rebuildPodList_def Let_def split: option.split)

lemma modals_start:
  "confirmDialog (fst (startLogStreaming a)) = confirmDialog a"
  "scaleDialog (fst (startLogStreaming a)) = scaleDialog a"
  "helpScreen (fst (startLogStreaming a)) = helpScreen a"
  "containerSelector (fst (startLogStreaming a)) = containerSelector a"
  "podMultiSelector (fst (startLogStreaming a)) = podMultiSelector a"
  "passphraseInput (fst (startLogStreaming a)) = passphraseInput a"
  "searchInput (fst (startLogStreaming a)) = searchInput a"
  "confirmDialog (fst (startCrictlLogStreaming a)) = confirmDialog a"
  "scaleDialog (fst (startCrictlLogStreaming a)) = scaleDialog a"
  "helpScreen (fst (startCrictlLogStreaming a)) = helpScreen a"
  "containerSelector (fst (startCrictlLogStreaming a)) = containerSelector a"
  "podMultiSelector (fst (startCrictlLogStreaming a)) = podMultiSelector a"
  "passphraseInput (fst (startCrictlLogStreaming a)) = passphraseInput a"
  "searchInput (fst (startCrictlLogStreaming a)) = searchInput a"
  "confirmDialog (fst (connectToSSHHost h a)) = confirmDialog a"
  "scaleDialog (fst (connectToSSHHost h a)) = scaleDialog a"
  "helpScreen (fst (connectToSSHHost h a)) = helpScreen a"
  "containerSelector (fst (connectToSSHHost h a)) = containerSelector a"
  "podMultiSelector (fst (connectToSSHHost h a)) = podMultiSelector a"
  "passphraseInput (fst (connectToSSHHost h a)) = passphraseInput a"
  "searchInput (fst (connectToSSHHost h a)) = searchInput a"
  by (simp_all add: startLogStreaming_def startCrictlLogStreaming_def connectToSSHHost_def
      modals_stop Let_def split: option.split)


lemma filter_length_mono:
  "(\<And>x. x \<in> set xs \<Longrightarrow> P x \<Longrightarrow> Q x) \<Longrightarrow> length (filter P xs) \<le> length (filter Q xs)"
proof (induction xs)
  case Nil
  show ?case by simp
next
  case (Cons x xs)
  then have "length (filter P xs) \<le> length (filter Q xs)" by simp
  moreover have "P x \<Longrightarrow> Q x" using Cons.prems by simp
  ultimately show ?case by auto
qed

lemma visibleModals_Nil:
  "visibleModals a = [] \<longleftrightarrow>
     \<not> cd_visible (confirmDialog a) \<and> \<not> sd_visible (scaleDialog a)
     \<and> \<not> hs_visible (helpScreen a) \<and> \<not> cs_visible (containerSelector a)
     \<and> \<not> pms_visible (podMultiSelector a) \<and> \<not> pi_visible (passphraseInput a)
     \<and> \<not> si_visible (searchInput a)"
  by (auto simp: visibleModals_def keyOrder_def filter_empty_conv)

text \<open>A step that shows no modal keeps what the loop keeps about the modals.\<close>

lemma modalsOK_step:
  assumes "modalsOK a" "modalStep a a'"
  shows "modalsOK a'"
proof -
  have v: "modalVisible a' m \<Longrightarrow> modalVisible a m" if "m \<noteq> PassphraseModal" for m
    using that assms(2) by (cases m) (simp_all add: modalStep_def)
  have "length (filter (\<lambda>m. m \<noteq> PassphraseModal) (visibleModals a'))
      \<le> length (filter (\<lambda>m. m \<noteq> PassphraseModal) (visibleModals a))"
    unfolding visibleModals_def filter_filter
    by (rule filter_length_mono) (use v in auto)
  then have one: "atMostOneModal a'"
    using assms(1) by (simp add: modalsOK_def atMostOneModal_def)
  have "visibleModals a' = []" if "viewState a' = ViewConnecting"
  proof -
    from that assms(2) have c: "viewState a = ViewConnecting"
      and p: "pi_visible (passphraseInput a') \<longrightarrow> pi_visible (passphraseInput a)"
      by (simp_all add: modalStep_def)
    from c assms(1) have "visibleModals a = []" by (simp add: modalsOK_def)
    with p assms(2) show ?thesis by (simp add: visibleModals_Nil modalStep_def)
  qed
  with one show ?thesis by (simp add: modalsOK_def)
qed

lemma modalStep_refl: "modalStep a a"
  by (simp add: modalStep_def)

lemmas modal_frame = modals_stop modals_start frame_stop frame_start case_prod_beta Let_def

lemma keepsModals_simps:
  "keepsModals a (Inl p)" "keepsModals a (Inr r) = modalStep a (fst r)"
  by (simp_all add: keepsModals_def case_prod_beta)

text \<open>The handlers of the loop's own messages show no modal but the passphrase input.\<close>

lemma modal_handlers:
  "modalStep a (fst (handleConnectResult ext c i e a))"
  "modalStep a (fst (handleNamespacesResult ext ns e a))"
  "modalStep a (fst (handlePodsResult ext ps e a))"
  "modalStep a (fst (handlePodDetailsResult ext p evs e a))"
  "modalStep a (fst (handlePodDeleteResult ext n e a))"
  "modalStep a (fst (handlePodRestartResult ext n e a))"
  "modalStep a (fst (handleDeploymentsResult ext ds e a))"
  "modalStep a (fst (handleDeploymentDetailsResult ext d e a))"
  "modalStep a (fst (handleDeploymentScaleResult ext n r e a))"
  "modalStep a (fst (handleDeploymentRestartResult ext n e a))"
  "modalStep a (fst (handleDeploymentDeleteResult ext n e a))"
  "modalStep a (fst (handleServicesResult ext ss e a))"
  "modalStep a (fst (handleServiceDetailsResult ext s e a))"
  "modalStep a (fst (handleEventsResult ext es e a))"
  "modalStep a (fst (handleMetricsResult ext m e a))"
  "modalStep a (fst (handleLogsResult ext l e a))"
  "modalStep a (fst (handleLogLine ext ln a))"
  "modalStep a (fst (handleLogStreamEnded ext e a))"
  "modalStep a (fst (handleSSHConnectResult ext e a))"
  "modalStep a (fst (handleSSHCrictlContainers ext cs e a))"
  "modalStep a (fst (handleSSHNodeInfo ni e a))"
  "modalStep a (fst (handleCrictlLogsResult ext l e a))"
  "modalStep a (fst (handleCrictlLogLine ext ln a))"
  "modalStep a (fst (handleCrictlLogStreamEnded ext e a))"
  "modalStep a (fst (handleMultiPodLogLine pn cn ln a))"
  "modalStep a (fst (podRefreshTick a))"
  "modalStep a (fst (eventRefreshTick a))"
  "modalStep a (handleWindowSize ext w h a)"
  by (simp_all add: handler_defs modal_frame modalStep_def split: option.split)

lemma modal_containers: "keepsModals a (handleContainersResult ext cs e a)"
  by (simp add: handleContainersResult_def keepsModals_def modalStep_def Let_def
      split: option.split)

lemma modal_startMulti: "keepsModals a (startMultiPodStreaming pns a)"
proof (cases "startMultiPodStreaming pns a")
  case (Inl p)
  then show ?thesis by (simp add: keepsModals_simps)
next
  case (Inr r)
  obtain a' cmd where "r = (a', cmd)" by (cases r)
  with Inr startMulti_frame [of pns a a' cmd] show ?thesis
    by (auto simp: keepsModals_simps modalStep_def)
qed

lemma modal_multiEnded: "keepsModals a (handleMultiPodLogStreamEnded pn e a)"
proof (cases "handleMultiPodLogStreamEnded pn e a")
  case (Inl p)
  then show ?thesis by (simp add: keepsModals_simps)
next
  case (Inr r)
  obtain a' cmd where "r = (a', cmd)" by (cases r)
  with Inr show ?thesis
    by (auto simp: handleMultiPodLogStreamEnded_def keepsModals_simps modalStep_def
        Let_def split: option.splits if_splits dest!: startSingle_frame)
qed

text \<open>A modal that is asked shows no other modal, and does not show itself.\<close>

lemma modal_updates:
  "modalStep a (fst (updateConfirmDialog ext msg a))"
  "modalStep a (fst (updateScaleDialog ext msg a))"
  "modalStep a (fst (updateHelpScreen msg a))"
  "modalStep a (fst (updateContainerSelector ext msg a))"
  "modalStep a (fst (updatePassphraseInput ext msg a))"
  by (simp_all add: updateConfirmDialog_def updateScaleDialog_def updateHelpScreen_def
      updateContainerSelector_def updatePassphraseInput_def cd_Update_def sd_Update_def
      cs_Update_def pi_Update_def cd_Hide_def sd_Hide_def cs_Hide_def pi_Hide_def hs_Hide_def
      modal_frame modalStep_def
      split: option.split ConfirmAction.split bool.split)

lemma modal_search:
  "si_visible (searchInput a) \<Longrightarrow> modalStep a (fst (updateSearchInput ext msg a))"
  by (simp add: updateSearchInput_def modal_frame modalStep_def)

lemma modal_podMulti: "keepsModals a (updatePodMultiSelector ext msg a)"
proof -
  let ?a1 = "a\<lparr>podMultiSelector := pms_Hide (fst (pms_Update ext msg (podMultiSelector a)))\<rparr>"
  have h: "\<not> pms_visible (pms_Hide s)" for s
    by (simp add: pms_Hide_def)
  have u: "pms_visible (fst (pms_Update ext msg s)) \<longrightarrow> pms_visible s" for s
    by (simp add: pms_Update_def Let_def case_prod_beta split: option.split)
  have "keepsModals a (startMultiPodStreaming pns ?a1)" for pns
    using modal_startMulti [of ?a1 pns] h
    by (cases "startMultiPodStreaming pns ?a1") (auto simp: keepsModals_def modalStep_def)
  then show ?thesis
    using h u [of "podMultiSelector a"]
    by (simp add: updatePodMultiSelector_def keepsModals_simps modalStep_def modal_frame)
qed

lemma modal_child: "keepsModals a (updateChild vu msg a)"
  by (cases "viewState a")
     (simp_all add: updateChild_def keepsModals_def modalStep_def case_prod_beta
        split: sum.split)

lemma modal_filter:
  "filterModeList vu msg a = Some (Inr (a', cmd)) \<Longrightarrow> modalStep a a'"
  by (auto simp: filterModeList_def modalStep_def split: if_splits sum.splits)

lemma modal_dialogsThenChild: "keepsModals a (updateDialogsThenChild ext vu msg a)"
  by (simp add: updateDialogsThenChild_def keepsModals_simps modal_updates modal_podMulti
      modal_child)

text \<open>
  A key that reaches the \<open>switch\<close> on the key finds no modal visible, and shows at most
  one; the keys that enter the connecting view show none.
\<close>

lemmas fresh_simps =
  keyKeepsModals_def returns_def modalsOK_def atMostOneModal_def visibleModals_def keyOrder_def
  modal_frame cd_Show_def sd_Show_def cs_Show_def pms_Show_def si_Show_def hs_Toggle_def

lemma fresh_keys:
  assumes "visibleModals a = []" "viewState a \<noteq> ViewConnecting"
  shows "keyKeepsModals a (key_help a)" "keyKeepsModals a (key_q a)"
    "keyKeepsModals a (key_l a)" "keyKeepsModals a (key_L ext a)"
    "keyKeepsModals a (key_confirm ext act a)" "keyKeepsModals a (key_f ext a)"
    "keyKeepsModals a (key_t ext a)" "keyKeepsModals a (key_m ext a)"
    "keyKeepsModals a (key_c ext a)" "keyKeepsModals a (key_slash a)"
    "keyKeepsModals a (key_s ext a)" "keyKeepsModals a (key_w ext a)"
    "keyKeepsModals a (key_k ext a)" "keyKeepsModals a (key_match ext op a)"
    "keyKeepsModals a (key_1 a)" "keyKeepsModals a (key_2 a)" "keyKeepsModals a (key_3 a)"
    "keyKeepsModals a (key_4 a)" "keyKeepsModals a (key_5 a)" "keyKeepsModals a (key_9 a)"
  using assms [unfolded visibleModals_Nil]
  by (simp_all add: key_help_def key_q_def key_l_def key_L_def key_confirm_def key_f_def
      key_t_def key_m_def key_c_def key_slash_def key_s_def key_w_def key_k_def key_match_def
      key_1_def key_2_def key_3_def key_4_def key_5_def key_9_def fresh_simps
      split: option.split Item.split)

lemma fresh_key_enter:
  assumes "visibleModals a = []" "viewState a \<noteq> ViewConnecting"
  shows "keyKeepsModals a (key_enter ext a)"
  using assms [unfolded visibleModals_Nil]
  by (cases "viewState a")
     (simp_all add: key_enter_def fresh_simps split: option.split Item.split)

lemma fresh_key_r:
  assumes "visibleModals a = []" "viewState a \<noteq> ViewConnecting"
  shows "keyKeepsModals a (key_r a)"
  using assms [unfolded visibleModals_Nil]
  by (cases "viewState a") (simp_all add: key_r_def fresh_simps split: option.split)

lemma fresh_key_esc:
  assumes "visibleModals a = []" "viewState a \<noteq> ViewConnecting"
  shows "keyKeepsModals a (key_esc ext a)"
  using assms [unfolded visibleModals_Nil]
  by (cases "viewState a") (simp_all add: key_esc_def fresh_simps)

lemma fresh_keySwitch:
  assumes "visibleModals a = []" "viewState a \<noteq> ViewConnecting"
  shows "keyKeepsModals a (keySwitch ext key a)"
proof -
  have q: "keyKeepsModals a (returns a c)" for c
    using assms [unfolded visibleModals_Nil] by (simp add: fresh_simps)
  have n: "keyKeepsModals a None" by (simp add: keyKeepsModals_def)
  show ?thesis
    by (simp add: keySwitch_def q n fresh_keys [OF assms] fresh_key_enter [OF assms]
        fresh_key_r [OF assms] fresh_key_esc [OF assms])
qed

lemma modalsOK_same:
  assumes "visibleModals a = []" "viewState a \<noteq> ViewConnecting" "modalStep a a'"
  shows "modalsOK a'"
  by (rule modalsOK_step [OF _ assms(3)])
     (use assms(1,2) in \<open>simp add: modalsOK_def atMostOneModal_def\<close>)

text \<open>Every key keeps what the loop keeps about the modals.\<close>

lemma key_modals:
  assumes ok: "modalsOK a" and r: "handleKeyMsg ext vu key a = Inr (a', cmd)"
  shows "modalsOK a'"
proof -
  note step = modalsOK_step [OF ok]
  have fstD: "x = (a', cmd) \<Longrightarrow> a' = fst x" for x :: "App \<times> Cmd option"
    by simp
  consider (connecting) "viewState a = ViewConnecting"
    | (modal) m where "viewState a \<noteq> ViewConnecting" "firstVisible keyOrder a = Some m"
    | (none) "viewState a \<noteq> ViewConnecting" "visibleModals a = []"
    by (cases "firstVisible keyOrder a")
       (auto simp: firstVisible_def visibleModals_def find_None_iff filter_empty_conv)
  then show ?thesis
  proof cases
    case connecting
    with r have "a' = a" by (auto simp: handleKeyMsg_def split: if_splits)
    with ok show ?thesis by simp
  next
    case modal
    have "modalStep a a'"
      using modal r modal_podMulti [where a = a and ext = ext and msg = "KeyMsg key"]
      by (auto simp: firstVisible_def keyOrder_def handleKeyMsg_def keepsModals_def
          modal_updates modal_search split: if_splits dest!: fstD)
    then show ?thesis by (rule step)
  next
    case none
    from none(2) have nv: "\<not> cd_visible (confirmDialog a)" "\<not> sd_visible (scaleDialog a)"
      "\<not> hs_visible (helpScreen a)" "\<not> cs_visible (containerSelector a)"
      "\<not> pms_visible (podMultiSelector a)" "\<not> pi_visible (passphraseInput a)"
      "\<not> si_visible (searchInput a)"
      by (simp_all add: visibleModals_Nil)
    from r none(1) nv have r': "(case filterModeList vu (KeyMsg key) a of Some r \<Rightarrow> r
         | None \<Rightarrow> (case keySwitch ext key a of Some r \<Rightarrow> r
                      | None \<Rightarrow> updateChild vu (KeyMsg key) a)) = Inr (a', cmd)"
      by (simp add: handleKeyMsg_def)
    show ?thesis
    proof (cases "filterModeList vu (KeyMsg key) a")
      case (Some x)
      with r' have "filterModeList vu (KeyMsg key) a = Some (Inr (a', cmd))" by simp
      from modal_filter [OF this] show ?thesis
        by (rule modalsOK_same [OF none(2,1)])
    next
      case None
      show ?thesis
      proof (cases "keySwitch ext key a")
        case (Some x)
        with None r' fresh_keySwitch [OF none(2,1), of ext key] show ?thesis
          by (simp add: keyKeepsModals_def)
      next
        case None': None
        with None r' modal_child [of a vu "KeyMsg key"] have "modalStep a a'"
          by (simp add: keepsModals_def)
        then show ?thesis by (rule modalsOK_same [OF none(2,1)])
      qed
    qed
  qed
qed

lemma Update_modals:
  assumes ok: "modalsOK a" and r: "Update ext vu msg a = Inr (a', cmd)"
  shows "modalsOK a'"
proof (cases msg)
  case (KeyMsg key)
  with r key_modals [OF ok, of ext vu key a' cmd] show ?thesis
    by (simp add: Update_def)
next
  case (OtherMsg n)
  with r modal_dialogsThenChild [of a ext vu msg] have "modalStep a a'"
    by (auto simp: Update_def keepsModals_def)
  then show ?thesis by (rule modalsOK_step [OF ok])
next
  case (containersResultMsg cs e)
  with r modal_containers [of a ext cs e] have "modalStep a a'"
    by (auto simp: Update_def keepsModals_def)
  then show ?thesis by (rule modalsOK_step [OF ok])
next
  case (multiPodLogStreamEndedMsg pn e)
  with r modal_multiEnded [of a pn e] have "modalStep a a'"
    by (auto simp: Update_def keepsModals_def)
  then show ?thesis by (rule modalsOK_step [OF ok])
next
  case notificationExpiredMsg
  with r have "modalStep a a'" by (auto simp: Update_def modalStep_def)
  then show ?thesis by (rule modalsOK_step [OF ok])
next
  case spinnerTickMsg
  with r have "modalStep a a'" by (auto simp: Update_def modalStep_def case_prod_beta)
  then show ?thesis by (rule modalsOK_step [OF ok])
qed (rule modalsOK_step [OF ok],
     use r in \<open>auto simp: Update_def modal_handlers dest!: arg_cong [where f = fst]\<close>)+

lemma start_modalsOK: "modalsOK (startApp ext cfg)"
  by (simp add: startApp_def Init_def NewApp_def modalsOK_def atMostOneModal_def
      visibleModals_def keyOrder_def NewConfirmDialog_def NewScaleDialog_def
      NewContainerSelector_def NewPodMultiSelector_def NewPassphraseInput_def
      split: option.split)

lemma reachable_modalsOK: "reachable ext vu cfg a \<Longrightarrow> modalsOK a"
proof (induction rule: reachable.induct)
  case reachable_start
  show ?case by (rule start_modalsOK)
next
  case (reachable_step a msg a' cmd)
  from Update_modals [OF reachable_step.IH reachable_step.hyps(2)] show ?case .
qed

subsection \<open>Routing to a visible modal\<close>

lemma firstVisible_keyOrder:
  "firstVisible keyOrder a = Some m \<longleftrightarrow>
     (if cd_visible (confirmDialog a) then m = ConfirmModal
      else if sd_visible (scaleDialog a) then m = ScaleModal
      else if hs_visible (helpScreen a) then m = HelpModal
      else if cs_visible (containerSelector a) then m = ContainerSelectorModal
      else if pms_visible (podMultiSelector a) then m = MultiPodSelectorModal
      else if pi_visible (passphraseInput a) then m = PassphraseModal
      else if si_visible (searchInput a) then m = SearchModal
      else False)"
  by (auto simp: firstVisible_def keyOrder_def)

lemma firstVisible_otherOrder:
  "firstVisible otherOrder a = Some m \<longleftrightarrow>
     (if cd_visible (confirmDialog a) then m = ConfirmModal
      else if sd_visible (scaleDialog a) then m = ScaleModal
      else if cs_visible (containerSelector a) then m = ContainerSelectorModal
      else if pms_visible (podMultiSelector a) then m = MultiPodSelectorModal
      else if pi_visible (passphraseInput a) then m = PassphraseModal
      else False)"
  by (auto simp: firstVisible_def otherOrder_def)

lemma modals_stopLogStream:
  "confirmDialog (stopLogStream a) = confirmDialog a" "scaleDialog (stopLogStream a) = scaleDialog a"
  "helpScreen (stopLogStream a) = helpScreen a"
  "containerSelector (stopLogStream a) = containerSelector a"
  "podMultiSelector (stopLogStream a) = podMultiSelector a"
  "passphraseInput (stopLogStream a) = passphraseInput a"
  "searchInput (stopLogStream a) = searchInput a"
  by (simp_all add: stopLogStream_def split: option.split)

lemma modal_blocks_others:
  "otherModalsUnchanged ConfirmModal a (fst (updateConfirmDialog ext msg a))"
  "otherModalsUnchanged ScaleModal a (fst (updateScaleDialog ext msg a))"
  "otherModalsUnchanged HelpModal a (fst (updateHelpScreen msg a))"
  "otherModalsUnchanged ContainerSelectorModal a (fst (updateContainerSelector ext msg a))"
  "otherModalsUnchanged PassphraseModal a (fst (updatePassphraseInput ext msg a))"
  "otherModalsUnchanged SearchModal a (fst (updateSearchInput ext msg a))"
  by (simp_all add: otherModalsUnchanged_def updateConfirmDialog_def updateScaleDialog_def
      updateHelpScreen_def updateContainerSelector_def updatePassphraseInput_def updateSearchInput_def
      modals_stopLogStream case_prod_beta Let_def
      split: option.split ConfirmAction.split bool.split)

lemma podMulti_others:
  assumes "updatePodMultiSelector ext msg a = Inr (a', cmd)"
  shows "otherModalsUnchanged MultiPodSelectorModal a a'"
proof -
  let ?s = "fst (pms_Update ext msg (podMultiSelector a))"
  let ?a1 = "a\<lparr>podMultiSelector := pms_Hide ?s\<rparr>"
  have start: "otherModalsUnchanged MultiPodSelectorModal a a'"
    if "startMultiPodStreaming pns ?a1 = Inr (a', cmd)" for pns
    using startMulti_frame [OF that] by (auto simp: otherModalsUnchanged_def)
  from assms start show ?thesis
    by (auto simp: updatePodMultiSelector_def otherModalsUnchanged_def case_prod_beta Let_def
        split: if_splits)
qed

lemma reachable_samples:
  "reachable ext0 vu0 cfg1 podsState" "reachable ext0 vu0 cfg1 logsState"
  "reachable ext0 vu0 cfg1 helpState" "reachable ext0 vu0 cfg1 selectorState"
  "reachable ext0 vu0 cfg1 searchState" "reachable ext0 vu0 cfg2 helpPassState"
  unfolding podsState_def logsState_def helpState_def selectorState_def searchState_def
    helpPassState_def
  by (intro reachable_stateAfter reachable_start)+

text \<open>
  Claim C3, as stated, fails. The state reached when the answer that a passphrase is
  required arrives while the help screen is open has two visible modals. With the help
  screen open in the pods view, a message of a library component is passed to the pod
  list, whose command the loop returns; with the search input open in the logs view, it
  is passed to the log viewer. And with the multi-pod selector open, a pod refresh tick is
  handled by the loop itself, which returns the fetch and the next tick.
\<close>

theorem modal_routing_counterexample:
  "reachable ext0 vu0 cfg2 helpPassState
   \<and> visibleModals helpPassState = [HelpModal, PassphraseModal]
   \<and> reachable ext0 vu0 cfg1 helpState
   \<and> visibleModals helpState = [HelpModal]
   \<and> Update ext0 vu0 (OtherMsg 7) helpState = Inr (helpState, Some (ExtCmd 7))
   \<and> reachable ext0 vu0 cfg1 searchState
   \<and> visibleModals searchState = [SearchModal]
   \<and> Update ext0 vu1 (OtherMsg 7) searchState = Inr (searchState, Some Quit)
   \<and> reachable ext0 vu0 cfg1 selectorState
   \<and> visibleModals selectorState = [MultiPodSelectorModal]
   \<and> Update ext0 vu0 podRefreshTickMsg selectorState
       = Inr (selectorState, tea_Batch [Some fetchPods, Some schedulePodRefresh])"
proof -
  have "visibleModals helpPassState = [HelpModal, PassphraseModal]"
    "visibleModals helpState = [HelpModal]"
    "Update ext0 vu0 (OtherMsg 7) helpState = Inr (helpState, Some (ExtCmd 7))"
    "visibleModals searchState = [SearchModal]"
    "Update ext0 vu1 (OtherMsg 7) searchState = Inr (searchState, Some Quit)"
    "visibleModals selectorState = [MultiPodSelectorModal]"
    "Update ext0 vu0 podRefreshTickMsg selectorState
       = Inr (selectorState, tea_Batch [Some fetchPods, Some schedulePodRefresh])"
    by code_simp+
  with reachable_samples show ?thesis by simp
qed

text \<open>
  Claim C3, amended. In every application state reachable from startup, at most one of the
  modals other than the passphrase input (confirm, scale, help, container-selector,
  multi-pod-selector, search) is visible. While a modal is visible, every key message is
  routed exclusively to the first visible modal in the fixed priority order confirm,
  scale, help, container-selector, multi-pod-selector, passphrase, search, and every
  message that is neither a key message nor a message the loop has a handler for is routed
  exclusively to the first visible modal in the order confirm, scale, container-selector,
  multi-pod-selector, passphrase: the result is what that modal's update gives, before
  the message reaches the update function of the current view, and that update leaves
  every other modal as it is. This does not extend to the messages the loop has a handler
  for (results, ticks, log lines, window size), which do not reach the update function of
  the current view either.
\<close>

theorem modal_routing:
  assumes "reachable ext vu cfg a"
  shows "atMostOneModal a
   \<and> (firstVisible keyOrder a = Some m \<longrightarrow>
        Update ext vu (KeyMsg key) a = askModal ext m (KeyMsg key) a)
   \<and> (firstVisible otherOrder a = Some m \<longrightarrow>
        Update ext vu (OtherMsg n) a = askModal ext m (OtherMsg n) a)
   \<and> (askModal ext m msg a = Inr (a', cmd) \<longrightarrow> otherModalsUnchanged m a a')
   \<and> (isLoopMsg msg \<longrightarrow> Update ext vu msg a = Update ext vu' msg a)"
proof -
  from reachable_modalsOK [OF assms] have ok: "modalsOK a" .
  then have p0: "atMostOneModal a" by (simp add: modalsOK_def)
  have p1: "Update ext vu (KeyMsg key) a = askModal ext m (KeyMsg key) a"
    if fv: "firstVisible keyOrder a = Some m"
  proof -
    from fv have "visibleModals a \<noteq> []"
      by (auto simp: firstVisible_def visibleModals_def filter_empty_conv find_Some_iff)
    with ok have "viewState a \<noteq> ViewConnecting" by (auto simp: modalsOK_def)
    with fv show ?thesis
      by (auto simp: firstVisible_keyOrder Update_def handleKeyMsg_def askModal_def
          split: if_splits)
  qed
  have p2: "Update ext vu (OtherMsg n) a = askModal ext m (OtherMsg n) a"
    if "firstVisible otherOrder a = Some m"
    using that
    by (auto simp: firstVisible_otherOrder Update_def updateDialogsThenChild_def askModal_def
        split: if_splits)
  have fstD: "x = (a', cmd) \<Longrightarrow> a' = fst x" for x :: "App \<times> Cmd option"
    by simp
  have p3: "otherModalsUnchanged m a a'" if "askModal ext m msg a = Inr (a', cmd)"
    using that podMulti_others [of ext msg a a' cmd]
    by (cases m) (auto simp: askModal_def modal_blocks_others dest!: fstD)
  have p4: "Update ext vu msg a = Update ext vu' msg a" if "isLoopMsg msg"
    using that by (cases msg) (simp_all add: isLoopMsg_def Update_def)
  from p0 p1 p2 p3 p4 show ?thesis by blast
qed

lemma selector_state_facts:
  "atMostOneModal selectorState"
  "firstVisible keyOrder selectorState = Some MultiPodSelectorModal"
  "firstVisible otherOrder selectorState = Some MultiPodSelectorModal"
  "isLoopMsg podRefreshTickMsg"
  "case askModal ext0 MultiPodSelectorModal (KeyMsg ''esc'') selectorState of
     Inl p \<Rightarrow> False
   | Inr (a', cmd) \<Rightarrow> cmd = None \<and> visibleModals a' = []"
  "askModal ext0 MultiPodSelectorModal (OtherMsg 7) selectorState = Inr (selectorState, None)"
  by code_simp+

theorem modal_routing_witness:
  "reachable ext0 vu0 cfg1 selectorState
   \<and> atMostOneModal selectorState
   \<and> firstVisible keyOrder selectorState = Some MultiPodSelectorModal
   \<and> (\<exists>a'. Update ext0 vu0 (KeyMsg ''esc'') selectorState = Inr (a', None)
            \<and> visibleModals a' = []
            \<and> otherModalsUnchanged MultiPodSelectorModal selectorState a')
   \<and> firstVisible otherOrder selectorState = Some MultiPodSelectorModal
   \<and> Update ext0 vu0 (OtherMsg 7) selectorState = Inr (selectorState, None)
   \<and> isLoopMsg podRefreshTickMsg
   \<and> Update ext0 vu0 podRefreshTickMsg selectorState
       = Update ext0 vu1 podRefreshTickMsg selectorState"
proof -
  note f = selector_state_facts
  note r = reachable_samples(4)
  from f(5) obtain a1 where
    u1: "askModal ext0 MultiPodSelectorModal (KeyMsg ''esc'') selectorState = Inr (a1, None)"
    and v1: "visibleModals a1 = []"
    by (auto split: sum.splits prod.splits)
  note t = modal_routing [OF r, where m = MultiPodSelectorModal and key = "''esc''" and n = 7
      and msg = "KeyMsg ''esc''" and a' = a1 and cmd = None and vu' = vu1]
  note t' = modal_routing [OF r, where msg = podRefreshTickMsg and vu' = vu1]
  have k: "Update ext0 vu0 (KeyMsg ''esc'') selectorState = Inr (a1, None)"
    using t [THEN conjunct2, THEN conjunct1] f(2) u1 by simp
  have o1: "otherModalsUnchanged MultiPodSelectorModal selectorState a1"
    using t [THEN conjunct2, THEN conjunct2, THEN conjunct2, THEN conjunct1] u1 by simp
  have ot: "Update ext0 vu0 (OtherMsg 7) selectorState = Inr (selectorState, None)"
    using t [THEN conjunct2, THEN conjunct2, THEN conjunct1] f(3,6) by simp
  have lp: "Update ext0 vu0 podRefreshTickMsg selectorState
      = Update ext0 vu1 podRefreshTickMsg selectorState"
    using t' [THEN conjunct2, THEN conjunct2, THEN conjunct2, THEN conjunct2] f(4) by simp
  from k v1 o1 have e1: "\<exists>a'. Update ext0 vu0 (KeyMsg ''esc'') selectorState = Inr (a', None)
            \<and> visibleModals a' = []
            \<and> otherModalsUnchanged MultiPodSelectorModal selectorState a'"
    by simp
  from r t [THEN conjunct1] f(2,3,4) e1 ot lp show ?thesis by simp
qed


end
